theory Spec2Isabelle
  imports Complex_Main
begin

section \<open>Shared data of the bot\<close>

text \<open>
  JavaScript numbers are modelled as \<open>real\<close> where the code computes with fractions and
  square roots, and as \<open>int\<close> for the engine's tick counter. Vectors (\<open>Vector2\<close>) are pairs
  \<open>(x, y)\<close>. Logging and debug strings have no effect on orders or state and are left out.
\<close>

type_synonym Vector2 = "real \<times> real"

datatype MovementZone = Water | AmphibiousDestroyer | OtherMovementZone

datatype ObjectType = Building | OtherObjectType

datatype TerrainType = WaterTerrain | OtherTerrain

datatype StanceType = Deployed | OtherStance

datatype AttackState = JustFired | OtherAttackState

datatype OrderType = Move | Attack | AttackMove | DeploySelected

text \<open>
  The fields of \<open>UnitData\<close> (and of its \<open>rules\<close> and \<open>tile\<close>) that the modelled code reads.
  A weapon that is absent (\<open>primaryWeapon?.maxRange\<close> undefined) is \<open>None\<close>. \<open>hitPoints\<close> and
  \<open>maxHitPoints\<close> are the unit's remaining and full health; \<open>rules.strength\<close> and
  \<open>rules.points\<close> are values of the unit type's rules, the same for every unit of the type.
\<close>

record UnitData =
  ud_id :: nat
  ud_name :: string
  ud_type :: ObjectType
  ud_rx :: real
  ud_ry :: real
  ud_stance :: StanceType
  ud_attackState :: AttackState
  ud_hitPoints :: real
  ud_maxHitPoints :: real
  ud_primaryMaxRange :: "real option"
  ud_secondaryMaxRange :: "real option"
  ud_rules_name :: string
  ud_rules_type :: ObjectType
  ud_rules_isSelectableCombatant :: bool
  ud_rules_movementZone :: MovementZone
  ud_rules_strength :: real
  ud_rules_points :: real
  ud_rules_canDisguise :: bool

text \<open>An order intent \<open>{ unitId, orderType, point?, targetId? }\<close>.\<close>

record BatchableAction =
  ba_unitId :: nat
  ba_orderType :: OrderType
  ba_point :: "Vector2 option"
  ba_targetId :: "nat option"

text \<open>
  Modelled from the spec: \<open>map.js\<close> is not among the sources. The distance between two points
  is the Euclidean distance, and the distance between two units is the distance between their
  tile coordinates \<open>(rx, ry)\<close>, as the inline computations of the missions are.
\<close>

definition getDistanceBetweenPoints :: "Vector2 \<Rightarrow> Vector2 \<Rightarrow> real" where
  "getDistanceBetweenPoints p q = sqrt ((fst p - fst q)\<^sup>2 + (snd p - snd q)\<^sup>2)"

definition getDistanceBetweenUnits :: "UnitData \<Rightarrow> UnitData \<Rightarrow> real" where
  "getDistanceBetweenUnits a b = getDistanceBetweenPoints (ud_rx a, ud_ry a) (ud_rx b, ud_ry b)"

text \<open>
  Modelled from the spec: the action batcher is not among the sources. Two intents are the same
  (\<open>isSameAs\<close>) when unit, order kind, target point and target unit all agree; \<open>push\<close> appends
  the intent to the tick's buffer, modelled as the list of pushed intents in push order.
\<close>

definition isSameAs :: "BatchableAction \<Rightarrow> BatchableAction \<Rightarrow> bool" where
  "isSameAs a b = (ba_unitId a = ba_unitId b \<and> ba_orderType a = ba_orderType b
                   \<and> ba_point a = ba_point b \<and> ba_targetId a = ba_targetId b)"

type_synonym ActionBatcher = "BatchableAction list"

definition push :: "ActionBatcher \<Rightarrow> BatchableAction \<Rightarrow> ActionBatcher" where
  "push batcher a = batcher @ [a]"

text \<open>\<open>Math.round\<close> rounds to the nearest integer, halves upwards.\<close>

definition Math_round :: "real \<Rightarrow> real" where
  "Math_round v = of_int \<lfloor>v + 1 / 2\<rfloor>"

text \<open>\<open>a || b\<close> on numbers: \<open>undefined\<close> and \<open>0\<close> are falsy.\<close>

definition orElse :: "real option \<Rightarrow> real \<Rightarrow> real" where
  "orElse a b = (case a of None \<Rightarrow> b | Some v \<Rightarrow> if v = 0 then b else v)"

subsection \<open>Micro orders (common.ts)\<close>

definition manageMoveMicro :: "UnitData \<Rightarrow> Vector2 \<Rightarrow> BatchableAction" where
  "manageMoveMicro attacker attackPoint =
     (if ud_name attacker = ''E1'' \<and> ud_stance attacker = Deployed
      then \<lparr>ba_unitId = ud_id attacker, ba_orderType = DeploySelected,
            ba_point = None, ba_targetId = None\<rparr>
      else \<lparr>ba_unitId = ud_id attacker, ba_orderType = Move,
            ba_point = Some attackPoint, ba_targetId = None\<rparr>)"

definition manageAttackMicro :: "UnitData \<Rightarrow> UnitData \<Rightarrow> BatchableAction" where
  "manageAttackMicro attacker target =
     (let distance = getDistanceBetweenUnits attacker target;
          deployedWeaponRange = orElse (ud_secondaryMaxRange attacker) 5;
          isDeployed = (ud_stance attacker = Deployed);
          deploy = \<lparr>ba_unitId = ud_id attacker, ba_orderType = DeploySelected,
                    ba_point = None, ba_targetId = None\<rparr>
      in if ud_name attacker = ''E1'' \<and> \<not> isDeployed
            \<and> (distance \<le> deployedWeaponRange \<or> ud_attackState attacker = JustFired)
         then deploy
         else if ud_name attacker = ''E1'' \<and> isDeployed \<and> distance > deployedWeaponRange
         then deploy
         else \<lparr>ba_unitId = ud_id attacker, ba_orderType = Attack,
               ba_point = None, ba_targetId = Some (ud_id target)\<rparr>)"

section \<open>Production rules: BasicGroundUnit\<close>

text \<open>
  The class \<open>BasicGroundUnit\<close> with its five constructor fields; \<open>maxGlobalCount\<close> is
  \<open>number | null\<close>, \<open>null\<close> being \<open>None\<close>.
\<close>

record BasicGroundUnit =
  basePriority :: real
  baseAmount :: real
  antiGroundPower :: real
  antiAirPower :: real
  maxGlobalCount :: "real option"

text \<open>
  \<open>new BasicGroundUnit(basePriority, baseAmount, antiGroundPower = 1, antiAirPower = 0,
  maxGlobalCount = null)\<close>: the constructor with its defaults.
\<close>

definition newBasicGroundUnit2 :: "real \<Rightarrow> real \<Rightarrow> BasicGroundUnit" where
  "newBasicGroundUnit2 p a =
     \<lparr>basePriority = p, baseAmount = a, antiGroundPower = 1, antiAirPower = 0,
      maxGlobalCount = None\<rparr>"

definition newBasicGroundUnit3 :: "real \<Rightarrow> real \<Rightarrow> real \<Rightarrow> BasicGroundUnit" where
  "newBasicGroundUnit3 p a g =
     \<lparr>basePriority = p, baseAmount = a, antiGroundPower = g, antiAirPower = 0,
      maxGlobalCount = None\<rparr>"

definition newBasicGroundUnit4 :: "real \<Rightarrow> real \<Rightarrow> real \<Rightarrow> real \<Rightarrow> BasicGroundUnit" where
  "newBasicGroundUnit4 p a g r =
     \<lparr>basePriority = p, baseAmount = a, antiGroundPower = g, antiAirPower = r,
      maxGlobalCount = None\<rparr>"

text \<open>
  \<open>getPriority\<close> reads one thing from the game: the number of own visible units whose rules
  name is the queried type's name (\<open>game.getVisibleUnits(...).length\<close>). The game is passed as
  that counting function.
\<close>

definition getPriority :: "BasicGroundUnit \<Rightarrow> (string \<Rightarrow> nat) \<Rightarrow> string \<Rightarrow> real" where
  "getPriority u visibleSelfCount technoName =
     (case maxGlobalCount u of
        Some cap \<Rightarrow>
          (let currentCount = visibleSelfCount technoName
           in if real currentCount \<ge> cap then 0 else 0)
      | None \<Rightarrow> 0)"

text \<open>
  The entries of \<open>BUILDING_NAME_TO_RULES\<close> that are built with \<open>new BasicGroundUnit(...)\<close>, in
  the table's order.
\<close>

definition BASIC_GROUND_UNIT_RULES :: "(string \<times> BasicGroundUnit) list" where
  "BASIC_GROUND_UNIT_RULES =
     [(''E1'', newBasicGroundUnit4 2 2 (2 / 10) 0),
      (''ENGINEER'', newBasicGroundUnit3 1 0 0),
      (''MTNK'', newBasicGroundUnit4 10 3 2 0),
      (''MGTK'', newBasicGroundUnit4 10 1 (25 / 10) 0),
      (''FV'', newBasicGroundUnit4 5 2 (5 / 10) 1),
      (''CLEG'', newBasicGroundUnit2 0 0),
      (''SHAD'', newBasicGroundUnit2 0 0),
      (''E2'', newBasicGroundUnit4 2 2 (2 / 10) 0),
      (''SENGINEER'', newBasicGroundUnit3 1 0 0),
      (''FLAKT'', newBasicGroundUnit4 2 2 (1 / 10) (3 / 10)),
      (''YURI'', newBasicGroundUnit4 1 1 1 0),
      (''DOG'', newBasicGroundUnit4 1 1 0 0),
      (''HTNK'', newBasicGroundUnit4 10 3 3 0),
      (''APOC'', newBasicGroundUnit4 6 1 5 0),
      (''HTK'', newBasicGroundUnit4 5 2 (33 / 100) (15 / 10))]"

definition DEFAULT_BUILDING_PRIORITY :: real where
  "DEFAULT_BUILDING_PRIORITY = 0"

section \<open>Mission actions\<close>

text \<open>
  What an update of a mission or of a squad returns, of the actions that \<open>mission.ts\<close> (not
  among the sources) provides: \<open>noop()\<close>, \<open>requestUnits(types, priority)\<close>, \<open>disbandMission()\<close>
  and \<open>searchBuildings(point, radius)\<close>.
\<close>

datatype MissionAction =
  Noop | RequestUnits "string list" real | DisbandMission | SearchBuildings Vector2 real

section \<open>Attack mission: target scoring and target switching\<close>

text \<open>
  What the attack mission reads from the game and the awareness cache: the tick counter,
  \<open>getHostilesNearPoint2d(point, radius)\<close> (the unit ids, in the order returned),
  \<open>getUnitData(id)\<close> (possibly undefined), \<open>isOwnedByNeutral\<close> (utils.js is not among the
  sources, so it is a parameter) and the tile coordinates of the mission's own units
  (\<open>getUnitsGameObjectData\<close>).

  Modelled from the spec: the class \<open>CombatSquad\<close> is not among the sources. A squad executes
  against the target that its mission gives it: its attack area is the value that the mission
  writes with \<open>setAttackArea\<close> and reads with \<open>getAttackArea\<close>, and its update returns a mission
  action, here the input \<open>aw_squadUpdate\<close>.
\<close>

record AttackWorld =
  aw_currentTick :: int
  aw_squadUpdate :: MissionAction
  aw_hostilesNearPoint2d :: "Vector2 \<Rightarrow> real \<Rightarrow> nat list"
  aw_getUnitData :: "nat \<Rightarrow> UnitData option"
  aw_isOwnedByNeutral :: "UnitData option \<Rightarrow> bool"
  aw_unitTiles :: "Vector2 list"

text \<open>
  The fields of \<open>AttackMission\<close> that target switching and the attacking state read and
  write. The squad's attack area (\<open>squad.getAttackArea()\<close>, \<open>squad.setAttackArea\<close>) is kept as
  a field, and \<open>currentGameApi\<close> as the flag whether it has been set (\<open>_onAiUpdate\<close> sets it
  before it runs the handler of the mission's state).
\<close>

record AttackMission =
  am_radius :: real
  am_squadAttackArea :: Vector2
  am_hasGameApi :: bool
  am_lastTargetSeenAt :: int
  am_lastTargetUpdateTime :: int
  am_currentTargetLockTime :: int
  am_recentTargets :: "Vector2 list"
  am_currentTargetScore :: real
  am_lastBuildingSearchTime :: int
  am_currentSearchRadius :: real

text \<open>
  The constructor, for an attack area and a radius: the field initialisers of the class. The
  lock time and the score of the current target start at 0 and the target memory is empty.
\<close>

definition newAttackMission :: "Vector2 \<Rightarrow> real \<Rightarrow> AttackMission" where
  "newAttackMission attackArea radius =
     \<lparr>am_radius = radius, am_squadAttackArea = attackArea, am_hasGameApi = False,
      am_lastTargetSeenAt = 0, am_lastTargetUpdateTime = 0, am_currentTargetLockTime = 0,
      am_recentTargets = [], am_currentTargetScore = 0, am_lastBuildingSearchTime = 0,
      am_currentSearchRadius = 20\<rparr>"

datatype jsError = TypeError | ThrownError

definition TARGET_LOCK_DURATION :: int where "TARGET_LOCK_DURATION = 150"
definition TARGET_SWITCH_MIN_IMPROVEMENT :: real where "TARGET_SWITCH_MIN_IMPROVEMENT = 3 / 10"
definition TARGET_MEMORY_SIZE :: nat where "TARGET_MEMORY_SIZE = 3"
definition NAVAL_YARD_SCORE_MULTIPLIER :: real where "NAVAL_YARD_SCORE_MULTIPLIER = 3"
definition BUILDING_SEARCH_COOLDOWN :: int where "BUILDING_SEARCH_COOLDOWN = 30"
definition SEARCH_RADIUS_INCREMENT :: real where "SEARCH_RADIUS_INCREMENT = 10"

text \<open>
  \<open>SEARCH_EXPAND_INTERVAL\<close> and \<open>MAX_SEARCH_RADIUS\<close> of the attack mission's file; the naval
  mission has constants of the same names and other values.
\<close>

definition am_SEARCH_EXPAND_INTERVAL :: int where "am_SEARCH_EXPAND_INTERVAL = 60"
definition am_MAX_SEARCH_RADIUS :: real where "am_MAX_SEARCH_RADIUS = 100"

definition am_getCenterOfMass :: "AttackMission \<Rightarrow> AttackWorld \<Rightarrow> Vector2 option" where
  "am_getCenterOfMass am w =
     (if \<not> am_hasGameApi am then None
      else if aw_unitTiles w = [] then None
      else Some (sum_list (map fst (aw_unitTiles w)) / real (length (aw_unitTiles w)),
                 sum_list (map snd (aw_unitTiles w)) / real (length (aw_unitTiles w))))"

text \<open>One round of the scoring loop: the new \<open>(score, hasNavalYard)\<close>.\<close>

definition scoreHostile :: "real \<times> bool \<Rightarrow> UnitData \<Rightarrow> real \<times> bool" where
  "scoreHostile acc hostile =
     (if ud_rules_type hostile = Building then
        (if ud_name hostile = ''NAYARD''
         then (fst acc + 15 * NAVAL_YARD_SCORE_MULTIPLIER, True)
         else (fst acc + 10, snd acc))
      else if ud_rules_isSelectableCombatant hostile then (fst acc + 5, snd acc)
      else (fst acc + 1, snd acc))"

text \<open>
  \<open>evaluateTarget\<close>. The filter keeps every entry that is not owned by a neutral player; the
  result is cast to \<open>UnitData[]\<close>, so an undefined entry that passes the filter raises a
  \<open>TypeError\<close> at \<open>hostile.rules\<close>.
\<close>

definition evaluateTarget :: "AttackMission \<Rightarrow> AttackWorld \<Rightarrow> Vector2 \<Rightarrow> jsError + real" where
  "evaluateTarget am w target =
     (let hostiles = filter (\<lambda>u. \<not> aw_isOwnedByNeutral w u)
                       (map (aw_getUnitData w) (aw_hostilesNearPoint2d w target (am_radius am)))
      in if None \<in> set hostiles then Inl TypeError
         else
           (let (score, hasNavalYard) = foldl scoreHostile (0, False) (map the hostiles)
            in case am_getCenterOfMass am w of
                 None \<Rightarrow> Inr score
               | Some centerOfMass \<Rightarrow>
                   (let distance = sqrt ((fst centerOfMass - fst target)\<^sup>2
                                         + (snd centerOfMass - snd target)\<^sup>2)
                    in if hasNavalYard then Inr (score / (1 + distance * (5 / 1000)))
                       else Inr (score / (1 + distance * (1 / 100))))))"

definition recentlyVisited :: "Vector2 list \<Rightarrow> Vector2 \<Rightarrow> bool" where
  "recentlyVisited recentTargets newTarget =
     list_ex (\<lambda>target. \<bar>fst target - fst newTarget\<bar> < 5 \<and> \<bar>snd target - snd newTarget\<bar> < 5)
       recentTargets"

definition shouldSwitchTarget ::
  "AttackMission \<Rightarrow> AttackWorld \<Rightarrow> Vector2 \<Rightarrow> int \<Rightarrow> jsError + bool" where
  "shouldSwitchTarget am w newTarget currentTick =
     (if currentTick - am_currentTargetLockTime am < TARGET_LOCK_DURATION
         \<and> aw_hostilesNearPoint2d w (am_squadAttackArea am) (am_radius am) \<noteq> []
      then Inr False
      else case evaluateTarget am w newTarget of
             Inl e \<Rightarrow> Inl e
           | Inr newScore \<Rightarrow>
               if recentlyVisited (am_recentTargets am) newTarget then Inr False
               else Inr (newScore > am_currentTargetScore am * (1 + TARGET_SWITCH_MIN_IMPROVEMENT)))"

text \<open>\<open>updateTarget\<close>: the new target is remembered, and the memory keeps the last three.\<close>

definition updateTarget ::
  "AttackMission \<Rightarrow> AttackWorld \<Rightarrow> Vector2 \<Rightarrow> int \<Rightarrow> jsError + AttackMission" where
  "updateTarget am w newTarget currentTick =
     (let am1 = am\<lparr>am_squadAttackArea := newTarget, am_lastTargetSeenAt := currentTick,
                   am_lastTargetUpdateTime := currentTick,
                   am_currentTargetLockTime := currentTick\<rparr>
      in case evaluateTarget am1 w newTarget of
           Inl e \<Rightarrow> Inl e
         | Inr score \<Rightarrow>
             (let pushed = am_recentTargets am1 @ [newTarget]
              in Inr (am1\<lparr>am_currentTargetScore := score,
                         am_recentTargets :=
                           (if length pushed > TARGET_MEMORY_SIZE then tl pushed else pushed)\<rparr>)))"

text \<open>
  The method \<open>searchEnemyBuildings\<close> of the mission: it widens the search radius when the last
  search is old enough, and asks for a building search around the centroid.
\<close>

definition am_searchEnemyBuildings ::
  "AttackMission \<Rightarrow> AttackWorld \<Rightarrow> AttackMission \<times> MissionAction" where
  "am_searchEnemyBuildings am w =
     (let currentTick = aw_currentTick w;
          am1 = (if currentTick - am_lastBuildingSearchTime am \<ge> am_SEARCH_EXPAND_INTERVAL
                 then am\<lparr>am_currentSearchRadius :=
                           min (am_currentSearchRadius am + SEARCH_RADIUS_INCREMENT)
                             am_MAX_SEARCH_RADIUS,
                         am_lastBuildingSearchTime := currentTick\<rparr>
                 else am)
      in case am_getCenterOfMass am1 w of
           None \<Rightarrow> (am1, Noop)
         | Some centerOfMass \<Rightarrow>
             (am1, SearchBuildings centerOfMass (am_currentSearchRadius am1)))"

text \<open>
  \<open>handleAttackingState\<close>, which \<open>_onAiUpdate\<close> runs while the mission is in the state
  \<open>Attacking\<close>: the squad's update; if that is a noop and no hostile is left near the attack
  area, a building search. It calls neither \<open>shouldSwitchTarget\<close> nor \<open>updateTarget\<close>, and no
  other code of the class does.
\<close>

definition handleAttackingState ::
  "AttackMission \<Rightarrow> AttackWorld \<Rightarrow> AttackMission \<times> MissionAction" where
  "handleAttackingState am w =
     (let currentTick = aw_currentTick w;
          update = aw_squadUpdate w
      in if update \<noteq> Noop then (am, update)
         else
           (let currentTargetStillValid =
                  (aw_hostilesNearPoint2d w (am_squadAttackArea am) (am_radius am) \<noteq> [])
            in if \<not> currentTargetStillValid
                  \<and> currentTick - am_lastBuildingSearchTime am \<ge> BUILDING_SEARCH_COOLDOWN
               then am_searchEnemyBuildings am w
               else (am, Noop)))"

section \<open>Naval campaign mission\<close>

datatype NavalMissionState = MissionPreparing | MissionAttacking | MissionRetreating

text \<open>
  What an update of a mission ends with: one of its own actions, or
  \<open>return this.squad.onAiUpdate(...)\<close>, the action of its squad.
\<close>

datatype MissionStep = Return MissionAction | SquadUpdate

definition NAVAL_UNIT_REQUEST_PRIORITY :: real where "NAVAL_UNIT_REQUEST_PRIORITY = 60"
definition MAX_SCATTER_DISTANCE :: real where "MAX_SCATTER_DISTANCE = 20"
definition FORCE_GATHER_THRESHOLD :: real where "FORCE_GATHER_THRESHOLD = 6 / 10"
definition FORCE_ATTACK_THRESHOLD :: real where "FORCE_ATTACK_THRESHOLD = 5 / 10"
definition MAX_GATHER_TIME :: int where "MAX_GATHER_TIME = 900"
definition SEARCH_EXPAND_INTERVAL :: int where "SEARCH_EXPAND_INTERVAL = 300"
definition INITIAL_SEARCH_RADIUS :: real where "INITIAL_SEARCH_RADIUS = 40"
definition MAX_SEARCH_RADIUS :: real where "MAX_SEARCH_RADIUS = 150"
definition TARGET_UPDATE_INTERVAL :: int where "TARGET_UPDATE_INTERVAL = 60"
definition MAX_MISSION_DURATION :: int where "MAX_MISSION_DURATION = 1800"
definition MAX_NO_PROGRESS_TIME :: int where "MAX_NO_PROGRESS_TIME = 600"
definition MIN_PROGRESS_DISTANCE :: real where "MIN_PROGRESS_DISTANCE = 10"

text \<open>
  The mission's fields. \<open>nm_squadTargetArea\<close> is the target area of its squad, which the mission
  writes with \<open>squad.setTargetArea\<close>. \<open>gatherStartTime\<close>, \<open>missionStartTime\<close> and
  \<open>lastProgressTime\<close> hold what the code stores in them: values of \<open>Date.now()\<close>, the wall clock
  in milliseconds.
\<close>

record NavalMission =
  nm_state :: NavalMissionState
  nm_rallyPoint :: Vector2
  nm_targetArea :: Vector2
  nm_gatherStartTime :: int
  nm_currentSearchRadius :: real
  nm_lastSearchExpandTime :: int
  nm_lastTargetUpdateTime :: int
  nm_missionStartTime :: int
  nm_lastProgressTime :: int
  nm_lastPosition :: "Vector2 option"
  nm_squadTargetArea :: "Vector2 option"

text \<open>
  What one update reads from outside: the engine's tick counter, the wall clock
  (\<open>Date.now()\<close>, one reading per update), the mission's naval units, the centroid of its units
  (\<open>getCenterOfMass()\<close> of the mission base class, which is not among the sources), the tech
  buildings owned, the map size, and the enemy units and players seen.
\<close>

record NavalWorld =
  nw_currentTick :: int
  nw_dateNow :: int
  nw_navalUnits :: "UnitData list"
  nw_centerOfMass :: "Vector2 option"
  nw_hasAirforce :: bool
  nw_hasBattleLab :: bool
  nw_mapSize :: "int \<times> int"
  nw_visibleEnemyUnits :: "UnitData option list"
  nw_hostilesNearPoint2d :: "Vector2 \<Rightarrow> real \<Rightarrow> nat list"
  nw_getUnitData :: "nat \<Rightarrow> UnitData option"
  nw_isOwnedByNeutral :: "UnitData option \<Rightarrow> bool"
  nw_enemyStartLocations :: "Vector2 list"

text \<open>The constructor: the squad gets the target area, both start times the wall clock.\<close>

definition newNavalMission :: "Vector2 \<Rightarrow> Vector2 \<Rightarrow> int \<Rightarrow> NavalMission" where
  "newNavalMission rallyPoint targetArea dateNow =
     \<lparr>nm_state = MissionPreparing, nm_rallyPoint = rallyPoint, nm_targetArea = targetArea,
      nm_gatherStartTime = dateNow, nm_currentSearchRadius = INITIAL_SEARCH_RADIUS,
      nm_lastSearchExpandTime = 0, nm_lastTargetUpdateTime = 0,
      nm_missionStartTime = dateNow, nm_lastProgressTime = 0, nm_lastPosition = None,
      nm_squadTargetArea = Some targetArea\<rparr>"

text \<open>The mission's \<open>clampToMapBoundaries\<close>: a margin of two tiles.\<close>

definition nm_clampToMapBoundaries :: "int \<times> int \<Rightarrow> Vector2 \<Rightarrow> Vector2" where
  "nm_clampToMapBoundaries mapSize position =
     (max 2 (min (Math_round (fst position)) (of_int (fst mapSize) - 3)),
      max 2 (min (Math_round (snd position)) (of_int (snd mapSize) - 3)))"

text \<open>\<open>getAlliedNavalCompositions\<close>: the keys in insertion order.\<close>

definition getAlliedNavalCompositions :: "NavalWorld \<Rightarrow> (string \<times> nat) list" where
  "getAlliedNavalCompositions w =
     [(''DEST'', 2)]
     @ (if nw_hasAirforce w then [(''AEGIS'', 1)] else [])
     @ (if nw_hasBattleLab w then [(''DLPH'', 1), (''CARRIER'', 1)] else [])"

definition currentComposition :: "UnitData list \<Rightarrow> string \<Rightarrow> nat" where
  "currentComposition navalUnits unitType =
     length (filter (\<lambda>u. ud_rules_name u = unitType) navalUnits)"

definition findNewTarget ::
  "NavalWorld \<Rightarrow> NavalMission \<Rightarrow> Vector2 \<Rightarrow> NavalMission \<times> Vector2 option" where
  "findNewTarget w m currentPosition =
     (let m1 = (if nw_currentTick w - nm_lastSearchExpandTime m > SEARCH_EXPAND_INTERVAL
                then m\<lparr>nm_currentSearchRadius :=
                          min (nm_currentSearchRadius m + 20) MAX_SEARCH_RADIUS,
                        nm_lastSearchExpandTime := nw_currentTick w\<rparr>
                else m);
          navalYards = filter (\<lambda>u. case u of None \<Rightarrow> False
                                 | Some d \<Rightarrow> ud_name d = ''NAYARD'' \<or> ud_name d = ''GAYARD'')
                         (nw_visibleEnemyUnits w);
          targets = filter (\<lambda>u. case u of None \<Rightarrow> False
                              | Some d \<Rightarrow> \<not> nw_isOwnedByNeutral w u
                                  \<and> (ud_rules_movementZone d = Water \<or> ud_rules_type d = Building))
                      (map (nw_getUnitData w)
                         (nw_hostilesNearPoint2d w currentPosition (nm_currentSearchRadius m1)))
      in case navalYards of
           Some target # _ \<Rightarrow> (m1, Some (ud_rx target, ud_ry target))
         | _ \<Rightarrow>
           (case targets of
              Some target # _ \<Rightarrow> (m1, Some (ud_rx target, ud_ry target))
            | _ \<Rightarrow>
              (case nw_enemyStartLocations w of
                 startLocation # _ \<Rightarrow> (m1, Some startLocation)
               | [] \<Rightarrow> (m1, None))))"

definition checkMissionProgress ::
  "NavalWorld \<Rightarrow> NavalMission \<Rightarrow> Vector2 \<Rightarrow> NavalMission \<times> bool" where
  "checkMissionProgress w m currentPosition =
     (case nm_lastPosition m of
        None \<Rightarrow> (m\<lparr>nm_lastPosition := Some currentPosition\<rparr>, True)
      | Some lastPosition \<Rightarrow>
          (let distance = sqrt ((fst currentPosition - fst lastPosition)\<^sup>2
                                + (snd currentPosition - snd lastPosition)\<^sup>2)
           in if distance \<ge> MIN_PROGRESS_DISTANCE
              then (m\<lparr>nm_lastPosition := Some currentPosition,
                       nm_lastProgressTime := nw_dateNow w\<rparr>, True)
              else (m, False)))"

definition shouldCancelMission :: "NavalWorld \<Rightarrow> NavalMission \<Rightarrow> int \<Rightarrow> bool" where
  "shouldCancelMission w m currentTick =
     (let missionDuration = currentTick - nm_missionStartTime m
      in if missionDuration > MAX_MISSION_DURATION then True
         else (let noProgressTime = nw_dateNow w - nm_lastProgressTime m
               in if noProgressTime > MAX_NO_PROGRESS_TIME then True else False))"

definition checkUnitScatter :: "NavalWorld \<Rightarrow> UnitData list \<Rightarrow> bool" where
  "checkUnitScatter w navalUnits =
     (if length navalUnits < 2 then False
      else case nw_centerOfMass w of
             None \<Rightarrow> False
           | Some centerOfMass \<Rightarrow>
               (let scatteredUnits =
                      length (filter (\<lambda>unit.
                                sqrt ((ud_rx unit - fst centerOfMass)\<^sup>2
                                      + (ud_ry unit - snd centerOfMass)\<^sup>2)
                                > MAX_SCATTER_DISTANCE) navalUnits)
                in real scatteredUnits / real (length navalUnits) > FORCE_GATHER_THRESHOLD))"

text \<open>The units still missing while preparing: each type once per missing unit.\<close>

definition missingWhilePreparing :: "NavalWorld \<Rightarrow> string list" where
  "missingWhilePreparing w =
     concat (map (\<lambda>(unitType, targetCount).
                    replicate (targetCount - currentComposition (nw_navalUnits w) unitType)
                      unitType)
               (getAlliedNavalCompositions w))"

text \<open>The types to reinforce while attacking: those below half of their target count.\<close>

definition missingWhileAttacking :: "NavalWorld \<Rightarrow> string list" where
  "missingWhileAttacking w =
     map fst (filter (\<lambda>(unitType, targetCount).
                        real (currentComposition (nw_navalUnits w) unitType)
                        < real targetCount * (5 / 10))
                (getAlliedNavalCompositions w))"

text \<open>The three cases of the \<open>switch\<close> over the mission state.\<close>

definition nm_preparing :: "NavalWorld \<Rightarrow> NavalMission \<Rightarrow> NavalMission \<times> MissionStep" where
  "nm_preparing w m =
     (if checkUnitScatter w (nw_navalUnits w)
      then (m\<lparr>nm_squadTargetArea := Some (nm_rallyPoint m)\<rparr>, SquadUpdate)
      else if missingWhilePreparing w \<noteq> []
      then (m, Return (RequestUnits (missingWhilePreparing w) NAVAL_UNIT_REQUEST_PRIORITY))
      else
        (let totalUnits = length (nw_navalUnits w);
             targetTotal = sum_list (map snd (getAlliedNavalCompositions w));
             gatherTime = nw_currentTick w - nm_gatherStartTime m;
             m1 = (if real totalUnits \<ge> real targetTotal * FORCE_ATTACK_THRESHOLD
                      \<or> (gatherTime > MAX_GATHER_TIME \<and> totalUnits \<ge> 2)
                      \<or> (totalUnits \<ge> 2 \<and> real_of_int gatherTime > real_of_int MAX_GATHER_TIME / 2)
                   then m\<lparr>nm_state := MissionAttacking\<rparr> else m)
         in (m1\<lparr>nm_squadTargetArea := Some (nm_rallyPoint m1)\<rparr>, SquadUpdate)))"

definition nm_retarget :: "NavalWorld \<Rightarrow> NavalMission \<Rightarrow> NavalMission \<times> bool" where
  "nm_retarget w m =
     (if nw_currentTick w - nm_lastTargetUpdateTime m > TARGET_UPDATE_INTERVAL then
        (case nw_centerOfMass w of
           None \<Rightarrow> (m\<lparr>nm_lastTargetUpdateTime := nw_currentTick w\<rparr>, False)
         | Some centerOfMass \<Rightarrow>
             (case findNewTarget w m centerOfMass of
                (m1, Some newTarget) \<Rightarrow>
                  (m1\<lparr>nm_targetArea := newTarget, nm_lastProgressTime := nw_dateNow w,
                      nm_lastTargetUpdateTime := nw_currentTick w\<rparr>, False)
              | (m1, None) \<Rightarrow>
                  if nw_dateNow w - nm_lastProgressTime m1 > MAX_NO_PROGRESS_TIME
                  then (m1, True)
                  else (m1\<lparr>nm_lastTargetUpdateTime := nw_currentTick w\<rparr>, False)))
      else (m, False))"

definition nm_attacking :: "NavalWorld \<Rightarrow> NavalMission \<Rightarrow> NavalMission \<times> MissionStep" where
  "nm_attacking w m =
     (if missingWhileAttacking w \<noteq> []
      then (m, Return (RequestUnits (missingWhileAttacking w) NAVAL_UNIT_REQUEST_PRIORITY))
      else case nm_retarget w m of
             (m1, True) \<Rightarrow> (m1, Return DisbandMission)
           | (m1, False) \<Rightarrow>
               (m1\<lparr>nm_squadTargetArea :=
                     Some (nm_clampToMapBoundaries (nw_mapSize w) (nm_targetArea m1))\<rparr>,
                SquadUpdate))"

text \<open>
  \<open>_onAiUpdate\<close>: first the progress sample and the cancellation check (only when a centroid
  exists), then the case of the current state.
\<close>

definition nm_onAiUpdate :: "NavalWorld \<Rightarrow> NavalMission \<Rightarrow> NavalMission \<times> MissionStep" where
  "nm_onAiUpdate w m =
     (let currentTick = nw_currentTick w;
          m1 = (case nw_centerOfMass w of
                  None \<Rightarrow> m
                | Some centerOfMass \<Rightarrow> fst (checkMissionProgress w m centerOfMass))
      in if nw_centerOfMass w \<noteq> None \<and> shouldCancelMission w m1 currentTick
         then (m1, Return DisbandMission)
         else case nm_state m1 of
                MissionPreparing \<Rightarrow> nm_preparing w m1
              | MissionAttacking \<Rightarrow> nm_attacking w m1
              | MissionRetreating \<Rightarrow>
                  (m1\<lparr>nm_squadTargetArea := Some (nm_rallyPoint m1)\<rparr>, SquadUpdate))"

section \<open>Scouting mission factory\<close>

text \<open>
  Modelled from the spec: the mission controller is not among the sources. It owns the list of
  active missions, and \<open>addMission(m)\<close> fails (returns false) on a duplicate unique name;
  otherwise the mission joins the list. Missions are represented by their unique names.
\<close>

definition addMission :: "string list \<Rightarrow> string \<Rightarrow> string list \<times> bool" where
  "addMission missions uniqueName =
     (if uniqueName \<in> set missions then (missions, False) else (missions @ [uniqueName], True))"

definition SCOUT_COOLDOWN_TICKS :: int where "SCOUT_COOLDOWN_TICKS = 300"

text \<open>The factory's only field; the constructor's default is \<open>-SCOUT_COOLDOWN_TICKS\<close>.\<close>

record ScoutingMissionFactory =
  lastScoutAt :: int

definition newScoutingMissionFactory :: ScoutingMissionFactory where
  "newScoutingMissionFactory = \<lparr>lastScoutAt = - SCOUT_COOLDOWN_TICKS\<rparr>"

text \<open>
  \<open>maybeCreateMissions\<close>. \<open>hasTargets\<close> is the trigger read from outside: unseen starting
  locations exist (one version of the factory) or the scouting manager has targets (the
  other). The two versions are otherwise the same.
\<close>

definition maybeCreateMissions ::
  "int \<Rightarrow> bool \<Rightarrow> ScoutingMissionFactory \<times> string list
     \<Rightarrow> ScoutingMissionFactory \<times> string list" where
  "maybeCreateMissions currentTick hasTargets st =
     (let (factory, missions) = st
      in if currentTick < lastScoutAt factory + SCOUT_COOLDOWN_TICKS then st
         else if \<not> hasTargets then st
         else (let (missions', added) = addMission missions ''globalScout''
               in if \<not> added then (factory\<lparr>lastScoutAt := currentTick\<rparr>, missions')
                  else (factory, missions')))"

text \<open>The controller removing a disbanded mission from its list.\<close>

definition removeMission :: "string list \<Rightarrow> string \<Rightarrow> string list" where
  "removeMission missions uniqueName = filter (\<lambda>n. n \<noteq> uniqueName) missions"

section \<open>Scouting mission\<close>

definition SCOUT_MOVE_COOLDOWN_TICKS :: int where "SCOUT_MOVE_COOLDOWN_TICKS = 30"
definition MAX_ATTEMPTS_PER_TARGET :: nat where "MAX_ATTEMPTS_PER_TARGET = 5"
definition MAX_TICKS_PER_TARGET :: int where "MAX_TICKS_PER_TARGET = 600"
definition STUCK_THRESHOLD_TICKS :: int where "STUCK_THRESHOLD_TICKS = 150"
definition MIN_MOVEMENT_THRESHOLD :: real where "MIN_MOVEMENT_THRESHOLD = 2"

definition landScoutNames :: "string list" where
  "landScoutNames = [''ADOG'', ''DOG'', ''E1'', ''E2'', ''FV'', ''HTK'']"

definition waterScoutNames :: "string list" where
  "waterScoutNames = [''DEST'']"

text \<open>A scout as the mission sees it: the game object's id and its tile.\<close>

record Scout =
  sc_id :: nat
  sc_tile :: Vector2

text \<open>
  The mission's fields. The two \<open>Map\<close>s of the stuck tracking are association lists (their
  values are enumerated by \<open>Math.min(...values())\<close>); the sets of explored tiles are sets of
  coordinates.
\<close>

record ScoutingMission =
  sm_priority :: real
  sm_scoutTarget :: "Vector2 option"
  sm_attemptsOnCurrentTarget :: nat
  sm_scoutTargetRefreshedAt :: int
  sm_lastMoveCommandTick :: int
  sm_scoutTargetIsPermanent :: bool
  sm_isWaterTarget :: bool
  sm_scoutMinDistance :: "real option"
  sm_lastScoutPositions :: "(nat \<times> Vector2) list"
  sm_stuckStartTime :: "(nat \<times> int) list"
  sm_exploredWaterTiles :: "Vector2 set"
  sm_exploredLandTiles :: "Vector2 set"
  sm_hadUnit :: bool

text \<open>
  What one update reads from outside. \<open>sw_scouts\<close> gives the mission's units of the water
  scout types (\<open>True\<close>) or of the land scout types (\<open>False\<close>); \<open>sw_getTile\<close> the terrain of a
  tile, \<open>None\<close> where no tile exists; \<open>sw_newScoutTarget\<close> the scouting manager's next target
  with its \<open>isPermanent\<close> flag. \<open>getDistanceBetweenTileAndPoint\<close> (map.js) is not among the
  sources and is a parameter. \<open>findNextTarget\<close>, the breadth-first search for the nearest
  unexplored tile around a position, is passed in as a function of the position, the terrain
  kind and the explored tiles; nothing below depends on what it finds.
\<close>

record ScoutWorld =
  sw_currentTick :: int
  sw_scouts :: "bool \<Rightarrow> Scout list"
  sw_overallVisibility :: "real option"
  sw_getTile :: "Vector2 \<Rightarrow> TerrainType option"
  sw_isVisibleTile :: "Vector2 \<Rightarrow> bool"
  sw_newScoutTarget :: "(Vector2 \<times> bool) option"
  sw_getDistanceBetweenTileAndPoint :: "Vector2 \<Rightarrow> Vector2 \<Rightarrow> real"
  sw_findNextTarget :: "Vector2 \<Rightarrow> bool \<Rightarrow> Vector2 set \<Rightarrow> Vector2 option"

definition mapSet :: "'k \<Rightarrow> 'v \<Rightarrow> ('k \<times> 'v) list \<Rightarrow> ('k \<times> 'v) list" where
  "mapSet k v m = (if k \<in> fst ` set m
                   then map (\<lambda>(k', v'). if k' = k then (k', v) else (k', v')) m
                   else m @ [(k, v)])"

definition mapDelete :: "'k \<Rightarrow> ('k \<times> 'v) list \<Rightarrow> ('k \<times> 'v) list" where
  "mapDelete k m = filter (\<lambda>(k', v'). k' \<noteq> k) m"

text \<open>\<open>setScoutTarget(target, currentTick, gameApi)\<close>; every call of the mission passes the game.\<close>

definition setScoutTarget ::
  "ScoutWorld \<Rightarrow> ScoutingMission \<Rightarrow> (Vector2 \<times> bool) option \<Rightarrow> int \<Rightarrow> ScoutingMission" where
  "setScoutTarget w m target currentTick =
     m\<lparr>sm_attemptsOnCurrentTarget := 0,
       sm_scoutTargetRefreshedAt := currentTick,
       sm_scoutTarget := map_option fst target,
       sm_scoutMinDistance := None,
       sm_scoutTargetIsPermanent := (case target of None \<Rightarrow> False | Some t \<Rightarrow> snd t),
       sm_isWaterTarget := (case target of None \<Rightarrow> False
                            | Some t \<Rightarrow> sw_getTile w (fst t) = Some WaterTerrain)\<rparr>"

text \<open>
  One round of the loop of \<open>checkUnitsStuck\<close> over the scouts; the accumulator holds the two
  maps and the flag \<open>allUnitsStuck\<close>.
\<close>

definition checkUnitStuckStep ::
  "int \<Rightarrow> (nat \<times> Vector2) list \<times> (nat \<times> int) list \<times> bool \<Rightarrow> Scout
     \<Rightarrow> (nat \<times> Vector2) list \<times> (nat \<times> int) list \<times> bool" where
  "checkUnitStuckStep currentTick acc unit =
     (let (positions, stuckStart, allUnitsStuck) = acc;
          (stuckStart', allUnitsStuck') =
            (case map_of positions (sc_id unit) of
               None \<Rightarrow> (stuckStart, allUnitsStuck)
             | Some lastPosition \<Rightarrow>
                 (let distance = sqrt ((fst (sc_tile unit) - fst lastPosition)\<^sup>2
                                       + (snd (sc_tile unit) - snd lastPosition)\<^sup>2)
                  in if distance < MIN_MOVEMENT_THRESHOLD
                     then (if map_of stuckStart (sc_id unit) = None
                           then mapSet (sc_id unit) currentTick stuckStart
                           else stuckStart, allUnitsStuck)
                     else (mapDelete (sc_id unit) stuckStart, False)))
      in (mapSet (sc_id unit) (sc_tile unit) positions, stuckStart', allUnitsStuck'))"

text \<open>
  \<open>checkUnitsStuck\<close>. \<open>Math.min\<close> of no values is \<open>Infinity\<close>, which makes the time stuck
  \<open>-Infinity\<close> and the comparison false.
\<close>

definition checkUnitsStuck ::
  "ScoutWorld \<Rightarrow> ScoutingMission \<Rightarrow> Scout list \<Rightarrow> ScoutingMission \<times> bool" where
  "checkUnitsStuck w m scouts =
     (let currentTick = sw_currentTick w;
          (positions, stuckStart, allUnitsStuck) =
            foldl (checkUnitStuckStep currentTick)
              (sm_lastScoutPositions m, sm_stuckStartTime m, scouts \<noteq> []) scouts;
          m1 = m\<lparr>sm_lastScoutPositions := positions, sm_stuckStartTime := stuckStart\<rparr>
      in if allUnitsStuck then
           (case map snd stuckStart of
              [] \<Rightarrow> (m1, False)
            | t # ts \<Rightarrow> (m1, currentTick - fold min ts t \<ge> STUCK_THRESHOLD_TICKS))
         else (m1, False))"

definition clearStuckTracking :: "ScoutingMission \<Rightarrow> ScoutingMission" where
  "clearStuckTracking m = m\<lparr>sm_lastScoutPositions := [], sm_stuckStartTime := []\<rparr>"

definition markTileExplored :: "ScoutingMission \<Rightarrow> Vector2 \<Rightarrow> bool \<Rightarrow> ScoutingMission" where
  "markTileExplored m position isWater =
     (if isWater then m\<lparr>sm_exploredWaterTiles := insert position (sm_exploredWaterTiles m)\<rparr>
      else m\<lparr>sm_exploredLandTiles := insert position (sm_exploredLandTiles m)\<rparr>)"

text \<open>
  The result of an update: the mission afterwards, the orders given through
  \<open>actionsApi.orderUnits\<close>, and the returned action or the exception thrown.
\<close>

type_synonym ScoutResult = "ScoutingMission \<times> BatchableAction list \<times> (jsError + MissionAction)"

text \<open>
  The part of the update that runs on a move tick, more than 30 ticks after the last one: an
  attack-move order for every scout, and the check that a scout has come closer to the
  target. \<open>!this.scoutMinDistance\<close> holds when no distance is recorded or the recorded one is 0.
\<close>

definition scoutMoveTick ::
  "ScoutWorld \<Rightarrow> ScoutingMission \<Rightarrow> Scout list \<Rightarrow> Vector2
     \<Rightarrow> ScoutingMission \<times> BatchableAction list" where
  "scoutMoveTick w m scouts target =
     (if sw_currentTick w > sm_lastMoveCommandTick m + SCOUT_MOVE_COOLDOWN_TICKS then
        (let m1 = m\<lparr>sm_lastMoveCommandTick := sw_currentTick w\<rparr>;
             orders = map (\<lambda>unit. \<lparr>ba_unitId = sc_id unit, ba_orderType = AttackMove,
                                    ba_point = Some target, ba_targetId = None\<rparr>) scouts;
             distances = map (\<lambda>unit. sw_getDistanceBetweenTileAndPoint w (sc_tile unit) target)
                           scouts
         in case distances of
              [] \<Rightarrow> (m1, orders)
            | d # ds \<Rightarrow>
                (let newMinDistance = fold min ds d
                 in if (case sm_scoutMinDistance m1 of
                          None \<Rightarrow> True
                        | Some scoutMinDistance \<Rightarrow>
                            scoutMinDistance = 0 \<or> newMinDistance < scoutMinDistance)
                    then (m1\<lparr>sm_scoutTargetRefreshedAt := sw_currentTick w,
                             sm_scoutMinDistance := Some newMinDistance\<rparr>, orders)
                    else (m1, orders)))
      else (m, []))"

text \<open>The end of the update with a target: what happens once the target tile is visible.\<close>

definition scoutTargetSeen ::
  "ScoutWorld \<Rightarrow> ScoutingMission \<Rightarrow> Scout list \<Rightarrow> Vector2 \<Rightarrow> ScoutingMission" where
  "scoutTargetSeen w m scouts target =
     (if sw_isVisibleTile w target then
        (if scouts \<noteq> [] then
           (let m1 = markTileExplored m target (sm_isWaterTarget m)
            in case sw_findNextTarget w target (sm_isWaterTarget m1)
                      (if sm_isWaterTarget m1 then sm_exploredWaterTiles m1
                       else sm_exploredLandTiles m1) of
                 Some nextTarget \<Rightarrow>
                   m1\<lparr>sm_scoutTarget := Some nextTarget,
                      sm_scoutTargetRefreshedAt := sw_currentTick w,
                      sm_scoutMinDistance := None\<rparr>
               | None \<Rightarrow> setScoutTarget w m1 None (sw_currentTick w))
         else setScoutTarget w m None (sw_currentTick w))
      else m)"

text \<open>The branch of the update with scouts and a current target.\<close>

definition scoutWithTarget ::
  "ScoutWorld \<Rightarrow> ScoutingMission \<Rightarrow> Scout list \<Rightarrow> Vector2 \<Rightarrow> ScoutResult" where
  "scoutWithTarget w m0 scouts target =
     (let m = m0\<lparr>sm_hadUnit := True\<rparr>;
          currentTick = sw_currentTick w;
          (m1, stuck) = (if \<not> sm_scoutTargetIsPermanent m \<and> \<not> sm_isWaterTarget m
                         then checkUnitsStuck w m scouts else (m, False))
      in if \<not> sm_scoutTargetIsPermanent m \<and> stuck
         then (clearStuckTracking (m1\<lparr>sm_isWaterTarget := True\<rparr>), [],
               Inr (RequestUnits waterScoutNames (sm_priority m1)))
         else if \<not> sm_scoutTargetIsPermanent m
                 \<and> sm_attemptsOnCurrentTarget m1 > MAX_ATTEMPTS_PER_TARGET
         then (setScoutTarget w m1 None 0, [], Inr Noop)
         else if \<not> sm_scoutTargetIsPermanent m
                 \<and> currentTick > sm_scoutTargetRefreshedAt m1 + MAX_TICKS_PER_TARGET
         then (setScoutTarget w m1 None 0, [], Inr Noop)
         else case sw_getTile w target of
                None \<Rightarrow> (m1, [], Inl ThrownError)
              | Some terrainType \<Rightarrow>
                  if (terrainType = WaterTerrain) \<noteq> sm_isWaterTarget m1
                  then (setScoutTarget w m1 None 0, [], Inr Noop)
                  else (let (m2, orders) = scoutMoveTick w m1 scouts target
                        in (scoutTargetSeen w m2 scouts target, orders, Inr Noop)))"

text \<open>\<open>_onAiUpdate\<close> of the scouting mission.\<close>

definition sm_onAiUpdate :: "ScoutWorld \<Rightarrow> ScoutingMission \<Rightarrow> ScoutResult" where
  "sm_onAiUpdate w m =
     (let scoutNames = (if sm_isWaterTarget m then waterScoutNames else landScoutNames);
          scouts = sw_scouts w (sm_isWaterTarget m)
      in if orElse (sw_overallVisibility w) 0 > 9 / 10 then (m, [], Inr DisbandMission)
         else if scouts = [] then
           (let m1 = (if sm_scoutTarget m \<noteq> None \<and> sm_hadUnit m
                      then m\<lparr>sm_attemptsOnCurrentTarget := sm_attemptsOnCurrentTarget m + 1,
                             sm_hadUnit := False\<rparr>
                      else m)
            in (m1, [], Inr (RequestUnits scoutNames (sm_priority m1))))
         else case sm_scoutTarget m of
                Some target \<Rightarrow> scoutWithTarget w m scouts target
              | None \<Rightarrow>
                  (case sw_newScoutTarget w of
                     None \<Rightarrow> (m, [], Inr DisbandMission)
                   | Some nextScoutTarget \<Rightarrow>
                       (setScoutTarget w m (Some nextScoutTarget) (sw_currentTick w), [],
                        Inr Noop)))"

section \<open>Naval squad\<close>

text \<open>
  The source holds two versions of \<open>NavalSquad\<close>. The full one (stuck recovery, formations,
  combat micro) is modelled first, the basic one after it. Both share the world they read, the
  order cache and \<open>submitActionIfNew\<close>.
\<close>

named_theorems squad_consts

definition TARGET_UPDATE_INTERVAL_TICKS :: int where
  [squad_consts]: "TARGET_UPDATE_INTERVAL_TICKS = 15"
definition GATHER_RATIO :: real where [squad_consts]: "GATHER_RATIO = 2"
definition MIN_GATHER_RADIUS :: real where [squad_consts]: "MIN_GATHER_RADIUS = 3"
definition MAX_GATHER_RADIUS :: real where [squad_consts]: "MAX_GATHER_RADIUS = 6"
definition ATTACK_SCAN_AREA :: real where [squad_consts]: "ATTACK_SCAN_AREA = 25"
definition STUCK_CHECK_INTERVAL :: int where [squad_consts]: "STUCK_CHECK_INTERVAL = 60"
definition STUCK_THRESHOLD :: nat where [squad_consts]: "STUCK_THRESHOLD = 3"
definition STUCK_DISTANCE_THRESHOLD :: real where
  [squad_consts]: "STUCK_DISTANCE_THRESHOLD = 5 / 10"
definition RETREAT_DISTANCE :: real where [squad_consts]: "RETREAT_DISTANCE = 8"
definition EXPLORATION_RANGE :: real where [squad_consts]: "EXPLORATION_RANGE = 30"
definition EXPLORATION_ANGLE_CHANGE :: real where [squad_consts]: "EXPLORATION_ANGLE_CHANGE = 45"
definition EXPLORATION_INTERVAL_TICKS :: int where
  [squad_consts]: "EXPLORATION_INTERVAL_TICKS = 150"
definition MAX_IDLE_COMBAT_TICKS :: int where [squad_consts]: "MAX_IDLE_COMBAT_TICKS = 150"
definition PATHFINDING_WAIT_TICKS :: int where [squad_consts]: "PATHFINDING_WAIT_TICKS = 45"
definition MAX_STUCK_ATTEMPTS :: nat where [squad_consts]: "MAX_STUCK_ATTEMPTS = 3"
definition WATER_SEARCH_RADIUS :: int where [squad_consts]: "WATER_SEARCH_RADIUS = 15"
definition MIN_WATER_OPENNESS :: real where [squad_consts]: "MIN_WATER_OPENNESS = 5"
definition PREFER_OPEN_WATER_WEIGHT :: real where [squad_consts]: "PREFER_OPEN_WATER_WEIGHT = 2"
definition MAJOR_BATTLE_SUPPORT_RANGE :: real where
  [squad_consts]: "MAJOR_BATTLE_SUPPORT_RANGE = 40"
definition MIN_UNITS_FOR_MAJOR_BATTLE :: nat where
  [squad_consts]: "MIN_UNITS_FOR_MAJOR_BATTLE = 3"
definition BUILDING_ATTACK_PRIORITY :: real where
  [squad_consts]: "BUILDING_ATTACK_PRIORITY = 8 / 10"
definition SUPPORT_ATTACK_RANGE :: real where [squad_consts]: "SUPPORT_ATTACK_RANGE = 25"
definition COMBAT_UNIT_PRIORITY :: real where [squad_consts]: "COMBAT_UNIT_PRIORITY = 2"
definition LOW_HEALTH_PRIORITY :: real where [squad_consts]: "LOW_HEALTH_PRIORITY = 15 / 10"
definition NAVAL_UNIT_PRIORITY :: real where [squad_consts]: "NAVAL_UNIT_PRIORITY = 18 / 10"
definition NEARBY_TARGET_BONUS :: real where [squad_consts]: "NEARBY_TARGET_BONUS = 13 / 10"
definition NAVAL_YARD_PRIORITY :: real where [squad_consts]: "NAVAL_YARD_PRIORITY = 2"
definition NAVAL_YARD_SCAN_RANGE :: real where [squad_consts]: "NAVAL_YARD_SCAN_RANGE = 40"

datatype SquadState = Gathering | Attacking | Retreating | Exploring

record UnitPosition =
  up_x :: real
  up_y :: real
  up_timestamp :: int

record CombatState =
  cs_lastEngageTime :: int
  cs_lastPosition :: "Vector2 option"

record StuckState =
  ss_attempts :: nat
  ss_lastAttemptTime :: int
  ss_lastPosition :: Vector2

record WaterAreaScore =
  was_position :: Vector2
  was_openness :: real
  was_distanceScore :: real
  was_totalScore :: real

record BattleInfo =
  bi_position :: Vector2
  bi_unitCount :: nat
  bi_hasBuildings :: bool
  bi_targets :: "UnitData list"

text \<open>The squad's fields; the caches keyed by unit id are maps.\<close>

record NavalSquad =
  sq_lastCommand :: int
  sq_state :: SquadState
  sq_targetArea :: "Vector2 option"
  sq_lastOrderGiven :: "nat \<rightharpoonup> BatchableAction"
  sq_unitPositionHistory :: "nat \<rightharpoonup> UnitPosition list"
  sq_lastStuckCheck :: int
  sq_lastExplorationChange :: int
  sq_currentExplorationAngle :: real
  sq_unitCombatStates :: "nat \<rightharpoonup> CombatState"
  sq_stuckStates :: "nat \<rightharpoonup> StuckState"
  sq_lastPathfindingTime :: "nat \<rightharpoonup> int"

text \<open>
  What an update of the squad reads from outside: the tick, the mission's unit ids
  (\<open>getUnitIds\<close>), the ids of its naval combatants (\<open>getUnitsMatchingByRule\<close>), the unit data,
  the mission's centroid and the largest distance of a unit from it (both from the mission
  base class, which is not among the sources), the map, the hostiles near a point, the
  player's start location and, per unit index, the two values of \<open>Math.random()\<close> that the
  exploration step draws.
\<close>

record SquadWorld =
  qw_currentTick :: int
  qw_missionUnitIds :: "nat list"
  qw_navalUnitIds :: "nat list"
  qw_getUnitData :: "nat \<Rightarrow> UnitData option"
  qw_centerOfMass :: "Vector2 option"
  qw_maxDistance :: "real option"
  qw_getTile :: "Vector2 \<Rightarrow> TerrainType option"
  qw_mapSize :: "int \<times> int"
  qw_hostilesNearPoint :: "Vector2 \<Rightarrow> real \<Rightarrow> nat list"
  qw_isOwnedByNeutral :: "UnitData option \<Rightarrow> bool"
  qw_startLocation :: Vector2
  qw_random :: "nat \<Rightarrow> real \<times> real"

text \<open>The squad together with the batcher it pushes to.\<close>

type_synonym SquadCtx = "NavalSquad \<times> ActionBatcher"

definition newNavalSquad :: "Vector2 option \<Rightarrow> NavalSquad" where
  "newNavalSquad targetArea =
     \<lparr>sq_lastCommand = 0, sq_state = Gathering, sq_targetArea = targetArea,
      sq_lastOrderGiven = Map.empty, sq_unitPositionHistory = Map.empty,
      sq_lastStuckCheck = 0, sq_lastExplorationChange = 0, sq_currentExplorationAngle = 0,
      sq_unitCombatStates = Map.empty, sq_stuckStates = Map.empty,
      sq_lastPathfindingTime = Map.empty\<rparr>"

definition submitActionIfNew :: "SquadCtx \<Rightarrow> BatchableAction \<Rightarrow> SquadCtx" where
  "submitActionIfNew ctx action =
     (let (sq, batcher) = ctx
      in case sq_lastOrderGiven sq (ba_unitId action) of
           Some lastAction \<Rightarrow>
             if \<not> isSameAs lastAction action
             then (sq\<lparr>sq_lastOrderGiven := (sq_lastOrderGiven sq)(ba_unitId action \<mapsto> action)\<rparr>,
                   push batcher action)
             else ctx
         | None \<Rightarrow>
             (sq\<lparr>sq_lastOrderGiven := (sq_lastOrderGiven sq)(ba_unitId action \<mapsto> action)\<rparr>,
              push batcher action))"

definition isPathfindingInProgress :: "NavalSquad \<Rightarrow> UnitData \<Rightarrow> int \<Rightarrow> bool" where
  "isPathfindingInProgress sq unit currentTick =
     (case sq_lastPathfindingTime sq (ud_id unit) of
        None \<Rightarrow> False
      | Some lastPathfindingTime \<Rightarrow>
          if lastPathfindingTime = 0 then False
          else currentTick - lastPathfindingTime < PATHFINDING_WAIT_TICKS)"

definition startPathfinding :: "SquadCtx \<Rightarrow> UnitData \<Rightarrow> int \<Rightarrow> SquadCtx" where
  "startPathfinding ctx unit currentTick =
     (let (sq, batcher) = ctx
      in (sq\<lparr>sq_lastPathfindingTime := (sq_lastPathfindingTime sq)(ud_id unit \<mapsto> currentTick)\<rparr>,
          batcher))"

subsection \<open>Stuck tracking\<close>

definition isUnitStuck :: "NavalSquad \<Rightarrow> UnitData \<Rightarrow> bool" where
  "isUnitStuck sq unit =
     (case sq_unitPositionHistory sq (ud_id unit) of
        None \<Rightarrow> False
      | Some history \<Rightarrow>
          if length history < STUCK_THRESHOLD then False
          else (let recentPositions = drop (length history - STUCK_THRESHOLD) history
                in list_all (\<lambda>(pos1, pos2).
                       \<not> getDistanceBetweenPoints (up_x pos1, up_y pos1) (up_x pos2, up_y pos2)
                          > STUCK_DISTANCE_THRESHOLD)
                     (zip (tl recentPositions) recentPositions)))"

definition updateUnitPosition :: "NavalSquad \<Rightarrow> UnitData \<Rightarrow> int \<Rightarrow> NavalSquad" where
  "updateUnitPosition sq unit currentTick =
     (let history = (case sq_unitPositionHistory sq (ud_id unit) of
                       None \<Rightarrow> [] | Some h \<Rightarrow> h);
          pushed = history @ [\<lparr>up_x = ud_rx unit, up_y = ud_ry unit,
                                up_timestamp = currentTick\<rparr>]
      in sq\<lparr>sq_unitPositionHistory :=
              (sq_unitPositionHistory sq)
                (ud_id unit \<mapsto> drop (length pushed - STUCK_THRESHOLD) pushed)\<rparr>)"

subsection \<open>Map positions\<close>

definition isValidMapPosition :: "SquadWorld \<Rightarrow> Vector2 \<Rightarrow> bool" where
  "isValidMapPosition w position =
     (qw_getTile w (Math_round (fst position), Math_round (snd position)) = Some WaterTerrain)"

text \<open>The squad's \<open>clampToMapBoundaries\<close>: a margin of one tile.\<close>

definition clampToMapBoundaries :: "SquadWorld \<Rightarrow> Vector2 \<Rightarrow> Vector2" where
  "clampToMapBoundaries w position =
     (max 1 (min (Math_round (fst position)) (of_int (fst (qw_mapSize w)) - 2)),
      max 1 (min (Math_round (snd position)) (of_int (snd (qw_mapSize w)) - 2)))"

definition evaluateWaterArea :: "SquadWorld \<Rightarrow> Vector2 \<Rightarrow> real" where
  "evaluateWaterArea w position =
     sum_list
       (map (\<lambda>(dx, dy).
               if dx = 0 \<and> dy = 0 then 0
               else (let checkPos = clampToMapBoundaries w
                                      (fst position + of_int dx, snd position + of_int dy)
                     in if qw_getTile w checkPos = Some WaterTerrain
                        then 1 / (sqrt (of_int (dx * dx + dy * dy)) + 5 / 10)
                        else 0))
          (List.product [-3..3] [-3..3]))"

text \<open>
  The scan of \<open>findBestWaterPosition\<close>: the candidate cells in the order of the three nested
  loops (radius, then \<open>dx\<close>, then \<open>dy\<close>).
\<close>

definition waterCandidate ::
  "SquadWorld \<Rightarrow> Vector2 \<Rightarrow> Vector2 \<Rightarrow> bool \<Rightarrow> int \<times> int \<Rightarrow> WaterAreaScore list" where
  "waterCandidate w currentPos targetPos preferOpenWater d =
     (let checkPos = clampToMapBoundaries w
                       (fst currentPos + of_int (fst d), snd currentPos + of_int (snd d))
      in if \<not> isValidMapPosition w checkPos then []
         else (let openness = evaluateWaterArea w checkPos
               in if openness < MIN_WATER_OPENNESS \<and> preferOpenWater then []
                  else (let distanceToTarget = getDistanceBetweenPoints checkPos targetPos;
                            distanceScore = 1 - distanceToTarget
                                                / (of_int WATER_SEARCH_RADIUS * 2);
                            totalScore = (if preferOpenWater
                                          then openness * PREFER_OPEN_WATER_WEIGHT + distanceScore
                                          else openness + distanceScore * 2)
                        in [\<lparr>was_position = checkPos, was_openness = openness,
                             was_distanceScore = distanceScore,
                             was_totalScore = totalScore\<rparr>])))"

definition waterPositions ::
  "SquadWorld \<Rightarrow> Vector2 \<Rightarrow> Vector2 \<Rightarrow> bool \<Rightarrow> WaterAreaScore list" where
  "waterPositions w currentPos targetPos preferOpenWater =
     concat (map (\<lambda>r. concat (map (waterCandidate w currentPos targetPos preferOpenWater)
                                (List.product [- r..r] [- r..r])))
               [1..WATER_SEARCH_RADIUS])"

text \<open>
  The stable sort by descending total score followed by \<open>[0]?.position || currentPos\<close>.
\<close>

definition bestWaterPosition :: "WaterAreaScore list \<Rightarrow> Vector2 \<Rightarrow> Vector2" where
  "bestWaterPosition candidates currentPos =
     (case sort_key (\<lambda>a. - was_totalScore a) candidates of
        [] \<Rightarrow> currentPos
      | best # _ \<Rightarrow> was_position best)"

text \<open>
  \<open>findBestWaterPosition\<close> calls itself once, with \<open>preferOpenWater = false\<close>, when the scan
  for open water finds nothing.
\<close>

function findBestWaterPosition ::
  "SquadWorld \<Rightarrow> Vector2 \<Rightarrow> Vector2 \<Rightarrow> bool \<Rightarrow> Vector2" where
  "findBestWaterPosition w currentPos targetPos False =
     bestWaterPosition (waterPositions w currentPos targetPos False) currentPos"
| "findBestWaterPosition w currentPos targetPos True =
     (if waterPositions w currentPos targetPos True = []
      then findBestWaterPosition w currentPos targetPos False
      else bestWaterPosition (waterPositions w currentPos targetPos True) currentPos)"
  by pat_completeness auto
termination
  by (relation "measure (\<lambda>(w, currentPos, targetPos, preferOpenWater).
                           if preferOpenWater then 1 else 0)") auto

definition findValidWaterPosition ::
  "SquadWorld \<Rightarrow> Vector2 \<Rightarrow> Vector2 \<Rightarrow> bool \<Rightarrow> Vector2" where
  "findValidWaterPosition w target currentPos avoidDeadEnds =
     findBestWaterPosition w (clampToMapBoundaries w currentPos) (clampToMapBoundaries w target)
       avoidDeadEnds"

subsection \<open>Formation moves and stuck recovery\<close>

definition getFormationOffset :: "int \<Rightarrow> nat \<Rightarrow> Vector2" where
  "getFormationOffset index totalUnits =
     (let radius = min 3 (max 1 (real totalUnits / 3));
          angle = (of_int index * 2 * pi) / real totalUnits
      in (cos angle * radius, sin angle * radius))"

definition moveUnitInFormation ::
  "SquadWorld \<Rightarrow> Vector2 \<Rightarrow> nat \<Rightarrow> int \<Rightarrow> SquadCtx \<Rightarrow> nat \<times> UnitData \<Rightarrow> SquadCtx" where
  "moveUnitInFormation w targetPoint totalUnits currentTick ctx iu =
     (let (index, unit) = iu
      in if isPathfindingInProgress (fst ctx) unit currentTick then ctx
         else (let offset = getFormationOffset (int index) totalUnits;
                   clamped = clampToMapBoundaries w
                               (fst targetPoint + fst offset, snd targetPoint + snd offset);
                   unitTarget = (if \<not> isValidMapPosition w clamped
                                 then findBestWaterPosition w clamped targetPoint True
                                 else clamped)
               in startPathfinding
                    (submitActionIfNew ctx (manageMoveMicro unit unitTarget)) unit currentTick))"

definition moveUnitsInFormation ::
  "SquadWorld \<Rightarrow> SquadCtx \<Rightarrow> UnitData list \<Rightarrow> Vector2 \<Rightarrow> int \<Rightarrow> SquadCtx" where
  "moveUnitsInFormation w ctx units targetPoint0 currentTick =
     (let targetOpenness = evaluateWaterArea w targetPoint0;
          targetPoint1 = (if targetOpenness < MIN_WATER_OPENNESS
                          then findBestWaterPosition w targetPoint0 targetPoint0 True
                          else targetPoint0);
          targetPoint = clampToMapBoundaries w targetPoint1
      in foldl (moveUnitInFormation w targetPoint (length units) currentTick) ctx
           (zip [0..<length units] units))"

definition handleStuckUnit :: "SquadWorld \<Rightarrow> SquadCtx \<Rightarrow> UnitData \<Rightarrow> int \<Rightarrow> SquadCtx" where
  "handleStuckUnit w ctx unit currentTick =
     (let (sq, batcher) = ctx;
          unitPos = (ud_rx unit, ud_ry unit);
          stuckState0 = (case sq_stuckStates sq (ud_id unit) of
                           Some st \<Rightarrow> st
                         | None \<Rightarrow> \<lparr>ss_attempts = 0, ss_lastAttemptTime = currentTick,
                                     ss_lastPosition = unitPos\<rparr>);
          stuckState =
            (if currentTick - ss_lastAttemptTime stuckState0 > STUCK_CHECK_INTERVAL * 2
             then stuckState0
                    \<lparr>ss_attempts :=
                       (if getDistanceBetweenPoints unitPos (ss_lastPosition stuckState0)
                           < STUCK_DISTANCE_THRESHOLD
                        then ss_attempts stuckState0 + 1 else ss_attempts stuckState0),
                     ss_lastAttemptTime := currentTick, ss_lastPosition := unitPos\<rparr>
             else stuckState0);
          sq1 = sq\<lparr>sq_stuckStates := (sq_stuckStates sq)(ud_id unit \<mapsto> stuckState)\<rparr>;
          shouldFindOpenWater = (ss_attempts stuckState \<ge> MAX_STUCK_ATTEMPTS);
          retreatTarget0 = findValidWaterPosition w unitPos unitPos shouldFindOpenWater;
          direction = (fst retreatTarget0 - ud_rx unit, snd retreatTarget0 - ud_ry unit);
          len = sqrt (fst direction * fst direction + snd direction * snd direction);
          retreatTarget1 =
            (if len > 0
             then clampToMapBoundaries w
                    (fst retreatTarget0
                       + fst direction / len * RETREAT_DISTANCE * (real (ss_attempts stuckState) + 1),
                     snd retreatTarget0
                       + snd direction / len * RETREAT_DISTANCE * (real (ss_attempts stuckState) + 1))
             else retreatTarget0);
          retreatTarget = (if \<not> isValidMapPosition w retreatTarget1
                           then findValidWaterPosition w retreatTarget1 unitPos True
                           else retreatTarget1)
      in startPathfinding
           (submitActionIfNew (sq1, batcher) (manageMoveMicro unit retreatTarget))
           unit currentTick)"

text \<open>
  \<open>updateExplorationTarget\<close>; \<open>rnd\<close> holds the values of the two calls of \<open>Math.random()\<close>.
\<close>

definition updateExplorationTarget ::
  "SquadWorld \<Rightarrow> NavalSquad \<Rightarrow> UnitData \<Rightarrow> real \<times> real \<Rightarrow> NavalSquad \<times> Vector2" where
  "updateExplorationTarget w sq unit rnd =
     (let currentTick = qw_currentTick w;
          sq1 = (if currentTick > sq_lastExplorationChange sq + EXPLORATION_INTERVAL_TICKS
                 then (let turned = sq_currentExplorationAngle sq
                                    + EXPLORATION_ANGLE_CHANGE * (1 + fst rnd)
                       in sq\<lparr>sq_currentExplorationAngle := (if turned \<ge> 360 then 0 else turned),
                             sq_lastExplorationChange := currentTick\<rparr>)
                 else sq);
          angleInRadians = sq_currentExplorationAngle sq1 * pi / 180;
          explorationDistance = EXPLORATION_RANGE * (8 / 10 + snd rnd * (4 / 10));
          rawTarget = (ud_rx unit + cos angleInRadians * explorationDistance,
                       ud_ry unit + sin angleInRadians * explorationDistance)
      in (sq1, findValidWaterPosition w rawTarget (ud_rx unit, ud_ry unit) True))"

subsection \<open>Combat\<close>

definition updateCombatState :: "SquadCtx \<Rightarrow> UnitData \<Rightarrow> int \<Rightarrow> bool \<Rightarrow> SquadCtx" where
  "updateCombatState ctx unit currentTick hasTarget =
     (let (sq, batcher) = ctx;
          state0 = (case sq_unitCombatStates sq (ud_id unit) of
                      Some st \<Rightarrow> st
                    | None \<Rightarrow> \<lparr>cs_lastEngageTime = currentTick, cs_lastPosition = None\<rparr>);
          state1 = (if hasTarget then state0\<lparr>cs_lastEngageTime := currentTick\<rparr> else state0);
          state2 = state1\<lparr>cs_lastPosition := Some (ud_rx unit, ud_ry unit)\<rparr>
      in (sq\<lparr>sq_unitCombatStates := (sq_unitCombatStates sq)(ud_id unit \<mapsto> state2)\<rparr>, batcher))"

text \<open>
  \<open>findNearestEngagedAlly\<close>: the accumulator is the nearest ally so far with its distance;
  the initial \<open>Number.MAX_VALUE\<close> admits any distance.
\<close>

definition findNearestEngagedAlly ::
  "NavalSquad \<Rightarrow> UnitData \<Rightarrow> UnitData list \<Rightarrow> int \<Rightarrow> UnitData option" where
  "findNearestEngagedAlly sq unit units currentTick =
     map_option fst
       (foldl (\<lambda>nearest ally.
                 if ud_id ally = ud_id unit then nearest
                 else case sq_unitCombatStates sq (ud_id ally) of
                        None \<Rightarrow> nearest
                      | Some allyState \<Rightarrow>
                          if \<not> currentTick - cs_lastEngageTime allyState < MAX_IDLE_COMBAT_TICKS
                          then nearest
                          else (let distance = getDistanceBetweenUnits unit ally
                                in case nearest of
                                     None \<Rightarrow> Some (ally, distance)
                                   | Some (_, minDistance) \<Rightarrow>
                                       if distance < minDistance then Some (ally, distance)
                                       else nearest))
          None units)"

text \<open>The hostiles near a point that exist and are not neutral.\<close>

definition hostileUnitsNear :: "SquadWorld \<Rightarrow> Vector2 \<Rightarrow> real \<Rightarrow> UnitData list" where
  "hostileUnitsNear w point radius =
     map the (filter (\<lambda>u. u \<noteq> None \<and> \<not> qw_isOwnedByNeutral w u)
                (map (qw_getUnitData w) (qw_hostilesNearPoint w point radius)))"

text \<open>
  \<open>findMajorBattles\<close>. The \<open>Map\<close> from the rounded battle centre to the battle is an
  association list in insertion order.
\<close>

definition addToBattles ::
  "SquadWorld \<Rightarrow> ((real \<times> real) \<times> BattleInfo) list \<Rightarrow> UnitData
     \<Rightarrow> ((real \<times> real) \<times> BattleInfo) list" where
  "addToBattles w battles unit =
     (let nearbyHostiles = hostileUnitsNear w (ud_rx unit, ud_ry unit) ATTACK_SCAN_AREA
      in if nearbyHostiles = [] then battles
         else (let centerX = sum_list (map ud_rx nearbyHostiles) / real (length nearbyHostiles);
                   centerY = sum_list (map ud_ry nearbyHostiles) / real (length nearbyHostiles);
                   battleKey = (Math_round centerX, Math_round centerY);
                   hasBuildings = list_ex (\<lambda>target. \<not> ud_rules_isSelectableCombatant target)
                                    nearbyHostiles
               in case map_of battles battleKey of
                    None \<Rightarrow>
                      battles @ [(battleKey,
                                  \<lparr>bi_position = (centerX, centerY), bi_unitCount = 1,
                                   bi_hasBuildings = hasBuildings,
                                   bi_targets = nearbyHostiles\<rparr>)]
                  | Some battle \<Rightarrow>
                      map (\<lambda>(k, b). if k = battleKey
                             then (k, battle\<lparr>bi_unitCount := bi_unitCount battle + 1,
                                     bi_hasBuildings := (bi_hasBuildings battle \<or> hasBuildings),
                                     bi_targets := bi_targets battle
                                       @ filter (\<lambda>target. ud_id target
                                                   \<notin> ud_id ` set (bi_targets battle))
                                           nearbyHostiles\<rparr>)
                             else (k, b))
                        battles))"

definition findMajorBattles :: "SquadWorld \<Rightarrow> UnitData list \<Rightarrow> BattleInfo list" where
  "findMajorBattles w units =
     filter (\<lambda>battle. bi_unitCount battle \<ge> MIN_UNITS_FOR_MAJOR_BATTLE \<or> bi_hasBuildings battle)
       (map snd (foldl (addToBattles w) [] units))"

text \<open>\<open>primaryWeapon?.maxRange ?? secondaryWeapon?.maxRange ?? 5\<close>.\<close>

definition weaponRange :: "UnitData \<Rightarrow> real" where
  "weaponRange unit =
     (case ud_primaryMaxRange unit of
        Some r \<Rightarrow> r
      | None \<Rightarrow> (case ud_secondaryMaxRange unit of Some r \<Rightarrow> r | None \<Rightarrow> 5))"

text \<open>
  The last step of both weight functions, \<open>weight *= (1 - distance / (maxRange * k))\<close>, divides
  by a product that is zero for an attacker of weapon range 0. A JavaScript number is then
  not finite: \<open>x / 0\<close> is \<open>Infinity\<close>, \<open>-Infinity\<close> or (for \<open>0 / 0\<close>) \<open>NaN\<close>, and these propagate
  through the subtraction and the multiplication. \<open>jsNumber\<close> keeps these three values beside
  the finite ones; the three operations below take the finite operands that the code has at
  these places. A zero is the positive zero. Every comparison with \<open>NaN\<close> is false.
\<close>

datatype jsNumber = Finite real | PlusInfinity | MinusInfinity | NaN

definition js_divide :: "real \<Rightarrow> real \<Rightarrow> jsNumber" where
  "js_divide x y =
     (if y \<noteq> 0 then Finite (x / y)
      else if x > 0 then PlusInfinity
      else if x < 0 then MinusInfinity
      else NaN)"

definition js_minus :: "real \<Rightarrow> jsNumber \<Rightarrow> jsNumber" where
  "js_minus x q =
     (case q of
        Finite v \<Rightarrow> Finite (x - v)
      | PlusInfinity \<Rightarrow> MinusInfinity
      | MinusInfinity \<Rightarrow> PlusInfinity
      | NaN \<Rightarrow> NaN)"

definition js_times :: "real \<Rightarrow> jsNumber \<Rightarrow> jsNumber" where
  "js_times x q =
     (case q of
        Finite v \<Rightarrow> Finite (x * v)
      | PlusInfinity \<Rightarrow>
          (if x > 0 then PlusInfinity else if x < 0 then MinusInfinity else NaN)
      | MinusInfinity \<Rightarrow>
          (if x > 0 then MinusInfinity else if x < 0 then PlusInfinity else NaN)
      | NaN \<Rightarrow> NaN)"

fun js_greater :: "jsNumber \<Rightarrow> jsNumber \<Rightarrow> bool" where
  "js_greater (Finite a) (Finite b) = (a > b)"
| "js_greater PlusInfinity (Finite b) = True"
| "js_greater PlusInfinity MinusInfinity = True"
| "js_greater (Finite a) MinusInfinity = True"
| "js_greater _ _ = False"

definition calculateTargetWeight :: "UnitData \<Rightarrow> UnitData \<Rightarrow> bool \<Rightarrow> jsNumber" where
  "calculateTargetWeight attacker target inMajorBattle =
     (let distance = getDistanceBetweenUnits attacker target;
          maxRange = weaponRange attacker;
          weight0 = 1;
          weight1 =
            (if ud_rules_isSelectableCombatant target then
               (let a = weight0 * COMBAT_UNIT_PRIORITY;
                    b = (if ud_rules_movementZone target = Water
                         then a * NAVAL_UNIT_PRIORITY else a);
                    c = (if ud_rules_movementZone target = AmphibiousDestroyer
                         then b * (NAVAL_UNIT_PRIORITY * (8 / 10)) else b);
                    healthPercentage = (if ud_rules_strength target > 0
                                        then ud_rules_points target / ud_rules_strength target
                                        else 1)
                in c * (1 + (1 - healthPercentage) * LOW_HEALTH_PRIORITY))
             else
               (let a = weight0 * BUILDING_ATTACK_PRIORITY
                in if ud_rules_name target = ''NAYARD'' then a * NAVAL_YARD_PRIORITY else a));
          weight2 = (if distance \<le> maxRange then weight1 * NEARBY_TARGET_BONUS else weight1)
      in js_times weight2 (js_minus 1 (js_divide distance (maxRange * (25 / 10)))))"

text \<open>
  \<open>targets.reduce((best, current) => weight(current) > (best ? weight(best) : -1) ? current :
  best, null)\<close>: the first target of the greatest weight, if that weight exceeds \<open>-1\<close>.
\<close>

definition reduceBest :: "('a \<Rightarrow> jsNumber) \<Rightarrow> 'a list \<Rightarrow> 'a option" where
  "reduceBest weight targets =
     foldl (\<lambda>best current.
              (let currentWeight = weight current;
                   bestWeight = (case best of Some b \<Rightarrow> weight b | None \<Rightarrow> Finite (- 1))
               in if js_greater currentWeight bestWeight then Some current else best))
       None targets"

definition findBestTarget :: "UnitData \<Rightarrow> UnitData list \<Rightarrow> bool \<Rightarrow> UnitData option" where
  "findBestTarget unit targets inMajorBattle =
     (let combatTargets = filter (\<lambda>t. ud_rules_isSelectableCombatant t) targets;
          buildingTargets = filter (\<lambda>t. \<not> ud_rules_isSelectableCombatant t) targets;
          maxRange = weaponRange unit
      in if combatTargets \<noteq> [] then
           (let bestCombatTarget =
                  reduceBest (\<lambda>t. calculateTargetWeight unit t inMajorBattle) combatTargets;
                nearbyBuilding =
                  find (\<lambda>building. getDistanceBetweenUnits unit building \<le> maxRange
                                    \<and> ud_rules_name building = ''NAYARD'') buildingTargets
            in case (nearbyBuilding, bestCombatTarget) of
                 (Some building, Some combat) \<Rightarrow>
                   if getDistanceBetweenUnits unit building \<le> maxRange
                      \<and> getDistanceBetweenUnits unit combat > maxRange * (15 / 10)
                   then Some building else Some combat
               | _ \<Rightarrow> bestCombatTarget)
         else reduceBest (\<lambda>t. calculateTargetWeight unit t inMajorBattle) buildingTargets)"

text \<open>
  \<open>findNearbyNavalYard\<close>: \<open>reduce\<close> without an initial value starts from the first yard and
  keeps the nearer one, the earlier on a tie.
\<close>

definition findNearbyNavalYard :: "SquadWorld \<Rightarrow> Vector2 \<Rightarrow> UnitData option" where
  "findNearbyNavalYard w position =
     (case filter (\<lambda>unit. ud_rules_name unit = ''NAYARD'')
             (hostileUnitsNear w position NAVAL_YARD_SCAN_RANGE) of
        [] \<Rightarrow> None
      | first # others \<Rightarrow>
          Some (foldl (\<lambda>nearest current.
                         if getDistanceBetweenPoints position (ud_rx current, ud_ry current)
                            < getDistanceBetweenPoints position (ud_rx nearest, ud_ry nearest)
                         then current else nearest)
                  first others))"

text \<open>\<open>units.indexOf(unit)\<close>: the first index of the unit, or \<open>-1\<close>.\<close>

fun indexOf :: "'a list \<Rightarrow> 'a \<Rightarrow> int" where
  "indexOf [] a = - 1"
| "indexOf (b # bs) a =
     (if b = a then 0 else (let i = indexOf bs a in if i < 0 then - 1 else i + 1))"

text \<open>
  The nearest major battle with its distance (\<open>reduce\<close> from \<open>null\<close>, the earlier battle on a
  tie).
\<close>

definition nearestBattle :: "UnitData \<Rightarrow> BattleInfo list \<Rightarrow> (BattleInfo \<times> real) option" where
  "nearestBattle unit majorBattles =
     foldl (\<lambda>nearest battle.
              (let distance = getDistanceBetweenPoints (ud_rx unit, ud_ry unit)
                                (bi_position battle)
               in case nearest of
                    None \<Rightarrow> Some (battle, distance)
                  | Some (_, nearestDistance) \<Rightarrow>
                      if distance < nearestDistance then Some (battle, distance) else nearest))
       None majorBattles"

text \<open>The last part of \<open>handleCombat\<close>: the unit's own best target, or one of three moves.\<close>

definition engageOrMove ::
  "SquadWorld \<Rightarrow> SquadCtx \<Rightarrow> UnitData \<Rightarrow> UnitData list \<Rightarrow> UnitData list \<Rightarrow> int \<Rightarrow> Vector2
     \<Rightarrow> SquadCtx" where
  "engageOrMove w ctx unit nearbyHostiles units currentTick targetPoint =
     (case findBestTarget unit nearbyHostiles False of
        Some bestTarget \<Rightarrow>
          updateCombatState (submitActionIfNew ctx (manageAttackMicro unit bestTarget))
            unit currentTick True
      | None \<Rightarrow>
          (let moved =
                 (case findNearestEngagedAlly (fst ctx) unit units currentTick of
                    Some nearestEngagedAlly \<Rightarrow>
                      submitActionIfNew ctx
                        (manageMoveMicro unit
                           (ud_rx nearestEngagedAlly, ud_ry nearestEngagedAlly))
                  | None \<Rightarrow>
                      (case sq_unitCombatStates (fst ctx) (ud_id unit) of
                         Some state \<Rightarrow>
                           if currentTick - cs_lastEngageTime state > MAX_IDLE_COMBAT_TICKS
                           then (let searchAngle = real (ud_id unit mod 360) * (pi / 180);
                                     searchTarget =
                                       (ud_rx unit + cos searchAngle * SUPPORT_ATTACK_RANGE,
                                        ud_ry unit + sin searchAngle * SUPPORT_ATTACK_RANGE)
                                 in submitActionIfNew ctx (manageMoveMicro unit searchTarget))
                           else (let offset = getFormationOffset (indexOf units unit)
                                                (length units)
                                 in submitActionIfNew ctx
                                      (manageMoveMicro unit
                                         (fst targetPoint + fst offset,
                                          snd targetPoint + snd offset)))
                       | None \<Rightarrow>
                           (let offset = getFormationOffset (indexOf units unit) (length units)
                            in submitActionIfNew ctx
                                 (manageMoveMicro unit
                                    (fst targetPoint + fst offset,
                                     snd targetPoint + snd offset)))))
           in updateCombatState moved unit currentTick False))"

text \<open>
  The middle part of \<open>handleCombat\<close>: joining the nearest major battle. \<open>None\<close> means that the
  code falls through to the unit's own target search.
\<close>

definition joinMajorBattle ::
  "SquadWorld \<Rightarrow> SquadCtx \<Rightarrow> UnitData \<Rightarrow> UnitData list \<Rightarrow> UnitData list \<Rightarrow> int
     \<Rightarrow> SquadCtx option" where
  "joinMajorBattle w ctx unit nearbyHostiles units currentTick =
     (let majorBattles = findMajorBattles w units
      in if majorBattles \<noteq> [] \<and> nearbyHostiles = [] then
           (case nearestBattle unit majorBattles of
              Some (battle, distance) \<Rightarrow>
                if distance \<le> MAJOR_BATTLE_SUPPORT_RANGE then
                  (case findBestTarget unit (bi_targets battle) True of
                     Some bestTarget \<Rightarrow>
                       Some (updateCombatState
                               (submitActionIfNew ctx (manageAttackMicro unit bestTarget))
                               unit currentTick True)
                   | None \<Rightarrow> None)
                else None
            | None \<Rightarrow> None)
         else None)"

definition handleCombat ::
  "SquadWorld \<Rightarrow> SquadCtx \<Rightarrow> UnitData \<Rightarrow> UnitData list \<Rightarrow> UnitData list \<Rightarrow> int \<Rightarrow> Vector2
     \<Rightarrow> SquadCtx" where
  "handleCombat w ctx unit nearbyHostiles units currentTick targetPoint =
     (case (if filter (\<lambda>h. ud_rules_isSelectableCombatant h) nearbyHostiles = []
            then findNearbyNavalYard w (ud_rx unit, ud_ry unit) else None) of
        Some nearbyNavalYard \<Rightarrow>
          updateCombatState (submitActionIfNew ctx (manageAttackMicro unit nearbyNavalYard))
            unit currentTick True
      | None \<Rightarrow>
          (case joinMajorBattle w ctx unit nearbyHostiles units currentTick of
             Some joined \<Rightarrow> joined
           | None \<Rightarrow> engageOrMove w ctx unit nearbyHostiles units currentTick targetPoint))"

subsection \<open>The update of the full squad\<close>

text \<open>The units behind the naval unit ids that still exist.\<close>

definition navalUnits :: "SquadWorld \<Rightarrow> UnitData list" where
  "navalUnits w = map the (filter (\<lambda>u. u \<noteq> None) (map (qw_getUnitData w) (qw_navalUnitIds w)))"

text \<open>
  The stuck check, run when more than 60 ticks have passed since the last one: every naval
  unit's position is sampled, and a unit found stuck gets a recovery order.
\<close>

definition stuckCheck :: "SquadWorld \<Rightarrow> SquadCtx \<Rightarrow> SquadCtx" where
  "stuckCheck w ctx =
     (let currentTick = qw_currentTick w
      in if currentTick > sq_lastStuckCheck (fst ctx) + STUCK_CHECK_INTERVAL then
           foldl (\<lambda>c unit.
                    (let c1 = (updateUnitPosition (fst c) unit currentTick, snd c)
                     in if isUnitStuck (fst c1) unit
                        then handleStuckUnit w c1 unit currentTick else c1))
             ((fst ctx)\<lparr>sq_lastStuckCheck := currentTick\<rparr>, snd ctx)
             (navalUnits w)
         else ctx)"

text \<open>
  The condition under which a gathering squad keeps gathering, and an attacking squad falls
  back to gathering: a centroid, a non-zero largest distance, a tile under the centroid, and
  the largest distance above the required radius. The result is the centroid when the
  condition holds.
\<close>

definition scatteredCentre :: "SquadWorld \<Rightarrow> real \<Rightarrow> Vector2 option" where
  "scatteredCentre w requiredGatherRadius =
     (case qw_centerOfMass w of
        None \<Rightarrow> None
      | Some centerOfMass \<Rightarrow>
          (case qw_maxDistance w of
             None \<Rightarrow> None
           | Some maxDistance \<Rightarrow>
               if maxDistance \<noteq> 0 \<and> qw_getTile w centerOfMass \<noteq> None
                  \<and> maxDistance > requiredGatherRadius
               then Some centerOfMass else None))"

text \<open>
  \<open>units.reduce((a, b) => range(a) < range(b) ? a : b)\<close>: the unit of the shortest range,
  the later one on a tie; on no units a \<open>TypeError\<close>.
\<close>

definition reduceLeader :: "(UnitData \<Rightarrow> real) \<Rightarrow> UnitData list \<Rightarrow> jsError + UnitData" where
  "reduceLeader rangeOf units =
     (case units of
        [] \<Rightarrow> Inl TypeError
      | first # others \<Rightarrow>
          Inr (foldl (\<lambda>a b. if rangeOf a < rangeOf b then a else b) first others))"

definition primaryRange :: "UnitData \<Rightarrow> real" where
  "primaryRange unit = (case ud_primaryMaxRange unit of Some r \<Rightarrow> r | None \<Rightarrow> 5)"

definition attackStep :: "SquadWorld \<Rightarrow> SquadCtx \<Rightarrow> SquadCtx \<times> (jsError + MissionAction)" where
  "attackStep w ctx =
     (let currentTick = qw_currentTick w;
          units = navalUnits w;
          targetPoint = (case sq_targetArea (fst ctx) of
                           Some t \<Rightarrow> t | None \<Rightarrow> qw_startLocation w);
          requiredGatherRadius = sqrt (real (length units)) * GATHER_RATIO + MAX_GATHER_RADIUS
      in if scatteredCentre w requiredGatherRadius \<noteq> None
         then (((fst ctx)\<lparr>sq_state := Gathering\<rparr>, snd ctx), Inr Noop)
         else case reduceLeader primaryRange units of
                Inl e \<Rightarrow> (ctx, Inl e)
              | Inr attackLeader \<Rightarrow>
                  (let leaderPos = (ud_rx attackLeader, ud_ry attackLeader);
                       nearbyHostiles = hostileUnitsNear w leaderPos ATTACK_SCAN_AREA
                   in case nearbyHostiles of
                        [] \<Rightarrow>
                          (case findNearbyNavalYard w leaderPos of
                             Some nearbyNavalYard \<Rightarrow>
                               (moveUnitsInFormation w ctx units
                                  (ud_rx nearbyNavalYard, ud_ry nearbyNavalYard) currentTick,
                                Inr Noop)
                           | None \<Rightarrow>
                               (moveUnitsInFormation w ctx units targetPoint currentTick,
                                Inr Noop))
                      | buildingTarget # _ \<Rightarrow>
                          if list_all (\<lambda>unit. \<not> ud_rules_isSelectableCombatant unit)
                               nearbyHostiles
                          then (moveUnitsInFormation w ctx units
                                  (ud_rx buildingTarget, ud_ry buildingTarget) currentTick,
                                Inr Noop)
                          else (foldl (\<lambda>c unit. handleCombat w c unit nearbyHostiles units
                                                    currentTick targetPoint) ctx units,
                                Inr Noop)))"

definition exploreUnit :: "SquadWorld \<Rightarrow> nat \<Rightarrow> SquadCtx \<Rightarrow> nat \<times> UnitData \<Rightarrow> SquadCtx" where
  "exploreUnit w totalUnits ctx iu =
     (let (index, unit) = iu;
          sq0 = (fst ctx)\<lparr>sq_currentExplorationAngle := (360 / real totalUnits) * real index\<rparr>;
          (sq1, baseTarget) = updateExplorationTarget w sq0 unit (qw_random w index);
          offset = getFormationOffset (int index) totalUnits;
          explorationTarget = (fst baseTarget + fst offset, snd baseTarget + snd offset);
          c1 = (if qw_getTile w explorationTarget \<noteq> None
                then submitActionIfNew (sq1, snd ctx) (manageMoveMicro unit explorationTarget)
                else (sq1, snd ctx));
          nearbyHostiles = filter (\<lambda>hostile. \<not> qw_isOwnedByNeutral w (qw_getUnitData w hostile))
                             (qw_hostilesNearPoint w (ud_rx unit, ud_ry unit) ATTACK_SCAN_AREA)
      in if nearbyHostiles \<noteq> [] then ((fst c1)\<lparr>sq_state := Attacking\<rparr>, snd c1) else c1)"

text \<open>The command step, run on a command tick, by squad state.\<close>

definition commandStep :: "SquadWorld \<Rightarrow> SquadCtx \<Rightarrow> SquadCtx \<times> (jsError + MissionAction)" where
  "commandStep w ctx0 =
     (let currentTick = qw_currentTick w;
          ctx = ((fst ctx0)\<lparr>sq_lastCommand := currentTick\<rparr>, snd ctx0);
          units = navalUnits w
      in case sq_state (fst ctx) of
           Gathering \<Rightarrow>
             (let requiredGatherRadius =
                    sqrt (real (length (qw_navalUnitIds w))) * GATHER_RATIO + MIN_GATHER_RADIUS
              in case scatteredCentre w requiredGatherRadius of
                   Some centerOfMass \<Rightarrow>
                     (moveUnitsInFormation w ctx units centerOfMass currentTick, Inr Noop)
                 | None \<Rightarrow> (((fst ctx)\<lparr>sq_state := Attacking\<rparr>, snd ctx), Inr Noop))
         | Attacking \<Rightarrow> attackStep w ctx
         | Exploring \<Rightarrow>
             (foldl (exploreUnit w (length units)) ctx (zip [0..<length units] units), Inr Noop)
         | Retreating \<Rightarrow> (ctx, Inr Noop))"

definition isCommandTick :: "SquadWorld \<Rightarrow> int \<Rightarrow> bool" where
  "isCommandTick w lastCommand =
     (qw_missionUnitIds w \<noteq> []
      \<and> (lastCommand = 0 \<or> qw_currentTick w > lastCommand + TARGET_UPDATE_INTERVAL_TICKS))"

text \<open>\<open>onAiUpdate\<close> of the full squad: the stuck check, then the command step.\<close>

definition onAiUpdate :: "SquadWorld \<Rightarrow> SquadCtx \<Rightarrow> SquadCtx \<times> (jsError + MissionAction)" where
  "onAiUpdate w ctx0 =
     (let ctx = stuckCheck w ctx0
      in if isCommandTick w (sq_lastCommand (fst ctx)) then commandStep w ctx
         else (ctx, Inr Noop))"

subsection \<open>The basic squad\<close>

text \<open>
  The second version of \<open>NavalSquad\<close>: two states, no stuck recovery, no formations. Its scan
  radius is 15, and its attack weight is the function \<open>getNavalAttackWeight\<close>.
\<close>

datatype BasicSquadState = BasicGathering | BasicAttacking

definition ATTACK_SCAN_AREA_BASIC :: real where [squad_consts]: "ATTACK_SCAN_AREA_BASIC = 15"

record BasicNavalSquad =
  bq_lastCommand :: int
  bq_state :: BasicSquadState
  bq_targetArea :: "Vector2 option"
  bq_lastOrderGiven :: "nat \<rightharpoonup> BatchableAction"

type_synonym BasicSquadCtx = "BasicNavalSquad \<times> ActionBatcher"

definition newBasicNavalSquad :: "Vector2 option \<Rightarrow> BasicNavalSquad" where
  "newBasicNavalSquad targetArea =
     \<lparr>bq_lastCommand = 0, bq_state = BasicGathering, bq_targetArea = targetArea,
      bq_lastOrderGiven = Map.empty\<rparr>"

definition bq_submitActionIfNew :: "BasicSquadCtx \<Rightarrow> BatchableAction \<Rightarrow> BasicSquadCtx" where
  "bq_submitActionIfNew ctx action =
     (let (sq, batcher) = ctx
      in case bq_lastOrderGiven sq (ba_unitId action) of
           Some lastAction \<Rightarrow>
             if \<not> isSameAs lastAction action
             then (sq\<lparr>bq_lastOrderGiven := (bq_lastOrderGiven sq)(ba_unitId action \<mapsto> action)\<rparr>,
                   push batcher action)
             else ctx
         | None \<Rightarrow>
             (sq\<lparr>bq_lastOrderGiven := (bq_lastOrderGiven sq)(ba_unitId action \<mapsto> action)\<rparr>,
              push batcher action))"

definition getNavalAttackWeight :: "UnitData \<Rightarrow> UnitData \<Rightarrow> jsNumber" where
  "getNavalAttackWeight attacker target =
     (let distance = getDistanceBetweenUnits attacker target;
          maxRange = weaponRange attacker;
          weight0 = 1;
          weight1 = (if ud_rules_movementZone target = Water
                     then weight0 * (15 / 10) else weight0);
          weight2 = (if ud_rules_movementZone target = AmphibiousDestroyer
                     then weight1 * (13 / 10) else weight1);
          weight3 = (if distance \<le> maxRange then weight2 * (12 / 10) else weight2);
          healthPercentage = (if ud_rules_strength target > 0
                              then ud_rules_points target / ud_rules_strength target else 1);
          weight4 = weight3 * (2 - healthPercentage)
      in js_times weight4 (js_minus 1 (js_divide distance (maxRange * 2))))"

definition bq_attackUnit ::
  "UnitData list \<Rightarrow> Vector2 \<Rightarrow> BasicSquadCtx \<Rightarrow> UnitData \<Rightarrow> BasicSquadCtx" where
  "bq_attackUnit nearbyHostiles targetPoint ctx unit =
     (case reduceBest (getNavalAttackWeight unit) nearbyHostiles of
        Some bestTarget \<Rightarrow> bq_submitActionIfNew ctx (manageAttackMicro unit bestTarget)
      | None \<Rightarrow> bq_submitActionIfNew ctx (manageMoveMicro unit targetPoint))"

definition bq_commandStep ::
  "SquadWorld \<Rightarrow> BasicSquadCtx \<Rightarrow> BasicSquadCtx \<times> (jsError + MissionAction)" where
  "bq_commandStep w ctx0 =
     (let ctx = ((fst ctx0)\<lparr>bq_lastCommand := qw_currentTick w\<rparr>, snd ctx0);
          units = navalUnits w
      in case bq_state (fst ctx) of
           BasicGathering \<Rightarrow>
             (let requiredGatherRadius =
                    sqrt (real (length (qw_navalUnitIds w))) * GATHER_RATIO + MIN_GATHER_RADIUS
              in case scatteredCentre w requiredGatherRadius of
                   Some centerOfMass \<Rightarrow>
                     (foldl (\<lambda>c unit. bq_submitActionIfNew c (manageMoveMicro unit centerOfMass))
                        ctx units,
                      Inr Noop)
                 | None \<Rightarrow> (((fst ctx)\<lparr>bq_state := BasicAttacking\<rparr>, snd ctx), Inr Noop))
         | BasicAttacking \<Rightarrow>
             (let targetPoint = (case bq_targetArea (fst ctx) of
                                   Some t \<Rightarrow> t | None \<Rightarrow> qw_startLocation w);
                  requiredGatherRadius =
                    sqrt (real (length (qw_navalUnitIds w))) * GATHER_RATIO + MAX_GATHER_RADIUS
              in if scatteredCentre w requiredGatherRadius \<noteq> None
                 then (((fst ctx)\<lparr>bq_state := BasicGathering\<rparr>, snd ctx), Inr Noop)
                 else case reduceLeader weaponRange units of
                        Inl e \<Rightarrow> (ctx, Inl e)
                      | Inr attackLeader \<Rightarrow>
                          (let nearbyHostiles =
                                 hostileUnitsNear w (ud_rx attackLeader, ud_ry attackLeader)
                                   ATTACK_SCAN_AREA_BASIC
                           in (foldl (bq_attackUnit nearbyHostiles targetPoint) ctx units,
                               Inr Noop))))"

definition bq_onAiUpdate ::
  "SquadWorld \<Rightarrow> BasicSquadCtx \<Rightarrow> BasicSquadCtx \<times> (jsError + MissionAction)" where
  "bq_onAiUpdate w ctx =
     (if isCommandTick w (bq_lastCommand (fst ctx)) then bq_commandStep w ctx
      else (ctx, Inr Noop))"

section \<open>The attack weight in the words of the specification\<close>

text \<open>
  The remaining health fraction of a target, which the specification's low-health bonus is
  inversely proportional to: the hit points that remain, over the full hit points.
\<close>

definition healthFraction :: "UnitData \<Rightarrow> real" where
  "healthFraction target = ud_hitPoints target / ud_maxHitPoints target"

text \<open>
  The other factors that the specification names, with the constants of the full squad
  (\<open>calculateTargetWeight\<close>) and of the basic squad (\<open>getNavalAttackWeight\<close>), and the linear
  decay that is zero at \<open>reach\<close> times the attacker's weapon range.
\<close>

definition typeMultiplier :: "UnitData \<Rightarrow> real" where
  "typeMultiplier target =
     (if ud_rules_isSelectableCombatant target then 2
      else if ud_rules_name target = ''NAYARD'' then 8 / 10 * 2 else 8 / 10)"

definition navalBonus :: "UnitData \<Rightarrow> real" where
  "navalBonus target =
     (if \<not> ud_rules_isSelectableCombatant target then 1
      else if ud_rules_movementZone target = Water then 18 / 10
      else if ud_rules_movementZone target = AmphibiousDestroyer then 18 / 10 * (8 / 10)
      else 1)"

definition inRangeBonus :: "UnitData \<Rightarrow> UnitData \<Rightarrow> real" where
  "inRangeBonus attacker target =
     (if getDistanceBetweenUnits attacker target \<le> weaponRange attacker then 13 / 10 else 1)"

definition distanceDecay :: "real \<Rightarrow> UnitData \<Rightarrow> UnitData \<Rightarrow> real" where
  "distanceDecay reach attacker target =
     1 - getDistanceBetweenUnits attacker target / (weaponRange attacker * reach)"

definition basicNavalBonus :: "UnitData \<Rightarrow> real" where
  "basicNavalBonus target =
     (if ud_rules_movementZone target = Water then 15 / 10
      else if ud_rules_movementZone target = AmphibiousDestroyer then 13 / 10 else 1)"

definition basicInRangeBonus :: "UnitData \<Rightarrow> UnitData \<Rightarrow> real" where
  "basicInRangeBonus attacker target =
     (if getDistanceBetweenUnits attacker target \<le> weaponRange attacker then 12 / 10 else 1)"

text \<open>
  The factor that the code has in the place of the low-health bonus: it is computed from
  \<open>rules.points\<close> and \<open>rules.strength\<close>, the local constant \<open>healthPercentage\<close> of both weight
  functions.
\<close>

definition rulesRatio :: "UnitData \<Rightarrow> real" where
  "rulesRatio target =
     (if ud_rules_strength target > 0 then ud_rules_points target / ud_rules_strength target
      else 1)"

section \<open>Orders that differ from the last one\<close>

text \<open>
  The property that no pushed order repeats the last order submitted for its unit, stated on
  the list of pushed orders: starting from the cache \<open>lastOrder\<close>, every order differs from the
  cached one of its unit (if any) at the moment it is pushed, and then takes its place.
\<close>

fun noRepeats :: "(nat \<rightharpoonup> BatchableAction) \<Rightarrow> BatchableAction list \<Rightarrow> bool" where
  "noRepeats lastOrder [] = True"
| "noRepeats lastOrder (a # as) =
     ((case lastOrder (ba_unitId a) of None \<Rightarrow> True | Some l \<Rightarrow> \<not> isSameAs l a)
      \<and> noRepeats (lastOrder(ba_unitId a \<mapsto> a)) as)"

definition replayOrders ::
  "(nat \<rightharpoonup> BatchableAction) \<Rightarrow> BatchableAction list \<Rightarrow> (nat \<rightharpoonup> BatchableAction)" where
  "replayOrders lastOrder pushed = foldl (\<lambda>m a. m(ba_unitId a \<mapsto> a)) lastOrder pushed"

text \<open>
  A step from one pair (order cache, batcher) to another pushes only new orders when the
  batcher grows by a list of orders without repeats and the cache ends as their replay.
\<close>

definition onlyNewOrders ::
  "(nat \<rightharpoonup> BatchableAction) \<times> ActionBatcher \<Rightarrow> (nat \<rightharpoonup> BatchableAction) \<times> ActionBatcher
     \<Rightarrow> bool" where
  "onlyNewOrders before after =
     (\<exists>pushed. snd after = snd before @ pushed \<and> noRepeats (fst before) pushed
               \<and> fst after = replayOrders (fst before) pushed)"

definition sq_orders :: "SquadCtx \<Rightarrow> (nat \<rightharpoonup> BatchableAction) \<times> ActionBatcher" where
  "sq_orders ctx = (sq_lastOrderGiven (fst ctx), snd ctx)"

definition bq_orders :: "BasicSquadCtx \<Rightarrow> (nat \<rightharpoonup> BatchableAction) \<times> ActionBatcher" where
  "bq_orders ctx = (bq_lastOrderGiven (fst ctx), snd ctx)"

text \<open>A run of updates of a squad, one per world, whatever each update returns or throws.\<close>

definition runUpdates :: "SquadWorld list \<Rightarrow> SquadCtx \<Rightarrow> SquadCtx" where
  "runUpdates worlds ctx = foldl (\<lambda>c w. fst (onAiUpdate w c)) ctx worlds"

definition bq_runUpdates :: "SquadWorld list \<Rightarrow> BasicSquadCtx \<Rightarrow> BasicSquadCtx" where
  "bq_runUpdates worlds ctx = foldl (\<lambda>c w. fst (bq_onAiUpdate w c)) ctx worlds"

section \<open>Concrete inputs\<close>

text \<open>Game situations at which the results below are evaluated.\<close>

definition exampleBuilding :: "nat \<Rightarrow> real \<Rightarrow> real \<Rightarrow> UnitData" where
  "exampleBuilding i px py =
     \<lparr>ud_id = i, ud_name = ''GAPOWR'', ud_type = Building, ud_rx = px, ud_ry = py,
      ud_stance = OtherStance, ud_attackState = OtherAttackState,
      ud_hitPoints = 750, ud_maxHitPoints = 750,
      ud_primaryMaxRange = None, ud_secondaryMaxRange = None,
      ud_rules_name = ''GAPOWR'', ud_rules_type = Building,
      ud_rules_isSelectableCombatant = False, ud_rules_movementZone = OtherMovementZone,
      ud_rules_strength = 750, ud_rules_points = 40, ud_rules_canDisguise = False\<rparr>"

definition exampleTank :: "nat \<Rightarrow> real \<Rightarrow> real \<Rightarrow> UnitData" where
  "exampleTank i px py =
     \<lparr>ud_id = i, ud_name = ''MTNK'', ud_type = OtherObjectType, ud_rx = px, ud_ry = py,
      ud_stance = OtherStance, ud_attackState = OtherAttackState,
      ud_hitPoints = 300, ud_maxHitPoints = 300,
      ud_primaryMaxRange = Some 5, ud_secondaryMaxRange = None,
      ud_rules_name = ''MTNK'', ud_rules_type = OtherObjectType,
      ud_rules_isSelectableCombatant = True, ud_rules_movementZone = OtherMovementZone,
      ud_rules_strength = 300, ud_rules_points = 25, ud_rules_canDisguise = False\<rparr>"

text \<open>
  An attack mission in the state \<open>Attacking\<close> at tick 300, with the fields it was constructed
  with: the lock time and the score of its target (20, 20) are 0 and the memory is empty. Its
  two units stand at (19, 10) and (21, 10), a hostile tank stands at the target, a hostile
  power plant stands at (50, 50), and the squad's update returns a noop.
\<close>

definition c1_world :: AttackWorld where
  "c1_world =
     \<lparr>aw_currentTick = 300, aw_squadUpdate = Noop,
      aw_hostilesNearPoint2d =
        (\<lambda>p r. if p = (50, 50) then [7] else if p = (20, 20) then [5] else []),
      aw_getUnitData = (\<lambda>i. if i = 7 then Some (exampleBuilding 7 50 50)
                              else if i = 5 then Some (exampleTank 5 20 20) else None),
      aw_isOwnedByNeutral = (\<lambda>u. False),
      aw_unitTiles = [(19, 10), (21, 10)]\<rparr>"

definition c1_mission :: AttackMission where
  "c1_mission = (newAttackMission (20, 20) 10)\<lparr>am_hasGameApi := True\<rparr>"

definition exampleShip :: "nat \<Rightarrow> real \<Rightarrow> real \<Rightarrow> UnitData" where
  "exampleShip i px py =
     \<lparr>ud_id = i, ud_name = ''DEST'', ud_type = OtherObjectType, ud_rx = px, ud_ry = py,
      ud_stance = OtherStance, ud_attackState = OtherAttackState,
      ud_hitPoints = 600, ud_maxHitPoints = 600,
      ud_primaryMaxRange = Some 5, ud_secondaryMaxRange = None,
      ud_rules_name = ''DEST'', ud_rules_type = OtherObjectType,
      ud_rules_isSelectableCombatant = True, ud_rules_movementZone = Water,
      ud_rules_strength = 600, ud_rules_points = 20, ud_rules_canDisguise = False\<rparr>"

text \<open>
  A naval mission constructed when the wall clock read 1700000000000 ms (the engine was at
  tick 300), and its first update with units: tick 301, 66 ms later, two destroyers.
\<close>

definition c3_world :: NavalWorld where
  "c3_world =
     \<lparr>nw_currentTick = 301, nw_dateNow = 1700000000066,
      nw_navalUnits = [exampleShip 1 10 10, exampleShip 2 12 10],
      nw_centerOfMass = Some (11, 10),
      nw_hasAirforce = False, nw_hasBattleLab = False, nw_mapSize = (100, 100),
      nw_visibleEnemyUnits = [], nw_hostilesNearPoint2d = (\<lambda>p r. []),
      nw_getUnitData = (\<lambda>i. None), nw_isOwnedByNeutral = (\<lambda>u. False),
      nw_enemyStartLocations = [(90, 90)]\<rparr>"

definition c3_mission :: NavalMission where
  "c3_mission = newNavalMission (11, 10) (60, 60) 1700000000000"




text \<open>
  A land scouting mission with one scout at (37, 44), 5 tiles from its target (40, 40). Three
  scouts were lost on this target; the timer was refreshed at tick 100, when the nearest scout
  was 10 tiles away. The second mission is the same after six losses.
\<close>

definition c4_world :: ScoutWorld where
  "c4_world =
     \<lparr>sw_currentTick = 200,
      sw_scouts = (\<lambda>water. if water then [] else [\<lparr>sc_id = 1, sc_tile = (37, 44)\<rparr>]),
      sw_overallVisibility = Some (1 / 2),
      sw_getTile = (\<lambda>p. Some OtherTerrain),
      sw_isVisibleTile = (\<lambda>p. False),
      sw_newScoutTarget = None,
      sw_getDistanceBetweenTileAndPoint = getDistanceBetweenPoints,
      sw_findNextTarget = (\<lambda>p water explored. None)\<rparr>"

definition c4_mission :: ScoutingMission where
  "c4_mission =
     \<lparr>sm_priority = 10, sm_scoutTarget = Some (40, 40), sm_attemptsOnCurrentTarget = 3,
      sm_scoutTargetRefreshedAt = 100, sm_lastMoveCommandTick = 100,
      sm_scoutTargetIsPermanent = False, sm_isWaterTarget = False,
      sm_scoutMinDistance = Some 10, sm_lastScoutPositions = [], sm_stuckStartTime = [],
      sm_exploredWaterTiles = {}, sm_exploredLandTiles = {}, sm_hadUnit = True\<rparr>"

definition c4_mission_spent :: ScoutingMission where
  "c4_mission_spent = c4_mission\<lparr>sm_attemptsOnCurrentTarget := 6\<rparr>"

text \<open>
  A fresh gathering squad of four destroyers on the corners of a 21 by 28 rectangle. Their
  centroid (10.5, 14) is 17.5 tiles from each of them and lies between tiles: the map has a
  tile at integer coordinates only.
\<close>

definition c2_world :: SquadWorld where
  "c2_world =
     \<lparr>qw_currentTick = 50, qw_missionUnitIds = [1, 2, 3, 4], qw_navalUnitIds = [1, 2, 3, 4],
      qw_getUnitData = (\<lambda>i. if i = 1 then Some (exampleShip 1 0 0)
                              else if i = 2 then Some (exampleShip 2 21 0)
                              else if i = 3 then Some (exampleShip 3 0 28)
                              else if i = 4 then Some (exampleShip 4 21 28) else None),
      qw_centerOfMass = Some (21 / 2, 14), qw_maxDistance = Some (35 / 2),
      qw_getTile = (\<lambda>p. if Math_round (fst p) = fst p \<and> Math_round (snd p) = snd p
                          then Some WaterTerrain else None),
      qw_mapSize = (100, 100), qw_hostilesNearPoint = (\<lambda>p r. []),
      qw_isOwnedByNeutral = (\<lambda>u. False), qw_startLocation = (5, 5),
      qw_random = (\<lambda>i. (0, 0))\<rparr>"

text \<open>The same squad over open water, with a tile under every point.\<close>

definition c2_world_open :: SquadWorld where
  "c2_world_open = c2_world\<lparr>qw_getTile := (\<lambda>p. Some WaterTerrain)\<rparr>"

text \<open>
  An attacking squad of one destroyer, unit 180, at tile (2, 2) near the map's corner. It last
  engaged at tick 300; now, at tick 520, a hostile tank stands 20 tiles away at (14, 18),
  inside the scan radius of 25 and far beyond the destroyer's range of 5.
\<close>

definition c9_world :: SquadWorld where
  "c9_world =
     \<lparr>qw_currentTick = 520, qw_missionUnitIds = [180], qw_navalUnitIds = [180],
      qw_getUnitData = (\<lambda>i. if i = 180 then Some (exampleShip 180 2 2)
                              else if i = 9 then Some (exampleTank 9 14 18) else None),
      qw_centerOfMass = Some (2, 2), qw_maxDistance = Some 0,
      qw_getTile = (\<lambda>p. Some WaterTerrain),
      qw_mapSize = (100, 100),
      qw_hostilesNearPoint = (\<lambda>p r. if p = (2, 2) then [9] else []),
      qw_isOwnedByNeutral = (\<lambda>u. False), qw_startLocation = (5, 5),
      qw_random = (\<lambda>i. (0, 0))\<rparr>"

definition c9_squad :: NavalSquad where
  "c9_squad =
     (newNavalSquad (Some (40, 40)))
       \<lparr>sq_lastCommand := 500, sq_state := Attacking, sq_lastStuckCheck := 500,
        sq_unitCombatStates :=
          [180 \<mapsto> \<lparr>cs_lastEngageTime = 300, cs_lastPosition = Some (2, 2)\<rparr>]\<rparr>"

text \<open>
  A destroyer of range 5 at (0, 0) and two hostile tanks of one type, both 3 tiles away and
  in range: tank 7 at (3, 0) is undamaged, tank 8 at (0, 3) has 30 of its 300 hit points left.
  The scan returns the undamaged tank first.
\<close>

definition c8_ship :: UnitData where
  "c8_ship = exampleShip 1 0 0"

definition c8_fresh :: UnitData where
  "c8_fresh = exampleTank 7 3 0"

definition c8_damaged :: UnitData where
  "c8_damaged = (exampleTank 8 0 3)\<lparr>ud_hitPoints := 30\<rparr>"

text \<open>
  The update of an attacking squad of this destroyer at tick 600, 30 ticks after its last
  command and its last stuck check, for the full and for the basic squad.
\<close>

definition c8_world :: SquadWorld where
  "c8_world =
     \<lparr>qw_currentTick = 600, qw_missionUnitIds = [1], qw_navalUnitIds = [1],
      qw_getUnitData = (\<lambda>i. if i = 1 then Some c8_ship
                              else if i = 7 then Some c8_fresh
                              else if i = 8 then Some c8_damaged else None),
      qw_centerOfMass = Some (0, 0), qw_maxDistance = Some 0,
      qw_getTile = (\<lambda>p. Some WaterTerrain),
      qw_mapSize = (100, 100),
      qw_hostilesNearPoint = (\<lambda>p r. if p = (0, 0) then [7, 8] else []),
      qw_isOwnedByNeutral = (\<lambda>u. False), qw_startLocation = (50, 50),
      qw_random = (\<lambda>i. (0, 0))\<rparr>"

definition c8_squad :: NavalSquad where
  "c8_squad =
     (newNavalSquad (Some (40, 40)))
       \<lparr>sq_lastCommand := 570, sq_state := Attacking, sq_lastStuckCheck := 570\<rparr>"

definition c8_basic_squad :: BasicNavalSquad where
  "c8_basic_squad =
     (newBasicNavalSquad (Some (40, 40)))\<lparr>bq_lastCommand := 570, bq_state := BasicAttacking\<rparr>"

text \<open>
  An attacking squad of one destroyer that has stayed at tile (5, 5), firing at hostile 9: its
  position was sampled at ticks 61 and 122, the last command tick was 170, and the update now
  runs at tick 183.
\<close>

definition c6_world :: SquadWorld where
  "c6_world =
     \<lparr>qw_currentTick = 183, qw_missionUnitIds = [1], qw_navalUnitIds = [1],
      qw_getUnitData = (\<lambda>i. if i = 1 then Some (exampleShip 1 5 5)
                              else if i = 9 then Some (exampleTank 9 8 9) else None),
      qw_centerOfMass = Some (5, 5), qw_maxDistance = Some 0,
      qw_getTile = (\<lambda>p. Some WaterTerrain),
      qw_mapSize = (100, 100),
      qw_hostilesNearPoint = (\<lambda>p r. if p = (5, 5) then [9] else []),
      qw_isOwnedByNeutral = (\<lambda>u. False), qw_startLocation = (50, 50),
      qw_random = (\<lambda>i. (0, 0))\<rparr>"

definition c6_squad :: NavalSquad where
  "c6_squad =
     (newNavalSquad (Some (40, 40)))
       \<lparr>sq_lastCommand := 170, sq_state := Attacking, sq_lastStuckCheck := 122,
        sq_lastOrderGiven :=
          [1 \<mapsto> \<lparr>ba_unitId = 1, ba_orderType = Attack, ba_point = None,
                   ba_targetId = Some 9\<rparr>],
        sq_unitPositionHistory :=
          [1 \<mapsto> [\<lparr>up_x = 5, up_y = 5, up_timestamp = 61\<rparr>,
                   \<lparr>up_x = 5, up_y = 5, up_timestamp = 122\<rparr>]]\<rparr>"

section \<open>Results\<close>

subsection \<open>Auxiliary facts\<close>

lemma sqrt_eqI: "0 \<le> y \<Longrightarrow> y * y = v \<Longrightarrow> sqrt v = y"
  by (metis real_sqrt_abs2 abs_of_nonneg power2_eq_square real_sqrt_abs)


subsection \<open>The priority of basic ground units\<close>

text \<open>
  \<open>BasicGroundUnit.getPriority\<close> returns 0 for every rule object, game state and unit type:
  with a global cap that is reached, with a cap that is not reached, and without a cap. What
  the production queue does with this value, and with the unit types that the missions
  request, is decided by code that is not among the sources.
\<close>

lemma getPriority_always_zero:
  "getPriority u visibleSelfCount technoName = 0
   \<and> getPriority u visibleSelfCount technoName = DEFAULT_BUILDING_PRIORITY"
  by (simp add: getPriority_def Let_def DEFAULT_BUILDING_PRIORITY_def split: option.split)

subsection \<open>C1: switching the attack target\<close>

lemma c1_eval: "evaluateTarget c1_mission c1_world (50, 50) = Inr (20 / 3)"
proof -
  have r: "sqrt 2500 = 50" by (rule sqrt_eqI) simp_all
  show ?thesis
    by (simp add: evaluateTarget_def c1_world_def c1_mission_def newAttackMission_def
        am_getCenterOfMass_def scoreHostile_def exampleBuilding_def r)
qed

text \<open>
  The target memory never holds more than \<open>TARGET_MEMORY_SIZE = 3\<close> targets, and the newest
  target is its last entry.
\<close>

lemma updateTarget_memory:
  assumes "updateTarget am w newTarget currentTick = Inr am'"
    and "length (am_recentTargets am) \<le> 3"
  shows "length (am_recentTargets am') \<le> 3 \<and> last (am_recentTargets am') = newTarget
         \<and> am_currentTargetLockTime am' = currentTick"
proof -
  have tl_last: "last (tl (xs @ [newTarget])) = newTarget" if "xs \<noteq> []" for xs
    using that by (cases xs) simp_all
  have nonempty: "2 < length xs \<Longrightarrow> xs \<noteq> []" for xs :: "Vector2 list"
    by auto
  from assms show ?thesis
    by (auto simp: updateTarget_def Let_def TARGET_MEMORY_SIZE_def tl_last nonempty
        split: sum.splits if_splits)
qed

text \<open>
  What \<open>shouldSwitchTarget\<close> computes: it answers yes exactly when (a) the lock has lasted at
  least 150 ticks or no hostile is left within the radius of the current attack area, (b) the
  candidate's score is defined and greater than 1.3 times the current score, and (c) the
  candidate is not within 5 tiles in both coordinates of any remembered target.
\<close>

lemma shouldSwitchTarget_iff:
  "shouldSwitchTarget am w newTarget currentTick = Inr True \<longleftrightarrow>
     (currentTick - am_currentTargetLockTime am \<ge> 150
        \<or> aw_hostilesNearPoint2d w (am_squadAttackArea am) (am_radius am) = [])
     \<and> (\<exists>newScore. evaluateTarget am w newTarget = Inr newScore
            \<and> newScore > am_currentTargetScore am * (13 / 10))
     \<and> (\<forall>t \<in> set (am_recentTargets am).
            \<not> (\<bar>fst t - fst newTarget\<bar> < 5 \<and> \<bar>snd t - snd newTarget\<bar> < 5))"
  by (auto simp: shouldSwitchTarget_def TARGET_LOCK_DURATION_def TARGET_SWITCH_MIN_IMPROVEMENT_def
      recentlyVisited_def list_ex_iff split: sum.splits)

lemma am_searchEnemyBuildings_frame:
  "am_squadAttackArea (fst (am_searchEnemyBuildings am w)) = am_squadAttackArea am
   \<and> am_currentTargetLockTime (fst (am_searchEnemyBuildings am w)) = am_currentTargetLockTime am
   \<and> am_currentTargetScore (fst (am_searchEnemyBuildings am w)) = am_currentTargetScore am
   \<and> am_recentTargets (fst (am_searchEnemyBuildings am w)) = am_recentTargets am"
  by (simp add: am_searchEnemyBuildings_def Let_def split: option.split)

text \<open>
  C1. In the state \<open>Attacking\<close> the mission never replaces its target. Whatever the mission and
  the game are, \<open>handleAttackingState\<close> leaves the attack area, the lock time, the score of the
  current target and the target memory as they were. At tick 300 the candidate (50, 50) meets
  the three conditions for \<open>c1_mission\<close>: the lock is 300 ticks old, the candidate scores
  \<open>10 / (1 + 50 * 0.01) = 20/3\<close>, more than 1.3 times the current score 0, and no target is
  remembered, so \<open>shouldSwitchTarget\<close> would answer yes; but the update asks nothing: it
  returns a noop and the mission, with its target (20, 20), unchanged.
\<close>

theorem attack_target_never_replaced:
  "am_squadAttackArea (fst (handleAttackingState am w)) = am_squadAttackArea am
   \<and> am_currentTargetLockTime (fst (handleAttackingState am w)) = am_currentTargetLockTime am
   \<and> am_currentTargetScore (fst (handleAttackingState am w)) = am_currentTargetScore am
   \<and> am_recentTargets (fst (handleAttackingState am w)) = am_recentTargets am
   \<and> aw_currentTick c1_world - am_currentTargetLockTime c1_mission \<ge> 150
   \<and> evaluateTarget c1_mission c1_world (50, 50) = Inr (20 / 3)
   \<and> am_currentTargetScore c1_mission * (13 / 10) < 20 / 3
   \<and> am_recentTargets c1_mission = []
   \<and> shouldSwitchTarget c1_mission c1_world (50, 50) (aw_currentTick c1_world) = Inr True
   \<and> handleAttackingState c1_mission c1_world = (c1_mission, Noop)
   \<and> am_squadAttackArea c1_mission = (20, 20)"
proof -
  have frame:
    "am_squadAttackArea (fst (handleAttackingState am w)) = am_squadAttackArea am"
    "am_currentTargetLockTime (fst (handleAttackingState am w)) = am_currentTargetLockTime am"
    "am_currentTargetScore (fst (handleAttackingState am w)) = am_currentTargetScore am"
    "am_recentTargets (fst (handleAttackingState am w)) = am_recentTargets am"
    by (simp_all add: handleAttackingState_def Let_def am_searchEnemyBuildings_frame)
  have fields: "aw_currentTick c1_world - am_currentTargetLockTime c1_mission \<ge> 150"
    "am_currentTargetScore c1_mission * (13 / 10) < 20 / 3"
    "am_recentTargets c1_mission = []" "am_squadAttackArea c1_mission = (20, 20)"
    by (simp_all add: c1_world_def c1_mission_def newAttackMission_def)
  have switch: "shouldSwitchTarget c1_mission c1_world (50, 50) (aw_currentTick c1_world)
                  = Inr True"
    by (simp add: shouldSwitchTarget_def c1_eval TARGET_LOCK_DURATION_def
        TARGET_SWITCH_MIN_IMPROVEMENT_def recentlyVisited_def)
       (simp add: c1_world_def c1_mission_def newAttackMission_def)
  have update: "handleAttackingState c1_mission c1_world = (c1_mission, Noop)"
    by (simp add: handleAttackingState_def Let_def c1_world_def c1_mission_def
        newAttackMission_def)
  from frame fields switch update show ?thesis by (simp add: c1_eval)
qed

subsection \<open>C3: cancelling a naval mission\<close>

text \<open>
  C3 says the mission is cancelled after 1800 ticks of duration or 600 ticks without
  progress, both counted on the engine's tick counter. The code stores \<open>Date.now()\<close> in
  \<open>missionStartTime\<close> and \<open>lastProgressTime\<close> and compares wall-clock milliseconds with the tick
  limits. On the first update with units, one tick after construction, the mission is already
  cancelled (the wall clock minus the initial \<open>lastProgressTime = 0\<close> exceeds 600); and a mission
  with fresh progress is not cancelled at tick 5000, because the tick minus the wall-clock start
  time is negative.
\<close>

theorem naval_mission_cancelled_on_first_update:
  "snd (nm_onAiUpdate c3_world c3_mission) = Return DisbandMission
   \<and> \<not> shouldCancelMission c3_world
         (c3_mission\<lparr>nm_lastProgressTime := nw_dateNow c3_world\<rparr>) 5000"
  by (simp add: nm_onAiUpdate_def c3_world_def c3_mission_def newNavalMission_def
      checkMissionProgress_def shouldCancelMission_def MAX_MISSION_DURATION_def
      MAX_NO_PROGRESS_TIME_def Let_def)

subsection \<open>C5: the scouting factory's cooldown\<close>

text \<open>
  A successful creation leaves \<open>lastScoutAt\<close> as it was: the cooldown is started only when
  \<open>addMission\<close> fails.
\<close>

lemma maybeCreateMissions_success_keeps_lastScoutAt:
  assumes "maybeCreateMissions currentTick hasTargets (factory, missions) = (factory', missions')"
    and "missions' \<noteq> missions"
  shows "lastScoutAt factory' = lastScoutAt factory"
  using assms
  by (auto simp: maybeCreateMissions_def addMission_def Let_def split: if_splits)

text \<open>
  C5 at a concrete run. At tick 0 the factory creates the scouting mission; the mission
  disbands in its first update and the controller removes it; at tick 1, well before tick 300,
  the factory creates the mission again.
\<close>

theorem scout_factory_no_cooldown_after_success:
  "maybeCreateMissions 0 True (newScoutingMissionFactory, [])
     = (newScoutingMissionFactory, [''globalScout''])
   \<and> maybeCreateMissions 1 True
         (newScoutingMissionFactory, removeMission [''globalScout''] ''globalScout'')
     = (newScoutingMissionFactory, [''globalScout''])"
  by (simp add: maybeCreateMissions_def newScoutingMissionFactory_def addMission_def
      removeMission_def SCOUT_COOLDOWN_TICKS_def)

subsection \<open>C7: the scatter check of a preparing naval mission\<close>





subsection \<open>C4: the budget of a scouting target\<close>

lemma c4_eval:
  "sm_onAiUpdate c4_world c4_mission =
     (c4_mission\<lparr>sm_lastMoveCommandTick := 200, sm_scoutTargetRefreshedAt := 200,
                 sm_scoutMinDistance := Some 5, sm_lastScoutPositions := [(1, (37, 44))]\<rparr>,
      [\<lparr>ba_unitId = 1, ba_orderType = AttackMove, ba_point = Some (40, 40),
        ba_targetId = None\<rparr>],
      Inr Noop)"
proof -
  have r: "sqrt 25 = 5" by (rule sqrt_eqI) simp_all
  show ?thesis
    by (simp add: sm_onAiUpdate_def scoutWithTarget_def checkUnitsStuck_def
        checkUnitStuckStep_def scoutMoveTick_def scoutTargetSeen_def c4_world_def c4_mission_def
        orElse_def mapSet_def getDistanceBetweenPoints_def r MAX_ATTEMPTS_PER_TARGET_def
        MAX_TICKS_PER_TARGET_def SCOUT_MOVE_COOLDOWN_TICKS_def Let_def)
qed

text \<open>The stuck check only touches its two maps.\<close>

lemma checkUnitsStuck_frame:
  "sm_attemptsOnCurrentTarget (fst (checkUnitsStuck w m scouts)) = sm_attemptsOnCurrentTarget m"
  "sm_scoutTargetRefreshedAt (fst (checkUnitsStuck w m scouts)) = sm_scoutTargetRefreshedAt m"
  "sm_lastMoveCommandTick (fst (checkUnitsStuck w m scouts)) = sm_lastMoveCommandTick m"
  "sm_scoutMinDistance (fst (checkUnitsStuck w m scouts)) = sm_scoutMinDistance m"
  "sm_isWaterTarget (fst (checkUnitsStuck w m scouts)) = sm_isWaterTarget m"
  "sm_scoutTarget (fst (checkUnitsStuck w m scouts)) = sm_scoutTarget m"
  by (simp_all add: checkUnitsStuck_def Let_def split: prod.split list.split)

lemma scoutWithTarget_abandon:
  assumes "\<not> sm_scoutTargetIsPermanent m"
    and "sm_isWaterTarget m \<or> \<not> snd (checkUnitsStuck w (m\<lparr>sm_hadUnit := True\<rparr>) scouts)"
    and "sm_attemptsOnCurrentTarget m > 5
         \<or> sw_currentTick w > sm_scoutTargetRefreshedAt m + 600"
  shows "sm_scoutTarget (fst (scoutWithTarget w m scouts target)) = None
         \<and> sm_attemptsOnCurrentTarget (fst (scoutWithTarget w m scouts target)) = 0
         \<and> snd (snd (scoutWithTarget w m scouts target)) = Inr Noop"
proof (cases "sm_isWaterTarget m")
  case True
  with assms show ?thesis
    by (auto simp: scoutWithTarget_def Let_def setScoutTarget_def MAX_ATTEMPTS_PER_TARGET_def
        MAX_TICKS_PER_TARGET_def)
next
  case False
  obtain m1 stuck where c: "checkUnitsStuck w (m\<lparr>sm_hadUnit := True\<rparr>) scouts = (m1, stuck)"
    by (cases "checkUnitsStuck w (m\<lparr>sm_hadUnit := True\<rparr>) scouts")
  from checkUnitsStuck_frame [of w "m\<lparr>sm_hadUnit := True\<rparr>" scouts] c
  have f: "sm_attemptsOnCurrentTarget m1 = sm_attemptsOnCurrentTarget m"
    "sm_scoutTargetRefreshedAt m1 = sm_scoutTargetRefreshedAt m"
    by simp_all
  from assms(2) False c have "\<not> stuck" by simp
  with assms(1,3) False c f show ?thesis
    by (auto simp: scoutWithTarget_def Let_def setScoutTarget_def MAX_ATTEMPTS_PER_TARGET_def
        MAX_TICKS_PER_TARGET_def)
qed

lemma scoutWithTarget_refresh:
  assumes "\<not> sm_scoutTargetIsPermanent m"
    and "sm_isWaterTarget m \<or> \<not> snd (checkUnitsStuck w (m\<lparr>sm_hadUnit := True\<rparr>) scouts)"
    and "scouts \<noteq> []"
    and "sm_attemptsOnCurrentTarget m \<le> 5"
    and "sw_currentTick w \<le> sm_scoutTargetRefreshedAt m + 600"
    and "sw_getTile w target = Some terrain"
    and "(terrain = WaterTerrain) = sm_isWaterTarget m"
    and "sw_currentTick w > sm_lastMoveCommandTick m + 30"
    and "sm_scoutMinDistance m = Some old"
    and "Min ((\<lambda>u. sw_getDistanceBetweenTileAndPoint w (sc_tile u) target) ` set scouts) < old"
    and "\<not> sw_isVisibleTile w target"
    and "sm_scoutTarget m = Some target"
  shows "sm_scoutTargetRefreshedAt (fst (scoutWithTarget w m scouts target)) = sw_currentTick w
         \<and> sm_scoutMinDistance (fst (scoutWithTarget w m scouts target))
             = Some (Min ((\<lambda>u. sw_getDistanceBetweenTileAndPoint w (sc_tile u) target)
                          ` set scouts))
         \<and> sm_attemptsOnCurrentTarget (fst (scoutWithTarget w m scouts target))
             = sm_attemptsOnCurrentTarget m
         \<and> sm_scoutTarget (fst (scoutWithTarget w m scouts target)) = Some target"
proof -
  let ?d = "\<lambda>u. sw_getDistanceBetweenTileAndPoint w (sc_tile u) target"
  let ?m = "m\<lparr>sm_hadUnit := True\<rparr>"
  obtain s ss where sc: "scouts = s # ss" using assms(3) by (cases scouts) auto
  have minfold: "fold min (map ?d ss) (?d s) = Min (?d ` set scouts)"
    using Min.set_eq_fold [of "?d s" "map ?d ss"] by (simp add: sc)
  obtain m1 stuck where c:
    "(if \<not> sm_isWaterTarget m then checkUnitsStuck w ?m scouts else (?m, False)) = (m1, stuck)"
    by (cases "(if \<not> sm_isWaterTarget m then checkUnitsStuck w ?m scouts else (?m, False))")
  have f: "sm_attemptsOnCurrentTarget m1 = sm_attemptsOnCurrentTarget m"
    "sm_scoutTargetRefreshedAt m1 = sm_scoutTargetRefreshedAt m"
    "sm_lastMoveCommandTick m1 = sm_lastMoveCommandTick m"
    "sm_scoutMinDistance m1 = sm_scoutMinDistance m"
    "sm_isWaterTarget m1 = sm_isWaterTarget m"
    "sm_scoutTarget m1 = sm_scoutTarget m"
    using c checkUnitsStuck_frame [of w ?m scouts] by (auto split: if_splits)
  have ns: "\<not> stuck" using c assms(2) by (auto split: if_splits)
  have mt: "scoutMoveTick w m1 scouts target
              = (m1\<lparr>sm_lastMoveCommandTick := sw_currentTick w,
                    sm_scoutTargetRefreshedAt := sw_currentTick w,
                    sm_scoutMinDistance := Some (Min (?d ` set scouts))\<rparr>,
                 map (\<lambda>unit. \<lparr>ba_unitId = sc_id unit, ba_orderType = AttackMove,
                               ba_point = Some target, ba_targetId = None\<rparr>) scouts)"
    using assms(8,9,10) f minfold
    by (simp add: scoutMoveTick_def Let_def SCOUT_MOVE_COOLDOWN_TICKS_def sc)
  show ?thesis
    using assms(1,4,5,6,7,11,12) c f ns mt
    by (simp add: scoutWithTarget_def Let_def MAX_ATTEMPTS_PER_TARGET_def
        MAX_TICKS_PER_TARGET_def scoutTargetSeen_def)
qed

text \<open>
  C4, as the code has it. Take an update of a scouting mission that has scouts and a
  non-permanent target, with map visibility at most 90% and the land scouts not found stuck.
  (1) If more than 5 attempts have been spent on the target, or more than 600 ticks have
  passed since the timer was refreshed, the target is abandoned (and the attempt count is
  zero for the next target). (2) Otherwise, on a move tick (more than 30 ticks after the last
  move order), with the target tile existing, of the expected terrain and not yet visible: if
  the nearest scout is strictly closer than the recorded minimum distance, the timer is set
  to the current tick and the minimum is updated, while the attempt count stays as it was.
\<close>

theorem scout_target_budget:
  assumes "orElse (sw_overallVisibility w) 0 \<le> 9 / 10"
    and "sw_scouts w (sm_isWaterTarget m) \<noteq> []"
    and "sm_scoutTarget m = Some target"
    and "\<not> sm_scoutTargetIsPermanent m"
    and "sm_isWaterTarget m
         \<or> \<not> snd (checkUnitsStuck w (m\<lparr>sm_hadUnit := True\<rparr>) (sw_scouts w (sm_isWaterTarget m)))"
  shows "(sm_attemptsOnCurrentTarget m > 5
            \<or> sw_currentTick w > sm_scoutTargetRefreshedAt m + 600 \<longrightarrow>
          sm_scoutTarget (fst (sm_onAiUpdate w m)) = None
          \<and> sm_attemptsOnCurrentTarget (fst (sm_onAiUpdate w m)) = 0
          \<and> snd (snd (sm_onAiUpdate w m)) = Inr Noop)
       \<and> (sm_attemptsOnCurrentTarget m \<le> 5
            \<and> sw_currentTick w \<le> sm_scoutTargetRefreshedAt m + 600
            \<and> sw_getTile w target = Some terrain
            \<and> (terrain = WaterTerrain) = sm_isWaterTarget m
            \<and> sw_currentTick w > sm_lastMoveCommandTick m + 30
            \<and> sm_scoutMinDistance m = Some old
            \<and> Min ((\<lambda>u. sw_getDistanceBetweenTileAndPoint w (sc_tile u) target)
                    ` set (sw_scouts w (sm_isWaterTarget m))) < old
            \<and> \<not> sw_isVisibleTile w target \<longrightarrow>
          sm_scoutTargetRefreshedAt (fst (sm_onAiUpdate w m)) = sw_currentTick w
          \<and> sm_scoutMinDistance (fst (sm_onAiUpdate w m))
              = Some (Min ((\<lambda>u. sw_getDistanceBetweenTileAndPoint w (sc_tile u) target)
                           ` set (sw_scouts w (sm_isWaterTarget m))))
          \<and> sm_attemptsOnCurrentTarget (fst (sm_onAiUpdate w m)) = sm_attemptsOnCurrentTarget m
          \<and> sm_scoutTarget (fst (sm_onAiUpdate w m)) = Some target)"
proof -
  have u: "sm_onAiUpdate w m = scoutWithTarget w m (sw_scouts w (sm_isWaterTarget m)) target"
    using assms(1,2,3) by (simp add: sm_onAiUpdate_def Let_def)
  show ?thesis
    unfolding u
    using scoutWithTarget_abandon [OF assms(4,5), of target]
      scoutWithTarget_refresh [OF assms(4,5,2), of target terrain old] assms(3)
    by blast
qed

text \<open>
  Both parts at concrete inputs: after six losses the target is abandoned; after three losses
  the scout at distance 5 (recorded minimum 10) refreshes the timer to tick 200 and the three
  attempts stay counted.
\<close>

theorem scout_target_budget_witness:
  "sm_scoutTarget (fst (sm_onAiUpdate c4_world c4_mission_spent)) = None
   \<and> snd (snd (sm_onAiUpdate c4_world c4_mission_spent)) = Inr Noop
   \<and> sm_scoutTargetRefreshedAt (fst (sm_onAiUpdate c4_world c4_mission)) = 200
   \<and> sm_scoutMinDistance (fst (sm_onAiUpdate c4_world c4_mission)) = Some 5
   \<and> sm_attemptsOnCurrentTarget (fst (sm_onAiUpdate c4_world c4_mission)) = 3"
proof -
  have r: "sqrt 25 = 5" by (rule sqrt_eqI) simp_all
  have vis: "orElse (sw_overallVisibility c4_world) 0 \<le> 9 / 10"
    by (simp add: c4_world_def orElse_def)
  have sc: "sw_scouts c4_world False = [\<lparr>sc_id = 1, sc_tile = (37, 44)\<rparr>]"
    by (simp add: c4_world_def)
  have land: "\<not> sm_isWaterTarget c4_mission" "\<not> sm_isWaterTarget c4_mission_spent"
    by (simp_all add: c4_mission_def c4_mission_spent_def)
  have stuck: "\<not> snd (checkUnitsStuck c4_world (mm\<lparr>sm_hadUnit := True\<rparr>)
                       [\<lparr>sc_id = 1, sc_tile = (37, 44)\<rparr>])"
    if "sm_lastScoutPositions mm = []" "sm_stuckStartTime mm = []" for mm
    using that by (simp add: checkUnitsStuck_def checkUnitStuckStep_def Let_def)
  have d: "Min ((\<lambda>u. sw_getDistanceBetweenTileAndPoint c4_world (sc_tile u) (40, 40))
                ` set (sw_scouts c4_world False)) = 5"
    by (simp add: sc) (simp add: c4_world_def getDistanceBetweenPoints_def r)
  have spent: "sm_scoutTarget (fst (sm_onAiUpdate c4_world c4_mission_spent)) = None
      \<and> snd (snd (sm_onAiUpdate c4_world c4_mission_spent)) = Inr Noop"
    using scout_target_budget [of c4_world c4_mission_spent "(40, 40)"] vis land sc
      stuck [of c4_mission_spent]
    by (simp add: c4_mission_spent_def c4_mission_def)
  have fresh: "sm_scoutTargetRefreshedAt (fst (sm_onAiUpdate c4_world c4_mission)) = 200
      \<and> sm_scoutMinDistance (fst (sm_onAiUpdate c4_world c4_mission)) = Some 5
      \<and> sm_attemptsOnCurrentTarget (fst (sm_onAiUpdate c4_world c4_mission)) = 3"
    using scout_target_budget [of c4_world c4_mission "(40, 40)" OtherTerrain 10] vis land sc
      stuck [of c4_mission] d
    by (simp add: c4_mission_def) (simp add: c4_world_def)
  from spent fresh show ?thesis by blast
qed

text \<open>
  The claim as stated fails: the scout has strictly reduced the minimum distance (from 10 to
  5) and the timer is refreshed, but the attempt count is not reset; it is still 3.
\<close>

theorem scout_attempts_not_reset_counterexample:
  "sm_scoutMinDistance c4_mission = Some 10
   \<and> sm_scoutMinDistance (fst (sm_onAiUpdate c4_world c4_mission)) = Some 5
   \<and> sm_scoutTargetRefreshedAt (fst (sm_onAiUpdate c4_world c4_mission)) = 200
   \<and> sm_attemptsOnCurrentTarget c4_mission = 3
   \<and> sm_attemptsOnCurrentTarget (fst (sm_onAiUpdate c4_world c4_mission)) = 3"
  by (simp add: c4_eval) (simp add: c4_mission_def)

lemma scoutMoveTick_attempts:
  "sm_attemptsOnCurrentTarget (fst (scoutMoveTick w m scouts target))
     = sm_attemptsOnCurrentTarget m
   \<and> sm_scoutTarget (fst (scoutMoveTick w m scouts target)) = sm_scoutTarget m"
  by (simp add: scoutMoveTick_def Let_def split: list.split option.split)

lemma scoutTargetSeen_attempts:
  "sm_attemptsOnCurrentTarget (scoutTargetSeen w m scouts target)
     = sm_attemptsOnCurrentTarget m
   \<or> (sm_attemptsOnCurrentTarget (scoutTargetSeen w m scouts target) = 0
       \<and> sm_scoutTarget (scoutTargetSeen w m scouts target) = None)"
  by (simp add: scoutTargetSeen_def setScoutTarget_def markTileExplored_def Let_def
      split: option.split)

lemma scoutWithTarget_attempts:
  assumes "sm_scoutTarget m = Some target"
  shows "sm_attemptsOnCurrentTarget (fst (scoutWithTarget w m scouts target))
           = sm_attemptsOnCurrentTarget m
   \<or> (sm_attemptsOnCurrentTarget (fst (scoutWithTarget w m scouts target)) = 0
       \<and> sm_scoutTarget (fst (scoutWithTarget w m scouts target)) = None)"
proof -
  let ?m = "m\<lparr>sm_hadUnit := True\<rparr>"
  obtain m1 stuck where c: "checkUnitsStuck w ?m scouts = (m1, stuck)"
    by (cases "checkUnitsStuck w ?m scouts")
  have f: "sm_attemptsOnCurrentTarget m1 = sm_attemptsOnCurrentTarget m"
    using checkUnitsStuck_frame(1) [of w ?m scouts] c by simp
  obtain m2 orders where mt: "scoutMoveTick w m1 scouts target = (m2, orders)"
    by (cases "scoutMoveTick w m1 scouts target")
  obtain m2' orders' where mt': "scoutMoveTick w ?m scouts target = (m2', orders')"
    by (cases "scoutMoveTick w ?m scouts target")
  have g: "sm_attemptsOnCurrentTarget m2 = sm_attemptsOnCurrentTarget m"
    using scoutMoveTick_attempts [of w m1 scouts target] mt f by simp
  have g': "sm_attemptsOnCurrentTarget m2' = sm_attemptsOnCurrentTarget m"
    using scoutMoveTick_attempts [of w ?m scouts target] mt' by simp
  show ?thesis
    using scoutTargetSeen_attempts [of w m2 scouts target]
      scoutTargetSeen_attempts [of w m2' scouts target] f g g'
    by (auto simp: scoutWithTarget_def Let_def c mt mt' setScoutTarget_def
        clearStuckTracking_def split: option.split)
qed

text \<open>
  An update leaves the attempt count as it is, or counts one lost unit, or resets it to 0 and
  then also changes the target: the count is reset only when the target changes.
\<close>

lemma attempts_reset_only_with_target_change:
  "sm_attemptsOnCurrentTarget (fst (sm_onAiUpdate w m)) = sm_attemptsOnCurrentTarget m
   \<or> sm_attemptsOnCurrentTarget (fst (sm_onAiUpdate w m)) = sm_attemptsOnCurrentTarget m + 1
   \<or> (sm_attemptsOnCurrentTarget (fst (sm_onAiUpdate w m)) = 0
       \<and> sm_scoutTarget (fst (sm_onAiUpdate w m)) \<noteq> sm_scoutTarget m)"
  using scoutWithTarget_attempts [of m _ w "sw_scouts w (sm_isWaterTarget m)"]
  by (auto simp: sm_onAiUpdate_def Let_def setScoutTarget_def split: option.split)

subsection \<open>What the squad's helpers leave unchanged\<close>

lemma foldl_preserves:
  assumes "\<And>c a. P (f c a) = P c"
  shows "P (foldl f c xs) = P c"
  using assms by (induction xs arbitrary: c) simp_all

lemma submitActionIfNew_frame:
  "sq_state (fst (submitActionIfNew ctx a)) = sq_state (fst ctx)"
  "sq_lastCommand (fst (submitActionIfNew ctx a)) = sq_lastCommand (fst ctx)"
  by (simp_all add: submitActionIfNew_def Let_def split: prod.split option.split)

lemma startPathfinding_frame:
  "sq_state (fst (startPathfinding ctx u t)) = sq_state (fst ctx)"
  "sq_lastCommand (fst (startPathfinding ctx u t)) = sq_lastCommand (fst ctx)"
  by (simp_all add: startPathfinding_def Let_def split: prod.split)

lemma updateCombatState_frame:
  "sq_state (fst (updateCombatState ctx u t h)) = sq_state (fst ctx)"
  by (simp add: updateCombatState_def Let_def split: prod.split)

lemma handleStuckUnit_frame:
  "sq_state (fst (handleStuckUnit w ctx u t)) = sq_state (fst ctx)"
  "sq_lastCommand (fst (handleStuckUnit w ctx u t)) = sq_lastCommand (fst ctx)"
  by (simp_all add: handleStuckUnit_def Let_def startPathfinding_frame submitActionIfNew_frame
      split: prod.split)

lemma stuckCheck_frame:
  "sq_state (fst (stuckCheck w ctx)) = sq_state (fst ctx)"
  "sq_lastCommand (fst (stuckCheck w ctx)) = sq_lastCommand (fst ctx)"
proof -
  let ?f = "\<lambda>c unit. (let c1 = (updateUnitPosition (fst c) unit (qw_currentTick w), snd c)
                       in if isUnitStuck (fst c1) unit
                          then handleStuckUnit w c1 unit (qw_currentTick w) else c1)"
  have s: "sq_state (fst (?f c u)) = sq_state (fst c)" for c u
    by (simp add: Let_def handleStuckUnit_frame updateUnitPosition_def)
  have l: "sq_lastCommand (fst (?f c u)) = sq_lastCommand (fst c)" for c u
    by (simp add: Let_def handleStuckUnit_frame updateUnitPosition_def)
  show "sq_state (fst (stuckCheck w ctx)) = sq_state (fst ctx)"
    using foldl_preserves [of "\<lambda>c. sq_state (fst c)" ?f, OF s]
    by (simp add: stuckCheck_def Let_def)
  show "sq_lastCommand (fst (stuckCheck w ctx)) = sq_lastCommand (fst ctx)"
    using foldl_preserves [of "\<lambda>c. sq_lastCommand (fst c)" ?f, OF l]
    by (simp add: stuckCheck_def Let_def)
qed

lemma moveUnitsInFormation_frame:
  "sq_state (fst (moveUnitsInFormation w ctx units p t)) = sq_state (fst ctx)"
proof -
  have "sq_state (fst (moveUnitInFormation w q n t c iu)) = sq_state (fst c)" for q n c iu
    by (simp add: moveUnitInFormation_def Let_def startPathfinding_frame submitActionIfNew_frame
        split: prod.split)
  from foldl_preserves [of "\<lambda>c. sq_state (fst c)" "moveUnitInFormation w _ _ t", OF this]
  show ?thesis by (simp add: moveUnitsInFormation_def Let_def)
qed

lemma engageOrMove_frame:
  "sq_state (fst (engageOrMove w ctx u hs us t p)) = sq_state (fst ctx)"
  by (simp add: engageOrMove_def Let_def updateCombatState_frame submitActionIfNew_frame
      split: option.split)

lemma joinMajorBattle_frame:
  "joinMajorBattle w ctx u hs us t = Some joined \<Longrightarrow> sq_state (fst joined) = sq_state (fst ctx)"
  by (auto simp: joinMajorBattle_def Let_def updateCombatState_frame submitActionIfNew_frame
      split: option.splits if_splits)

lemma handleCombat_frame:
  "sq_state (fst (handleCombat w ctx u hs us t p)) = sq_state (fst ctx)"
  using joinMajorBattle_frame [of w ctx u hs us t]
  by (auto simp: handleCombat_def engageOrMove_frame updateCombatState_frame
      submitActionIfNew_frame split: option.split)

lemma attackStep_state:
  "sq_state (fst (fst (attackStep w ctx)))
     = (if scatteredCentre w (sqrt (real (length (navalUnits w))) * 2 + 6) \<noteq> None
        then Gathering else sq_state (fst ctx))"
proof -
  have "sq_state (fst (foldl (\<lambda>c unit. handleCombat w c unit hs us t p) ctx xs)) = sq_state (fst ctx)"
    for hs us t p xs
    using foldl_preserves [of "\<lambda>c. sq_state (fst c)" "\<lambda>c unit. handleCombat w c unit hs us t p"]
    by (simp add: handleCombat_frame)
  then show ?thesis
    by (simp add: attackStep_def Let_def squad_consts moveUnitsInFormation_frame
        split: sum.split list.split option.split)
qed

lemma onAiUpdate_gathering:
  assumes "isCommandTick w (sq_lastCommand sq)" and "sq_state sq = Gathering"
  shows "sq_state (fst (fst (onAiUpdate w (sq, b))))
     = (if scatteredCentre w (sqrt (real (length (qw_navalUnitIds w))) * 2 + 3) \<noteq> None
        then Gathering else Attacking)"
  using assms stuckCheck_frame [of w "(sq, b)"]
  by (auto simp: onAiUpdate_def commandStep_def Let_def squad_consts moveUnitsInFormation_frame
      split: option.split)

lemma onAiUpdate_attacking:
  assumes "isCommandTick w (sq_lastCommand sq)" and "sq_state sq = Attacking"
  shows "sq_state (fst (fst (onAiUpdate w (sq, b))))
     = (if scatteredCentre w (sqrt (real (length (navalUnits w))) * 2 + 6) \<noteq> None
        then Gathering else Attacking)"
  using assms stuckCheck_frame [of w "(sq, b)"]
  by (simp add: onAiUpdate_def commandStep_def Let_def attackStep_state)

lemma bq_submitActionIfNew_frame:
  "bq_state (fst (bq_submitActionIfNew ctx a)) = bq_state (fst ctx)"
  "bq_lastCommand (fst (bq_submitActionIfNew ctx a)) = bq_lastCommand (fst ctx)"
  by (simp_all add: bq_submitActionIfNew_def Let_def split: prod.split option.split)

lemma bq_onAiUpdate_gathering:
  assumes "isCommandTick w (bq_lastCommand sq)" and "bq_state sq = BasicGathering"
  shows "bq_state (fst (fst (bq_onAiUpdate w (sq, b))))
     = (if scatteredCentre w (sqrt (real (length (qw_navalUnitIds w))) * 2 + 3) \<noteq> None
        then BasicGathering else BasicAttacking)"
proof -
  have "bq_state (fst (foldl (\<lambda>c unit. bq_submitActionIfNew c (manageMoveMicro unit p)) c xs))
          = bq_state (fst c)" for p c xs
    using foldl_preserves [of "\<lambda>c. bq_state (fst c)"
        "\<lambda>c unit. bq_submitActionIfNew c (manageMoveMicro unit p)"]
    by (simp add: bq_submitActionIfNew_frame)
  with assms show ?thesis
    by (auto simp: bq_onAiUpdate_def bq_commandStep_def Let_def squad_consts split: option.split)
qed

lemma bq_onAiUpdate_attacking:
  assumes "isCommandTick w (bq_lastCommand sq)" and "bq_state sq = BasicAttacking"
  shows "bq_state (fst (fst (bq_onAiUpdate w (sq, b))))
     = (if scatteredCentre w (sqrt (real (length (qw_navalUnitIds w))) * 2 + 6) \<noteq> None
        then BasicGathering else BasicAttacking)"
proof -
  have "bq_state (fst (foldl (bq_attackUnit hs p) c xs)) = bq_state (fst c)" for hs p c xs
    using foldl_preserves [of "\<lambda>c. bq_state (fst c)" "bq_attackUnit hs p"]
    by (simp add: bq_attackUnit_def bq_submitActionIfNew_frame split: option.split)
  with assms show ?thesis
    by (auto simp: bq_onAiUpdate_def bq_commandStep_def Let_def squad_consts split: sum.split)
qed

lemma scatteredCentre_known:
  assumes "qw_centerOfMass w = Some c" and "qw_getTile w c \<noteq> None"
    and "qw_maxDistance w = Some d" and "0 \<le> r"
  shows "scatteredCentre w r \<noteq> None \<longleftrightarrow> d > r"
  using assms by (auto simp: scatteredCentre_def)

lemma scatteredCentre_unknown:
  assumes "qw_centerOfMass w = None \<or> qw_maxDistance w = None
           \<or> (\<exists>c. qw_centerOfMass w = Some c \<and> qw_getTile w c = None)"
  shows "scatteredCentre w r = None"
  using assms by (auto simp: scatteredCentre_def split: option.split)

subsection \<open>C2: gathering and attacking\<close>

text \<open>
  C2, as the code has it, for a command tick of either squad. Let \<open>d\<close> be the largest
  distance of a unit from the centroid and \<open>n\<close> the number of naval unit ids. When the centroid
  and \<open>d\<close> are known and a map tile lies under the centroid, a gathering squad switches to
  attacking exactly when \<open>d \<le> \<surd>n * 2 + 3\<close>, and an attacking squad falls back to gathering
  exactly when \<open>d > \<surd>m * 2 + 6\<close> (\<open>m\<close> the number of naval units that still exist in the
  full squad, \<open>n\<close> in the basic one). When the centroid or \<open>d\<close> is unknown, or no tile lies
  under the centroid, a gathering squad switches to attacking whatever the distances are, and
  an attacking squad does not fall back.
\<close>

theorem squad_gather_attack_transitions:
  "(isCommandTick w (sq_lastCommand sq) \<and> sq_state sq = Gathering
      \<and> qw_centerOfMass w = Some c \<and> qw_getTile w c \<noteq> None \<and> qw_maxDistance w = Some d \<longrightarrow>
      (sq_state (fst (fst (onAiUpdate w (sq, b)))) = Attacking
         \<longleftrightarrow> d \<le> sqrt (real (length (qw_navalUnitIds w))) * 2 + 3))
   \<and> (isCommandTick w (sq_lastCommand sq) \<and> sq_state sq = Gathering
      \<and> (qw_centerOfMass w = None \<or> qw_maxDistance w = None
          \<or> (\<exists>c. qw_centerOfMass w = Some c \<and> qw_getTile w c = None)) \<longrightarrow>
      sq_state (fst (fst (onAiUpdate w (sq, b)))) = Attacking)
   \<and> (isCommandTick w (sq_lastCommand sq) \<and> sq_state sq = Attacking
      \<and> qw_centerOfMass w = Some c \<and> qw_getTile w c \<noteq> None \<and> qw_maxDistance w = Some d \<longrightarrow>
      (sq_state (fst (fst (onAiUpdate w (sq, b)))) = Gathering
         \<longleftrightarrow> d > sqrt (real (length (navalUnits w))) * 2 + 6))
   \<and> (isCommandTick w (sq_lastCommand sq) \<and> sq_state sq = Attacking
      \<and> (qw_centerOfMass w = None \<or> qw_maxDistance w = None
          \<or> (\<exists>c. qw_centerOfMass w = Some c \<and> qw_getTile w c = None)) \<longrightarrow>
      sq_state (fst (fst (onAiUpdate w (sq, b)))) = Attacking)
   \<and> (isCommandTick w (bq_lastCommand bq) \<and> bq_state bq = BasicGathering
      \<and> qw_centerOfMass w = Some c \<and> qw_getTile w c \<noteq> None \<and> qw_maxDistance w = Some d \<longrightarrow>
      (bq_state (fst (fst (bq_onAiUpdate w (bq, b)))) = BasicAttacking
         \<longleftrightarrow> d \<le> sqrt (real (length (qw_navalUnitIds w))) * 2 + 3))
   \<and> (isCommandTick w (bq_lastCommand bq) \<and> bq_state bq = BasicGathering
      \<and> (qw_centerOfMass w = None \<or> qw_maxDistance w = None
          \<or> (\<exists>c. qw_centerOfMass w = Some c \<and> qw_getTile w c = None)) \<longrightarrow>
      bq_state (fst (fst (bq_onAiUpdate w (bq, b)))) = BasicAttacking)
   \<and> (isCommandTick w (bq_lastCommand bq) \<and> bq_state bq = BasicAttacking
      \<and> qw_centerOfMass w = Some c \<and> qw_getTile w c \<noteq> None \<and> qw_maxDistance w = Some d \<longrightarrow>
      (bq_state (fst (fst (bq_onAiUpdate w (bq, b)))) = BasicGathering
         \<longleftrightarrow> d > sqrt (real (length (qw_navalUnitIds w))) * 2 + 6))
   \<and> (isCommandTick w (bq_lastCommand bq) \<and> bq_state bq = BasicAttacking
      \<and> (qw_centerOfMass w = None \<or> qw_maxDistance w = None
          \<or> (\<exists>c. qw_centerOfMass w = Some c \<and> qw_getTile w c = None)) \<longrightarrow>
      bq_state (fst (fst (bq_onAiUpdate w (bq, b)))) = BasicAttacking)"
proof -
  have nonneg: "0 \<le> sqrt (real k) * 2 + 3" "0 \<le> sqrt (real k) * 2 + 6" for k :: nat
    by simp_all
  have g1: "sq_state (fst (fst (onAiUpdate w (sq, b)))) = Attacking
              \<longleftrightarrow> d \<le> sqrt (real (length (qw_navalUnitIds w))) * 2 + 3"
    if "isCommandTick w (sq_lastCommand sq)" "sq_state sq = Gathering"
      "qw_centerOfMass w = Some c" "qw_getTile w c \<noteq> None" "qw_maxDistance w = Some d"
    using onAiUpdate_gathering [OF that(1,2), of b]
      scatteredCentre_known [OF that(3,4,5) nonneg(1)] by auto
  have g2: "sq_state (fst (fst (onAiUpdate w (sq, b)))) = Attacking"
    if "isCommandTick w (sq_lastCommand sq)" "sq_state sq = Gathering"
      "qw_centerOfMass w = None \<or> qw_maxDistance w = None
       \<or> (\<exists>c. qw_centerOfMass w = Some c \<and> qw_getTile w c = None)"
    using onAiUpdate_gathering [OF that(1,2), of b] scatteredCentre_unknown [OF that(3)] by simp
  have a1: "sq_state (fst (fst (onAiUpdate w (sq, b)))) = Gathering
              \<longleftrightarrow> d > sqrt (real (length (navalUnits w))) * 2 + 6"
    if "isCommandTick w (sq_lastCommand sq)" "sq_state sq = Attacking"
      "qw_centerOfMass w = Some c" "qw_getTile w c \<noteq> None" "qw_maxDistance w = Some d"
    using onAiUpdate_attacking [OF that(1,2), of b]
      scatteredCentre_known [OF that(3,4,5) nonneg(2)] by auto
  have a2: "sq_state (fst (fst (onAiUpdate w (sq, b)))) = Attacking"
    if "isCommandTick w (sq_lastCommand sq)" "sq_state sq = Attacking"
      "qw_centerOfMass w = None \<or> qw_maxDistance w = None
       \<or> (\<exists>c. qw_centerOfMass w = Some c \<and> qw_getTile w c = None)"
    using onAiUpdate_attacking [OF that(1,2), of b] scatteredCentre_unknown [OF that(3)] by simp
  have bg1: "bq_state (fst (fst (bq_onAiUpdate w (bq, b)))) = BasicAttacking
              \<longleftrightarrow> d \<le> sqrt (real (length (qw_navalUnitIds w))) * 2 + 3"
    if "isCommandTick w (bq_lastCommand bq)" "bq_state bq = BasicGathering"
      "qw_centerOfMass w = Some c" "qw_getTile w c \<noteq> None" "qw_maxDistance w = Some d"
    using bq_onAiUpdate_gathering [OF that(1,2), of b]
      scatteredCentre_known [OF that(3,4,5) nonneg(1)] by auto
  have bg2: "bq_state (fst (fst (bq_onAiUpdate w (bq, b)))) = BasicAttacking"
    if "isCommandTick w (bq_lastCommand bq)" "bq_state bq = BasicGathering"
      "qw_centerOfMass w = None \<or> qw_maxDistance w = None
       \<or> (\<exists>c. qw_centerOfMass w = Some c \<and> qw_getTile w c = None)"
    using bq_onAiUpdate_gathering [OF that(1,2), of b] scatteredCentre_unknown [OF that(3)]
    by simp
  have ba1: "bq_state (fst (fst (bq_onAiUpdate w (bq, b)))) = BasicGathering
              \<longleftrightarrow> d > sqrt (real (length (qw_navalUnitIds w))) * 2 + 6"
    if "isCommandTick w (bq_lastCommand bq)" "bq_state bq = BasicAttacking"
      "qw_centerOfMass w = Some c" "qw_getTile w c \<noteq> None" "qw_maxDistance w = Some d"
    using bq_onAiUpdate_attacking [OF that(1,2), of b]
      scatteredCentre_known [OF that(3,4,5) nonneg(2)] by auto
  have ba2: "bq_state (fst (fst (bq_onAiUpdate w (bq, b)))) = BasicAttacking"
    if "isCommandTick w (bq_lastCommand bq)" "bq_state bq = BasicAttacking"
      "qw_centerOfMass w = None \<or> qw_maxDistance w = None
       \<or> (\<exists>c. qw_centerOfMass w = Some c \<and> qw_getTile w c = None)"
    using bq_onAiUpdate_attacking [OF that(1,2), of b] scatteredCentre_unknown [OF that(3)]
    by simp
  show ?thesis
  proof (intro conjI impI; elim conjE)
    show "sq_state (fst (fst (onAiUpdate w (sq, b)))) = Attacking
              \<longleftrightarrow> d \<le> sqrt (real (length (qw_navalUnitIds w))) * 2 + 3"
      if "isCommandTick w (sq_lastCommand sq)" "sq_state sq = Gathering"
        "qw_centerOfMass w = Some c" "qw_getTile w c \<noteq> None" "qw_maxDistance w = Some d"
      using that by (rule g1)
    show "sq_state (fst (fst (onAiUpdate w (sq, b)))) = Gathering
              \<longleftrightarrow> d > sqrt (real (length (navalUnits w))) * 2 + 6"
      if "isCommandTick w (sq_lastCommand sq)" "sq_state sq = Attacking"
        "qw_centerOfMass w = Some c" "qw_getTile w c \<noteq> None" "qw_maxDistance w = Some d"
      using that by (rule a1)
    show "bq_state (fst (fst (bq_onAiUpdate w (bq, b)))) = BasicAttacking
              \<longleftrightarrow> d \<le> sqrt (real (length (qw_navalUnitIds w))) * 2 + 3"
      if "isCommandTick w (bq_lastCommand bq)" "bq_state bq = BasicGathering"
        "qw_centerOfMass w = Some c" "qw_getTile w c \<noteq> None" "qw_maxDistance w = Some d"
      using that by (rule bg1)
    show "bq_state (fst (fst (bq_onAiUpdate w (bq, b)))) = BasicGathering
              \<longleftrightarrow> d > sqrt (real (length (qw_navalUnitIds w))) * 2 + 6"
      if "isCommandTick w (bq_lastCommand bq)" "bq_state bq = BasicAttacking"
        "qw_centerOfMass w = Some c" "qw_getTile w c \<noteq> None" "qw_maxDistance w = Some d"
      using that by (rule ba1)
  qed (rule g2 a2 bg2 ba2; assumption)+
qed

text \<open>
  Over open water the four destroyers, 17.5 from their centroid, keep gathering
  (\<open>17.5 > \<surd>4 * 2 + 3 = 7\<close>), and the same squad in attack falls back to gathering
  (\<open>17.5 > \<surd>4 * 2 + 6 = 10\<close>), in the full and in the basic squad.
\<close>

theorem squad_gather_attack_transitions_witness:
  "isCommandTick c2_world_open 0
   \<and> qw_centerOfMass c2_world_open = Some (21 / 2, 14)
   \<and> qw_getTile c2_world_open (21 / 2, 14) \<noteq> None
   \<and> qw_maxDistance c2_world_open = Some (35 / 2)
   \<and> sq_state (fst (fst (onAiUpdate c2_world_open (newNavalSquad None, [])))) \<noteq> Attacking
   \<and> sq_state (fst (fst (onAiUpdate c2_world_open
                            ((newNavalSquad None)\<lparr>sq_state := Attacking\<rparr>, [])))) = Gathering
   \<and> bq_state (fst (fst (bq_onAiUpdate c2_world_open (newBasicNavalSquad None, []))))
       \<noteq> BasicAttacking
   \<and> bq_state (fst (fst (bq_onAiUpdate c2_world_open
                            ((newBasicNavalSquad None)\<lparr>bq_state := BasicAttacking\<rparr>, []))))
       = BasicGathering"
proof -
  have cmd: "isCommandTick c2_world_open 0"
    by (simp add: isCommandTick_def c2_world_open_def c2_world_def)
  have com: "qw_centerOfMass c2_world_open = Some (21 / 2, 14)"
    and tile: "qw_getTile c2_world_open (21 / 2, 14) \<noteq> None"
    and dist: "qw_maxDistance c2_world_open = Some (35 / 2)"
    and n: "length (qw_navalUnitIds c2_world_open) = 4"
    and m: "length (navalUnits c2_world_open) = 4"
    by (simp_all add: c2_world_open_def c2_world_def navalUnits_def)
  have r: "sqrt 4 = 2" by simp
  have fresh: "sq_lastCommand (newNavalSquad None) = 0" "sq_state (newNavalSquad None) = Gathering"
    "bq_lastCommand (newBasicNavalSquad None) = 0"
    "bq_state (newBasicNavalSquad None) = BasicGathering"
    by (simp_all add: newNavalSquad_def newBasicNavalSquad_def)
  have g: "sq_state (fst (fst (onAiUpdate c2_world_open (newNavalSquad None, [])))) \<noteq> Attacking"
    using squad_gather_attack_transitions [of c2_world_open "newNavalSquad None" "(21 / 2, 14)"
        "35 / 2" "[]"] cmd com tile dist fresh
    by (simp add: n r)
  have a: "sq_state (fst (fst (onAiUpdate c2_world_open
                            ((newNavalSquad None)\<lparr>sq_state := Attacking\<rparr>, [])))) = Gathering"
    using squad_gather_attack_transitions [of c2_world_open
        "(newNavalSquad None)\<lparr>sq_state := Attacking\<rparr>" "(21 / 2, 14)" "35 / 2" "[]"]
      cmd com tile dist fresh
    by (simp add: m r)
  have bg: "bq_state (fst (fst (bq_onAiUpdate c2_world_open (newBasicNavalSquad None, []))))
       \<noteq> BasicAttacking"
    using squad_gather_attack_transitions [of c2_world_open _ "(21 / 2, 14)" "35 / 2" "[]"
        "newBasicNavalSquad None"] cmd com tile dist fresh
    by (simp add: n r)
  have ba: "bq_state (fst (fst (bq_onAiUpdate c2_world_open
                            ((newBasicNavalSquad None)\<lparr>bq_state := BasicAttacking\<rparr>, []))))
       = BasicGathering"
    using squad_gather_attack_transitions [of c2_world_open _ "(21 / 2, 14)" "35 / 2" "[]"
        "(newBasicNavalSquad None)\<lparr>bq_state := BasicAttacking\<rparr>"] cmd com tile dist fresh
    by (simp add: n r)
  from cmd com tile dist g a bg ba show ?thesis by blast
qed

text \<open>
  The claim as stated fails: the same four destroyers, 17.5 from their centroid
  (\<open>17.5 > \<surd>4 * 2 + 3\<close>), switch to attacking on their first command tick, because no map tile
  lies under the centroid (10.5, 14).
\<close>

theorem squad_gather_attack_counterexample:
  "sq_state (fst (fst (onAiUpdate c2_world (newNavalSquad (Some (50, 50)), [])))) = Attacking
   \<and> qw_maxDistance c2_world = Some (35 / 2)
   \<and> \<not> 35 / 2 \<le> sqrt (real (length (qw_navalUnitIds c2_world))) * 2 + 3"
proof -
  have r: "sqrt 4 = 2" by simp
  have none: "scatteredCentre c2_world radius = None" for radius
    by (simp add: scatteredCentre_def c2_world_def Math_round_def)
  have world: "qw_currentTick c2_world = 50" "qw_missionUnitIds c2_world \<noteq> []"
    "qw_maxDistance c2_world = Some (35 / 2)" "length (qw_navalUnitIds c2_world) = 4"
    by (simp_all add: c2_world_def)
  show ?thesis
    by (simp add: onAiUpdate_def stuckCheck_def isCommandTick_def commandStep_def
        none world r newNavalSquad_def squad_consts Let_def)
qed


subsection \<open>C9: clamping order targets into the map\<close>

text \<open>
  Both versions of \<open>clampToMapBoundaries\<close> return a point inside the map rectangle, on a map
  wide and high enough for the rectangle to exist.
\<close>

lemma clampToMapBoundaries_in_map:
  assumes "3 \<le> fst (qw_mapSize w)" and "3 \<le> snd (qw_mapSize w)"
  shows "1 \<le> fst (clampToMapBoundaries w p)
         \<and> fst (clampToMapBoundaries w p) \<le> of_int (fst (qw_mapSize w)) - 2
         \<and> 1 \<le> snd (clampToMapBoundaries w p)
         \<and> snd (clampToMapBoundaries w p) \<le> of_int (snd (qw_mapSize w)) - 2"
  using assms by (simp add: clampToMapBoundaries_def)

lemma nm_clampToMapBoundaries_in_map:
  assumes "5 \<le> fst mapSize" and "5 \<le> snd mapSize"
  shows "2 \<le> fst (nm_clampToMapBoundaries mapSize p)
         \<and> fst (nm_clampToMapBoundaries mapSize p) \<le> of_int (fst mapSize) - 3
         \<and> 2 \<le> snd (nm_clampToMapBoundaries mapSize p)
         \<and> snd (nm_clampToMapBoundaries mapSize p) \<le> of_int (snd mapSize) - 3"
  using assms by (simp add: nm_clampToMapBoundaries_def)

lemma c9_weight:
  "calculateTargetWeight (exampleShip 180 2 2) (exampleTank 9 14 18) False
     = Finite (- (57 / 20))"
proof -
  have r: "sqrt 400 = 20" by (rule sqrt_eqI) simp_all
  show ?thesis
    by (simp add: calculateTargetWeight_def getDistanceBetweenUnits_def
        getDistanceBetweenPoints_def weaponRange_def exampleShip_def exampleTank_def r
        squad_consts Let_def js_divide_def js_minus_def js_times_def)
qed

lemma c9_no_target: "findBestTarget (exampleShip 180 2 2) [exampleTank 9 14 18] False = None"
  by (simp add: findBestTarget_def reduceBest_def c9_weight Let_def)

lemma c9_hostiles: "hostileUnitsNear c9_world (2, 2) radius = [exampleTank 9 14 18]"
  by (simp add: hostileUnitsNear_def c9_world_def)

lemma c9_handleCombat:
  "handleCombat c9_world (c9_squad\<lparr>sq_lastCommand := 520\<rparr>, []) (exampleShip 180 2 2)
     [exampleTank 9 14 18] [exampleShip 180 2 2] 520 (40, 40)
   = (c9_squad\<lparr>sq_lastCommand := 520,
        sq_lastOrderGiven := [180 \<mapsto> \<lparr>ba_unitId = 180, ba_orderType = Move,
                                       ba_point = Some (- 23, 2), ba_targetId = None\<rparr>]\<rparr>,
      [\<lparr>ba_unitId = 180, ba_orderType = Move, ba_point = Some (- 23, 2),
        ba_targetId = None\<rparr>])"
proof -
  have tank: "ud_rules_isSelectableCombatant (exampleTank 9 14 18)"
    by (simp add: exampleTank_def)
  have ship: "ud_id (exampleShip 180 2 2) = 180" "ud_rx (exampleShip 180 2 2) = 2"
    "ud_ry (exampleShip 180 2 2) = 2" "ud_name (exampleShip 180 2 2) = ''DEST''"
    by (simp_all add: exampleShip_def)
  have join: "joinMajorBattle c9_world ctx (exampleShip 180 2 2) [exampleTank 9 14 18] us 520
                = None" for ctx us
    by (simp add: joinMajorBattle_def Let_def)
  show ?thesis
    by (simp add: handleCombat_def tank join engageOrMove_def c9_no_target
        findNearestEngagedAlly_def ship c9_squad_def newNavalSquad_def submitActionIfNew_def
        manageMoveMicro_def updateCombatState_def push_def squad_consts Let_def)
qed

text \<open>
  C9 at a concrete update. The destroyer has no target in reach, no engaged ally and has been
  idle for more than 150 ticks, so \<open>handleCombat\<close> sends it on a search move 25 tiles in the
  direction of \<open>180\<degree>\<close> (its id modulo 360): the order pushed to the batcher is a move to
  \<open>(-23, 2)\<close>, outside the map. The target never passes through \<open>clampToMapBoundaries\<close>, which
  would have turned it into \<open>(1, 2)\<close>.
\<close>

theorem search_move_target_not_clamped:
  "snd (fst (onAiUpdate c9_world (c9_squad, [])))
     = [\<lparr>ba_unitId = 180, ba_orderType = Move, ba_point = Some (- 23, 2), ba_targetId = None\<rparr>]
   \<and> clampToMapBoundaries c9_world (- 23, 2) = (1, 2)"
proof -
  have units: "navalUnits c9_world = [exampleShip 180 2 2]"
    by (simp add: navalUnits_def c9_world_def)
  have world: "qw_currentTick c9_world = 520" "qw_missionUnitIds c9_world = [180]"
    by (simp_all add: c9_world_def)
  have squad: "sq_lastStuckCheck c9_squad = 500" "sq_lastCommand c9_squad = 500"
    "sq_state c9_squad = Attacking" "sq_targetArea c9_squad = Some (40, 40)"
    by (simp_all add: c9_squad_def newNavalSquad_def)
  have gathered: "scatteredCentre c9_world radius = None" for radius
    by (simp add: scatteredCentre_def c9_world_def)
  have ship: "ud_rx (exampleShip 180 2 2) = 2" "ud_ry (exampleShip 180 2 2) = 2"
    by (simp_all add: exampleShip_def)
  have tank: "ud_rules_isSelectableCombatant (exampleTank 9 14 18)"
    by (simp add: exampleTank_def)
  have update: "fst (onAiUpdate c9_world (c9_squad, []))
      = handleCombat c9_world (c9_squad\<lparr>sq_lastCommand := 520\<rparr>, []) (exampleShip 180 2 2)
          [exampleTank 9 14 18] [exampleShip 180 2 2] 520 (40, 40)"
    by (simp add: onAiUpdate_def stuckCheck_def isCommandTick_def commandStep_def attackStep_def
        world squad units gathered reduceLeader_def ship c9_hostiles tank squad_consts Let_def)
  have clamp: "clampToMapBoundaries c9_world (- 23, 2) = (1, 2)"
    by (simp add: clampToMapBoundaries_def Math_round_def c9_world_def)
  from update clamp show ?thesis by (simp add: c9_handleCombat)
qed


subsection \<open>C8: the attack weight and the choice of target\<close>

text \<open>
  Both weights are the product of the named factors and of the factor computed from the
  rules, times the distance decay, whose division is the only one by a value that may be 0.
\<close>

lemma calculateTargetWeight_factors:
  "calculateTargetWeight attacker target inMajorBattle
     = js_times (typeMultiplier target * navalBonus target
                 * (if ud_rules_isSelectableCombatant target
                    then 1 + (1 - rulesRatio target) * (15 / 10) else 1)
                 * inRangeBonus attacker target)
         (js_minus 1 (js_divide (getDistanceBetweenUnits attacker target)
                        (weaponRange attacker * (25 / 10))))"
  unfolding calculateTargetWeight_def Let_def
  by (rule arg_cong2 [where f = js_times])
     (simp_all add: typeMultiplier_def navalBonus_def rulesRatio_def inRangeBonus_def
        squad_consts)

lemma getNavalAttackWeight_factors:
  "getNavalAttackWeight attacker target
     = js_times (basicNavalBonus target * basicInRangeBonus attacker target
                 * (2 - rulesRatio target))
         (js_minus 1 (js_divide (getDistanceBetweenUnits attacker target)
                        (weaponRange attacker * 2)))"
  unfolding getNavalAttackWeight_def Let_def
  by (rule arg_cong2 [where f = js_times])
     (simp_all add: basicNavalBonus_def basicInRangeBonus_def rulesRatio_def)

text \<open>
  For an attacker of non-zero weapon range both weights are finite: the decay is
  \<open>1 - d / (2.5 * range)\<close> in the full squad and \<open>1 - d / (2 * range)\<close> in the basic squad.
\<close>

lemma calculateTargetWeight_product:
  assumes "weaponRange attacker \<noteq> 0"
  shows "calculateTargetWeight attacker target inMajorBattle
     = Finite (typeMultiplier target * navalBonus target
               * (if ud_rules_isSelectableCombatant target
                  then 1 + (1 - rulesRatio target) * (15 / 10) else 1)
               * inRangeBonus attacker target * distanceDecay (25 / 10) attacker target)"
  using assms
  by (simp add: calculateTargetWeight_factors distanceDecay_def js_divide_def js_minus_def
      js_times_def)

lemma getNavalAttackWeight_product:
  assumes "weaponRange attacker \<noteq> 0"
  shows "getNavalAttackWeight attacker target
     = Finite (basicNavalBonus target * basicInRangeBonus attacker target
               * (2 - rulesRatio target) * distanceDecay 2 attacker target)"
  using assms
  by (simp add: getNavalAttackWeight_factors distanceDecay_def js_divide_def js_minus_def
      js_times_def)

text \<open>
  For an attacker of weapon range 0 the last factor is not finite. The weight of a target at
  a distance is minus infinity when the product of the other factors is positive, and such a
  target is never chosen: no weight that is minus infinity or not a number exceeds another.
\<close>

lemma calculateTargetWeight_range_zero:
  assumes "weaponRange attacker = 0" and "getDistanceBetweenUnits attacker target > 0"
    and "rulesRatio target < 5 / 3"
  shows "calculateTargetWeight attacker target inMajorBattle = MinusInfinity"
proof -
  let ?k = "if ud_rules_isSelectableCombatant target
            then 1 + (1 - rulesRatio target) * (15 / 10) else 1"
  have k: "0 < ?k" using assms(3) by (simp add: field_simps)
  have "0 < typeMultiplier target" "0 < navalBonus target" "0 < inRangeBonus attacker target"
    by (simp_all add: typeMultiplier_def navalBonus_def inRangeBonus_def)
  with k have "0 < typeMultiplier target * navalBonus target * ?k * inRangeBonus attacker target"
    by (intro mult_pos_pos)
  with assms(1,2) show ?thesis
    unfolding calculateTargetWeight_factors
    by (simp add: js_divide_def js_minus_def js_times_def)
qed

lemma reduceBest_skips:
  assumes "weight t = MinusInfinity \<or> weight t = NaN"
  shows "reduceBest weight (ts @ [t]) = reduceBest weight ts"
  using assms by (auto simp: reduceBest_def Let_def)

lemma c8_distance:
  "getDistanceBetweenUnits c8_ship c8_fresh = 3"
  "getDistanceBetweenUnits c8_ship c8_damaged = 3"
  "weaponRange c8_ship = 5"
proof -
  have r: "sqrt 9 = 3" by (rule sqrt_eqI) simp_all
  show "getDistanceBetweenUnits c8_ship c8_fresh = 3"
    "getDistanceBetweenUnits c8_ship c8_damaged = 3" "weaponRange c8_ship = 5"
    by (simp_all add: getDistanceBetweenUnits_def getDistanceBetweenPoints_def weaponRange_def
        c8_ship_def c8_fresh_def c8_damaged_def exampleShip_def exampleTank_def r)
qed

lemma c8_weights:
  "calculateTargetWeight c8_ship c8_fresh False = Finite (4693 / 1000)"
  "calculateTargetWeight c8_ship c8_damaged False = Finite (4693 / 1000)"
  "getNavalAttackWeight c8_ship c8_fresh = Finite (161 / 100)"
  "getNavalAttackWeight c8_ship c8_damaged = Finite (161 / 100)"
  by (simp_all add: calculateTargetWeight_def getNavalAttackWeight_def c8_distance Let_def
      squad_consts js_divide_def js_minus_def js_times_def)
     (simp_all add: c8_fresh_def c8_damaged_def exampleTank_def)

lemma c8_choice:
  "findBestTarget c8_ship [c8_fresh, c8_damaged] False = Some c8_fresh"
  "reduceBest (getNavalAttackWeight c8_ship) [c8_fresh, c8_damaged] = Some c8_fresh"
proof -
  have kinds: "ud_rules_isSelectableCombatant c8_fresh"
    "ud_rules_isSelectableCombatant c8_damaged"
    by (simp_all add: c8_fresh_def c8_damaged_def exampleTank_def)
  show "findBestTarget c8_ship [c8_fresh, c8_damaged] False = Some c8_fresh"
    by (simp add: findBestTarget_def kinds reduceBest_def c8_weights Let_def)
  show "reduceBest (getNavalAttackWeight c8_ship) [c8_fresh, c8_damaged] = Some c8_fresh"
    by (simp add: reduceBest_def c8_weights Let_def)
qed

lemma c8_world_facts:
  "navalUnits c8_world = [c8_ship]"
  "hostileUnitsNear c8_world (0, 0) radius = [c8_fresh, c8_damaged]"
  "scatteredCentre c8_world radius = None"
  "qw_currentTick c8_world = 600" "qw_missionUnitIds c8_world = [1]"
  "qw_navalUnitIds c8_world = [1]"
  by (simp_all add: navalUnits_def hostileUnitsNear_def scatteredCentre_def c8_world_def)

lemma c8_unit_facts:
  "ud_id c8_ship = 1" "ud_name c8_ship = ''DEST''" "ud_rx c8_ship = 0" "ud_ry c8_ship = 0"
  "ud_id c8_fresh = 7" "ud_rules_isSelectableCombatant c8_fresh"
  by (simp_all add: c8_ship_def c8_fresh_def exampleShip_def exampleTank_def)

lemma c8_full_update:
  "snd (fst (onAiUpdate c8_world (c8_squad, [])))
     = [\<lparr>ba_unitId = 1, ba_orderType = Attack, ba_point = None, ba_targetId = Some 7\<rparr>]"
proof -
  have squad: "sq_lastStuckCheck c8_squad = 570" "sq_lastCommand c8_squad = 570"
    "sq_state c8_squad = Attacking" "sq_targetArea c8_squad = Some (40, 40)"
    "sq_lastOrderGiven c8_squad = Map.empty"
    by (simp_all add: c8_squad_def newNavalSquad_def)
  have update: "fst (onAiUpdate c8_world (c8_squad, []))
      = handleCombat c8_world (c8_squad\<lparr>sq_lastCommand := 600\<rparr>, []) c8_ship
          [c8_fresh, c8_damaged] [c8_ship] 600 (40, 40)"
    by (simp add: onAiUpdate_def stuckCheck_def isCommandTick_def commandStep_def attackStep_def
        c8_world_facts squad reduceLeader_def c8_unit_facts squad_consts Let_def)
  have join: "joinMajorBattle c8_world ctx c8_ship [c8_fresh, c8_damaged] us 600 = None"
    for ctx us
    by (simp add: joinMajorBattle_def Let_def)
  have "snd (handleCombat c8_world (c8_squad\<lparr>sq_lastCommand := 600\<rparr>, []) c8_ship
               [c8_fresh, c8_damaged] [c8_ship] 600 (40, 40))
      = [\<lparr>ba_unitId = 1, ba_orderType = Attack, ba_point = None, ba_targetId = Some 7\<rparr>]"
    by (simp add: handleCombat_def c8_unit_facts join engageOrMove_def c8_choice
        updateCombatState_def submitActionIfNew_def squad manageAttackMicro_def push_def
        Let_def)
  with update show ?thesis by simp
qed

lemma c8_basic_update:
  "snd (fst (bq_onAiUpdate c8_world (c8_basic_squad, [])))
     = [\<lparr>ba_unitId = 1, ba_orderType = Attack, ba_point = None, ba_targetId = Some 7\<rparr>]"
proof -
  have squad: "bq_lastCommand c8_basic_squad = 570" "bq_state c8_basic_squad = BasicAttacking"
    "bq_targetArea c8_basic_squad = Some (40, 40)"
    "bq_lastOrderGiven c8_basic_squad = Map.empty"
    by (simp_all add: c8_basic_squad_def newBasicNavalSquad_def)
  show ?thesis
    by (simp add: bq_onAiUpdate_def isCommandTick_def bq_commandStep_def c8_world_facts squad
        reduceLeader_def c8_unit_facts bq_attackUnit_def c8_choice bq_submitActionIfNew_def
        manageAttackMicro_def push_def squad_consts Let_def)
qed

text \<open>
  C8. The weights do not depend on the remaining health of the target: a change of its hit
  points, remaining or full, changes neither \<open>calculateTargetWeight\<close> nor
  \<open>getNavalAttackWeight\<close>. For the destroyer \<open>c8_ship\<close>, the undamaged tank and the tank with
  a tenth of its health left, both of one type, 3 tiles away and in range, have the same
  weight (4.693 in the full squad, 1.61 in the basic squad). Both squads choose the undamaged
  tank, the first of the scan, and their update at tick 600 pushes the order to attack it.
\<close>

theorem attack_weight_ignores_remaining_health:
  "calculateTargetWeight a (t\<lparr>ud_hitPoints := h, ud_maxHitPoints := m\<rparr>) b
     = calculateTargetWeight a t b
   \<and> getNavalAttackWeight a (t\<lparr>ud_hitPoints := h, ud_maxHitPoints := m\<rparr>)
       = getNavalAttackWeight a t
   \<and> healthFraction c8_fresh = 1
   \<and> healthFraction c8_damaged = 1 / 10
   \<and> calculateTargetWeight c8_ship c8_fresh False = Finite (4693 / 1000)
   \<and> calculateTargetWeight c8_ship c8_damaged False = Finite (4693 / 1000)
   \<and> findBestTarget c8_ship [c8_fresh, c8_damaged] False = Some c8_fresh
   \<and> snd (fst (onAiUpdate c8_world (c8_squad, [])))
       = [\<lparr>ba_unitId = 1, ba_orderType = Attack, ba_point = None, ba_targetId = Some 7\<rparr>]
   \<and> getNavalAttackWeight c8_ship c8_fresh = Finite (161 / 100)
   \<and> getNavalAttackWeight c8_ship c8_damaged = Finite (161 / 100)
   \<and> reduceBest (getNavalAttackWeight c8_ship) [c8_fresh, c8_damaged] = Some c8_fresh
   \<and> snd (fst (bq_onAiUpdate c8_world (c8_basic_squad, [])))
       = [\<lparr>ba_unitId = 1, ba_orderType = Attack, ba_point = None, ba_targetId = Some 7\<rparr>]"
proof -
  have general:
    "calculateTargetWeight a (t\<lparr>ud_hitPoints := h, ud_maxHitPoints := m\<rparr>) b
     = calculateTargetWeight a t b"
    "getNavalAttackWeight a (t\<lparr>ud_hitPoints := h, ud_maxHitPoints := m\<rparr>)
       = getNavalAttackWeight a t"
    by (simp_all add: calculateTargetWeight_def getNavalAttackWeight_def
        getDistanceBetweenUnits_def)
  have health: "healthFraction c8_fresh = 1" "healthFraction c8_damaged = 1 / 10"
    by (simp_all add: healthFraction_def c8_fresh_def c8_damaged_def exampleTank_def)
  from general health c8_weights c8_choice c8_full_update c8_basic_update
  show ?thesis by simp
qed

subsection \<open>C6: orders are pushed on command ticks and only when new\<close>

lemma noRepeats_append:
  "noRepeats m (ps @ qs) \<longleftrightarrow> noRepeats m ps \<and> noRepeats (replayOrders m ps) qs"
  by (induction ps arbitrary: m) (simp_all add: replayOrders_def)

lemma replayOrders_append:
  "replayOrders m (ps @ qs) = replayOrders (replayOrders m ps) qs"
  by (simp add: replayOrders_def)

lemma onlyNewOrders_refl: "onlyNewOrders s s"
  by (auto simp: onlyNewOrders_def replayOrders_def intro!: exI [of _ "[]"])

lemma onlyNewOrders_trans:
  assumes "onlyNewOrders s1 s2" and "onlyNewOrders s2 s3"
  shows "onlyNewOrders s1 s3"
proof -
  from assms(1) obtain ps where ps: "snd s2 = snd s1 @ ps" "noRepeats (fst s1) ps"
    "fst s2 = replayOrders (fst s1) ps"
    by (auto simp: onlyNewOrders_def)
  from assms(2) obtain qs where qs: "snd s3 = snd s2 @ qs" "noRepeats (fst s2) qs"
    "fst s3 = replayOrders (fst s2) qs"
    by (auto simp: onlyNewOrders_def)
  from ps qs have "snd s3 = snd s1 @ (ps @ qs)" "noRepeats (fst s1) (ps @ qs)"
    "fst s3 = replayOrders (fst s1) (ps @ qs)"
    by (simp_all add: noRepeats_append replayOrders_append)
  then show ?thesis unfolding onlyNewOrders_def by blast
qed

lemma onlyNewOrders_foldl:
  assumes "\<And>c a. onlyNewOrders (proj c) (proj (f c a))"
  shows "onlyNewOrders (proj c) (proj (foldl f c xs))"
proof (induction xs arbitrary: c)
  case Nil
  show ?case by (simp add: onlyNewOrders_refl)
next
  case (Cons a xs)
  from assms [of c a] Cons.IH [of "f c a"] show ?case
    by (simp add: onlyNewOrders_trans)
qed

lemma submitActionIfNew_onlyNew:
  "onlyNewOrders (sq_orders ctx) (sq_orders (submitActionIfNew ctx a))"
proof (cases ctx)
  case (Pair sq batcher)
  show ?thesis
  proof (cases "case sq_lastOrderGiven sq (ba_unitId a) of
                  None \<Rightarrow> True | Some l \<Rightarrow> \<not> isSameAs l a")
    case True
    then have "sq_orders (submitActionIfNew ctx a)
                 = ((sq_lastOrderGiven sq)(ba_unitId a \<mapsto> a), batcher @ [a])"
      by (auto simp: Pair submitActionIfNew_def sq_orders_def push_def split: option.splits)
    moreover from True have "noRepeats (sq_lastOrderGiven sq) [a]" by simp
    ultimately show ?thesis
      unfolding onlyNewOrders_def
      by (intro exI [of _ "[a]"]) (simp add: Pair sq_orders_def replayOrders_def)
  next
    case False
    then have "submitActionIfNew ctx a = ctx"
      by (auto simp: Pair submitActionIfNew_def split: option.splits)
    then show ?thesis by (simp add: onlyNewOrders_refl)
  qed
qed

lemma bq_submitActionIfNew_onlyNew:
  "onlyNewOrders (bq_orders ctx) (bq_orders (bq_submitActionIfNew ctx a))"
proof (cases ctx)
  case (Pair sq batcher)
  show ?thesis
  proof (cases "case bq_lastOrderGiven sq (ba_unitId a) of
                  None \<Rightarrow> True | Some l \<Rightarrow> \<not> isSameAs l a")
    case True
    then have "bq_orders (bq_submitActionIfNew ctx a)
                 = ((bq_lastOrderGiven sq)(ba_unitId a \<mapsto> a), batcher @ [a])"
      by (auto simp: Pair bq_submitActionIfNew_def bq_orders_def push_def split: option.splits)
    moreover from True have "noRepeats (bq_lastOrderGiven sq) [a]" by simp
    ultimately show ?thesis
      unfolding onlyNewOrders_def
      by (intro exI [of _ "[a]"]) (simp add: Pair bq_orders_def replayOrders_def)
  next
    case False
    then have "bq_submitActionIfNew ctx a = ctx"
      by (auto simp: Pair bq_submitActionIfNew_def split: option.splits)
    then show ?thesis by (simp add: onlyNewOrders_refl)
  qed
qed

text \<open>Steps that leave cache and batcher alone.\<close>

lemma sq_orders_quiet:
  "sq_orders (startPathfinding ctx u t) = sq_orders ctx"
  "sq_orders (updateCombatState ctx u t h) = sq_orders ctx"
  "sq_orders (updateUnitPosition (fst ctx) u t, snd ctx) = sq_orders ctx"
  "sq_orders ((fst ctx)\<lparr>sq_lastStuckCheck := t\<rparr>, snd ctx) = sq_orders ctx"
  "sq_orders ((fst ctx)\<lparr>sq_lastCommand := t\<rparr>, snd ctx) = sq_orders ctx"
  "sq_orders ((fst ctx)\<lparr>sq_state := st\<rparr>, snd ctx) = sq_orders ctx"
  by (simp_all add: sq_orders_def startPathfinding_def updateCombatState_def
      updateUnitPosition_def Let_def split: prod.split)

lemma handleStuckUnit_onlyNew:
  "onlyNewOrders (sq_orders ctx) (sq_orders (handleStuckUnit w ctx u t))"
proof -
  obtain sq batcher where c: "ctx = (sq, batcher)" by (cases ctx)
  have q: "sq_orders (sq\<lparr>sq_stuckStates := x\<rparr>, batcher) = sq_orders ctx" for x
    by (simp add: sq_orders_def c)
  show ?thesis
    using submitActionIfNew_onlyNew [of "(sq\<lparr>sq_stuckStates := x\<rparr>, batcher)" for x]
    by (simp add: handleStuckUnit_def c Let_def sq_orders_quiet q)
qed

lemma stuckCheck_onlyNew:
  "onlyNewOrders (sq_orders ctx) (sq_orders (stuckCheck w ctx))"
proof -
  let ?f = "\<lambda>c unit. (let c1 = (updateUnitPosition (fst c) unit (qw_currentTick w), snd c)
                       in if isUnitStuck (fst c1) unit
                          then handleStuckUnit w c1 unit (qw_currentTick w) else c1)"
  have step: "onlyNewOrders (sq_orders c) (sq_orders (?f c u))" for c u
    using handleStuckUnit_onlyNew
      [of "(updateUnitPosition (fst c) u (qw_currentTick w), snd c)" w u "qw_currentTick w"]
    by (simp add: Let_def sq_orders_quiet onlyNewOrders_refl)
  from onlyNewOrders_foldl [of sq_orders ?f, OF step]
  have "onlyNewOrders (sq_orders ((fst ctx)\<lparr>sq_lastStuckCheck := qw_currentTick w\<rparr>, snd ctx))
          (sq_orders (foldl ?f ((fst ctx)\<lparr>sq_lastStuckCheck := qw_currentTick w\<rparr>, snd ctx)
             (navalUnits w)))" .
  then show ?thesis
    by (simp add: stuckCheck_def Let_def sq_orders_quiet onlyNewOrders_refl)
qed

lemma moveUnitsInFormation_onlyNew:
  "onlyNewOrders (sq_orders ctx) (sq_orders (moveUnitsInFormation w ctx units p t))"
proof -
  have "onlyNewOrders (sq_orders c) (sq_orders (moveUnitInFormation w q n t c iu))" for q n c iu
    by (simp add: moveUnitInFormation_def Let_def sq_orders_quiet submitActionIfNew_onlyNew
        onlyNewOrders_refl split: prod.split)
  from onlyNewOrders_foldl [of sq_orders "moveUnitInFormation w _ _ t", OF this]
  show ?thesis by (simp add: moveUnitsInFormation_def Let_def)
qed

lemma engageOrMove_onlyNew:
  "onlyNewOrders (sq_orders ctx) (sq_orders (engageOrMove w ctx u hs us t p))"
  by (simp add: engageOrMove_def Let_def sq_orders_quiet submitActionIfNew_onlyNew
      split: option.split)

lemma joinMajorBattle_onlyNew:
  "joinMajorBattle w ctx u hs us t = Some joined
   \<Longrightarrow> onlyNewOrders (sq_orders ctx) (sq_orders joined)"
  by (auto simp: joinMajorBattle_def Let_def sq_orders_quiet submitActionIfNew_onlyNew
      split: option.splits if_splits)

lemma handleCombat_onlyNew:
  "onlyNewOrders (sq_orders ctx) (sq_orders (handleCombat w ctx u hs us t p))"
  using joinMajorBattle_onlyNew [of w ctx u hs us t]
  by (auto simp: handleCombat_def engageOrMove_onlyNew sq_orders_quiet
      submitActionIfNew_onlyNew split: option.split)

lemma attackStep_onlyNew:
  "onlyNewOrders (sq_orders ctx) (sq_orders (fst (attackStep w ctx)))"
proof -
  have "onlyNewOrders (sq_orders c)
          (sq_orders (foldl (\<lambda>c unit. handleCombat w c unit hs us t p) c xs))" for hs us t p c xs
    using onlyNewOrders_foldl [of sq_orders "\<lambda>c unit. handleCombat w c unit hs us t p"]
    by (simp add: handleCombat_onlyNew)
  then show ?thesis
    by (simp add: attackStep_def Let_def sq_orders_quiet moveUnitsInFormation_onlyNew
        onlyNewOrders_refl split: sum.split list.split option.split)
qed

lemma exploreUnit_onlyNew:
  "onlyNewOrders (sq_orders ctx) (sq_orders (exploreUnit w n ctx iu))"
proof -
  have l: "sq_lastOrderGiven (fst (updateExplorationTarget w sq u r)) = sq_lastOrderGiven sq"
    for sq u r
    by (simp add: updateExplorationTarget_def Let_def)
  have q: "sq_orders (fst (updateExplorationTarget w ((fst ctx)\<lparr>sq_currentExplorationAngle := x\<rparr>) u r),
                      snd ctx) = sq_orders ctx" for x u r
    by (simp add: sq_orders_def l)
  have st: "sq_orders ((fst c)\<lparr>sq_state := x\<rparr>, snd c) = sq_orders c" for c x
    by (simp add: sq_orders_def)
  have sub: "onlyNewOrders (sq_orders ctx)
      (sq_orders (submitActionIfNew
         (fst (updateExplorationTarget w ((fst ctx)\<lparr>sq_currentExplorationAngle := x\<rparr>) u r),
          snd ctx) a))" for x u r a
    using submitActionIfNew_onlyNew
      [of "(fst (updateExplorationTarget w ((fst ctx)\<lparr>sq_currentExplorationAngle := x\<rparr>) u r),
            snd ctx)" a]
    by (simp add: q)
  show ?thesis
    by (simp add: exploreUnit_def Let_def case_prod_beta st q sub onlyNewOrders_refl)
qed

lemma commandStep_onlyNew:
  "onlyNewOrders (sq_orders ctx) (sq_orders (fst (commandStep w ctx)))"
proof -
  let ?ctx = "((fst ctx)\<lparr>sq_lastCommand := qw_currentTick w\<rparr>, snd ctx)"
  have q: "sq_orders ?ctx = sq_orders ctx" by (simp add: sq_orders_def)
  have ex: "onlyNewOrders (sq_orders c) (sq_orders (foldl (exploreUnit w n) c xs))" for n c xs
    using onlyNewOrders_foldl [of sq_orders "exploreUnit w n"]
    by (simp add: exploreUnit_onlyNew)
  have "onlyNewOrders (sq_orders ?ctx) (sq_orders (fst (commandStep w ctx)))"
    using attackStep_onlyNew [of ?ctx w] moveUnitsInFormation_onlyNew [of ?ctx w] ex [of ?ctx]
    by (simp add: commandStep_def Let_def onlyNewOrders_refl sq_orders_def
        split: SquadState.split option.split)
  with q show ?thesis by simp
qed

lemma onAiUpdate_onlyNew:
  "onlyNewOrders (sq_orders ctx) (sq_orders (fst (onAiUpdate w ctx)))"
  using stuckCheck_onlyNew [of ctx w] commandStep_onlyNew [of "stuckCheck w ctx" w]
  by (auto simp: onAiUpdate_def Let_def intro: onlyNewOrders_trans)

lemma bq_onAiUpdate_onlyNew:
  "onlyNewOrders (bq_orders ctx) (bq_orders (fst (bq_onAiUpdate w ctx)))"
proof -
  let ?ctx = "((fst ctx)\<lparr>bq_lastCommand := qw_currentTick w\<rparr>, snd ctx)"
  have q: "bq_orders ((fst c)\<lparr>bq_lastCommand := x\<rparr>, snd c) = bq_orders c"
    "bq_orders ((fst c)\<lparr>bq_state := y\<rparr>, snd c) = bq_orders c" for c x y
    by (simp_all add: bq_orders_def)
  have mv: "onlyNewOrders (bq_orders c)
      (bq_orders (foldl (\<lambda>c unit. bq_submitActionIfNew c (manageMoveMicro unit p)) c xs))"
    for p c xs
    using onlyNewOrders_foldl [of bq_orders
        "\<lambda>c unit. bq_submitActionIfNew c (manageMoveMicro unit p)"]
    by (simp add: bq_submitActionIfNew_onlyNew)
  have at: "onlyNewOrders (bq_orders c) (bq_orders (foldl (bq_attackUnit hs p) c xs))"
    for hs p c xs
    using onlyNewOrders_foldl [of bq_orders "bq_attackUnit hs p"]
    by (simp add: bq_attackUnit_def bq_submitActionIfNew_onlyNew split: option.split)
  have "onlyNewOrders (bq_orders ?ctx) (bq_orders (fst (bq_commandStep w ctx)))"
    using mv [of ?ctx] at [of ?ctx]
    by (simp add: bq_commandStep_def Let_def onlyNewOrders_refl bq_orders_def
        split: BasicSquadState.split option.split sum.split)
  then show ?thesis
    by (simp add: bq_onAiUpdate_def q onlyNewOrders_refl)
qed

lemma runUpdates_onlyNew:
  "onlyNewOrders (sq_orders ctx) (sq_orders (runUpdates worlds ctx))"
  unfolding runUpdates_def
  using onlyNewOrders_foldl [of sq_orders "\<lambda>c w. fst (onAiUpdate w c)"]
  by (simp add: onAiUpdate_onlyNew)

lemma bq_runUpdates_onlyNew:
  "onlyNewOrders (bq_orders ctx) (bq_orders (bq_runUpdates worlds ctx))"
  unfolding bq_runUpdates_def
  using onlyNewOrders_foldl [of bq_orders "\<lambda>c w. fst (bq_onAiUpdate w c)"]
  by (simp add: bq_onAiUpdate_onlyNew)

text \<open>What a command step does to \<open>lastCommand\<close>.\<close>

lemma updateCombatState_lastCommand:
  "sq_lastCommand (fst (updateCombatState ctx u t h)) = sq_lastCommand (fst ctx)"
  by (simp add: updateCombatState_def Let_def split: prod.split)

lemma moveUnitInFormation_lastCommand:
  "sq_lastCommand (fst (moveUnitInFormation w q n t ctx iu)) = sq_lastCommand (fst ctx)"
  by (simp add: moveUnitInFormation_def Let_def startPathfinding_frame submitActionIfNew_frame
      split: prod.split)

lemma engageOrMove_lastCommand:
  "sq_lastCommand (fst (engageOrMove w ctx u hs us t p)) = sq_lastCommand (fst ctx)"
  by (simp add: engageOrMove_def Let_def updateCombatState_lastCommand submitActionIfNew_frame
      split: option.split)

lemma joinMajorBattle_lastCommand:
  "joinMajorBattle w ctx u hs us t = Some joined \<Longrightarrow>
   sq_lastCommand (fst joined) = sq_lastCommand (fst ctx)"
  by (auto simp: joinMajorBattle_def Let_def updateCombatState_lastCommand
      submitActionIfNew_frame split: option.splits if_splits)

lemma handleCombat_lastCommand:
  "sq_lastCommand (fst (handleCombat w ctx u hs us t p)) = sq_lastCommand (fst ctx)"
  using joinMajorBattle_lastCommand [of w ctx u hs us t]
  by (auto simp: handleCombat_def engageOrMove_lastCommand updateCombatState_lastCommand
      submitActionIfNew_frame split: option.split)

lemma commandStep_lastCommand:
  "sq_lastCommand (fst (fst (commandStep w ctx))) = qw_currentTick w"
proof -
  have mv: "sq_lastCommand (fst (moveUnitsInFormation w c us p t)) = sq_lastCommand (fst c)"
    for c us p t
    using foldl_preserves [of "\<lambda>c. sq_lastCommand (fst c)" "moveUnitInFormation w _ _ t"]
    by (simp add: moveUnitsInFormation_def Let_def moveUnitInFormation_lastCommand)
  have hc: "sq_lastCommand (fst (foldl (\<lambda>c unit. handleCombat w c unit hs us t p) c xs))
              = sq_lastCommand (fst c)" for hs us t p c xs
    using foldl_preserves [of "\<lambda>c. sq_lastCommand (fst c)"
        "\<lambda>c unit. handleCombat w c unit hs us t p"]
    by (simp add: handleCombat_lastCommand)
  have at: "sq_lastCommand (fst (fst (attackStep w c))) = sq_lastCommand (fst c)" for c
    by (simp add: attackStep_def Let_def mv hc split: sum.split list.split option.split)
  have ue: "sq_lastCommand (fst (updateExplorationTarget w sq u r)) = sq_lastCommand sq"
    for sq u r
    by (simp add: updateExplorationTarget_def Let_def)
  have "sq_lastCommand (fst (exploreUnit w n c iu)) = sq_lastCommand (fst c)" for n c iu
    by (simp add: exploreUnit_def Let_def case_prod_beta ue submitActionIfNew_frame)
  from foldl_preserves [of "\<lambda>c. sq_lastCommand (fst c)" "exploreUnit w _", OF this]
  have ex: "sq_lastCommand (fst (foldl (exploreUnit w n) c xs)) = sq_lastCommand (fst c)"
    for n c xs .
  show ?thesis
    by (simp add: commandStep_def Let_def mv at ex split: SquadState.split option.split)
qed

lemma bq_commandStep_lastCommand:
  "bq_lastCommand (fst (fst (bq_commandStep w ctx))) = qw_currentTick w"
proof -
  have mv: "bq_lastCommand (fst (foldl (\<lambda>c unit. bq_submitActionIfNew c (manageMoveMicro unit p))
                                   c xs)) = bq_lastCommand (fst c)" for p c xs
    using foldl_preserves [of "\<lambda>c. bq_lastCommand (fst c)"
        "\<lambda>c unit. bq_submitActionIfNew c (manageMoveMicro unit p)"]
    by (simp add: bq_submitActionIfNew_frame)
  have at: "bq_lastCommand (fst (foldl (bq_attackUnit hs p) c xs)) = bq_lastCommand (fst c)"
    for hs p c xs
    using foldl_preserves [of "\<lambda>c. bq_lastCommand (fst c)" "bq_attackUnit hs p"]
    by (simp add: bq_attackUnit_def bq_submitActionIfNew_frame split: option.split)
  show ?thesis
    by (simp add: bq_commandStep_def Let_def mv at
        split: BasicSquadState.split option.split sum.split)
qed

lemma noRepeats_of_run:
  assumes "onlyNewOrders (Map.empty, []) after"
  shows "noRepeats Map.empty (snd after)"
  using assms by (auto simp: onlyNewOrders_def)

text \<open>
  C6, as the code has it, for the full squad and then for the basic squad. Every update pushes
  only orders that differ from the last order submitted for their unit, and so does every run
  of updates of a new squad. The full squad pushes nothing in an update that is neither a
  command tick nor a stuck-check tick (more than 60 ticks after the last stuck check); the
  basic squad pushes nothing outside a command tick. A command tick records the tick, and the
  next command tick after a recorded tick other than 0 comes more than 15 ticks later.
\<close>

theorem orders_pushed_only_when_new:
  "onlyNewOrders (sq_orders ctx) (sq_orders (fst (onAiUpdate w ctx)))
   \<and> noRepeats Map.empty (snd (runUpdates worlds (newNavalSquad target, [])))
   \<and> (\<not> isCommandTick w (sq_lastCommand (fst ctx))
        \<and> \<not> qw_currentTick w > sq_lastStuckCheck (fst ctx) + 60 \<longrightarrow>
        fst (onAiUpdate w ctx) = ctx)
   \<and> (isCommandTick w (sq_lastCommand (fst ctx)) \<longrightarrow>
        sq_lastCommand (fst (fst (onAiUpdate w ctx))) = qw_currentTick w)
   \<and> (isCommandTick w lastCommand \<and> lastCommand \<noteq> 0 \<longrightarrow>
        qw_currentTick w > lastCommand + 15)
   \<and> onlyNewOrders (bq_orders bctx) (bq_orders (fst (bq_onAiUpdate w bctx)))
   \<and> noRepeats Map.empty (snd (bq_runUpdates worlds (newBasicNavalSquad target, [])))
   \<and> (\<not> isCommandTick w (bq_lastCommand (fst bctx)) \<longrightarrow> fst (bq_onAiUpdate w bctx) = bctx)
   \<and> (isCommandTick w (bq_lastCommand (fst bctx)) \<longrightarrow>
        bq_lastCommand (fst (fst (bq_onAiUpdate w bctx))) = qw_currentTick w)"
proof (intro conjI impI)
  show "onlyNewOrders (sq_orders ctx) (sq_orders (fst (onAiUpdate w ctx)))"
    by (rule onAiUpdate_onlyNew)
  show "onlyNewOrders (bq_orders bctx) (bq_orders (fst (bq_onAiUpdate w bctx)))"
    by (rule bq_onAiUpdate_onlyNew)
  show "noRepeats Map.empty (snd (runUpdates worlds (newNavalSquad target, [])))"
    using runUpdates_onlyNew [of "(newNavalSquad target, [])" worlds]
      noRepeats_of_run [of "sq_orders (runUpdates worlds (newNavalSquad target, []))"]
    by (simp add: sq_orders_def newNavalSquad_def)
  show "noRepeats Map.empty (snd (bq_runUpdates worlds (newBasicNavalSquad target, [])))"
    using bq_runUpdates_onlyNew [of "(newBasicNavalSquad target, [])" worlds]
      noRepeats_of_run [of "bq_orders (bq_runUpdates worlds (newBasicNavalSquad target, []))"]
    by (simp add: bq_orders_def newBasicNavalSquad_def)
  show "fst (onAiUpdate w ctx) = ctx"
    if "\<not> isCommandTick w (sq_lastCommand (fst ctx))
        \<and> \<not> qw_currentTick w > sq_lastStuckCheck (fst ctx) + 60"
    using that by (simp add: onAiUpdate_def stuckCheck_def Let_def squad_consts)
  show "sq_lastCommand (fst (fst (onAiUpdate w ctx))) = qw_currentTick w"
    if "isCommandTick w (sq_lastCommand (fst ctx))"
    using that stuckCheck_frame(2) [of w ctx]
    by (simp add: onAiUpdate_def Let_def commandStep_lastCommand)
  show "qw_currentTick w > lastCommand + 15"
    if "isCommandTick w lastCommand \<and> lastCommand \<noteq> 0"
    using that by (auto simp: isCommandTick_def squad_consts)
  show "fst (bq_onAiUpdate w bctx) = bctx" if "\<not> isCommandTick w (bq_lastCommand (fst bctx))"
    using that by (simp add: bq_onAiUpdate_def)
  show "bq_lastCommand (fst (fst (bq_onAiUpdate w bctx))) = qw_currentTick w"
    if "isCommandTick w (bq_lastCommand (fst bctx))"
    using that by (simp add: bq_onAiUpdate_def bq_commandStep_lastCommand)
qed

text \<open>
  The update of \<open>c9_squad\<close> at tick 520 is a command tick, 20 ticks after the last one; it
  records tick 520. The same squad is left untouched by an update at tick 510.
\<close>

theorem orders_pushed_only_when_new_witness:
  "isCommandTick c9_world (sq_lastCommand c9_squad)
   \<and> sq_lastCommand c9_squad \<noteq> 0
   \<and> qw_currentTick c9_world > sq_lastCommand c9_squad + 15
   \<and> sq_lastCommand (fst (fst (onAiUpdate c9_world (c9_squad, [])))) = 520
   \<and> \<not> isCommandTick (c9_world\<lparr>qw_currentTick := 510\<rparr>) (sq_lastCommand c9_squad)
   \<and> fst (onAiUpdate (c9_world\<lparr>qw_currentTick := 510\<rparr>) (c9_squad, [])) = (c9_squad, [])"
proof -
  have cmd: "isCommandTick c9_world (sq_lastCommand c9_squad)"
    "sq_lastCommand c9_squad \<noteq> 0" "qw_currentTick c9_world = 520"
    by (simp_all add: isCommandTick_def c9_world_def c9_squad_def newNavalSquad_def squad_consts)
  have quiet: "\<not> isCommandTick (c9_world\<lparr>qw_currentTick := 510\<rparr>) (sq_lastCommand c9_squad)"
    "\<not> qw_currentTick (c9_world\<lparr>qw_currentTick := 510\<rparr>) > sq_lastStuckCheck c9_squad + 60"
    by (simp_all add: isCommandTick_def c9_world_def c9_squad_def newNavalSquad_def squad_consts)
  from orders_pushed_only_when_new [of "(c9_squad, [])" c9_world _ _ "sq_lastCommand c9_squad"] cmd
  have a: "sq_lastCommand (fst (fst (onAiUpdate c9_world (c9_squad, [])))) = 520"
    "qw_currentTick c9_world > sq_lastCommand c9_squad + 15"
    by simp_all
  from orders_pushed_only_when_new [of "(c9_squad, [])" "c9_world\<lparr>qw_currentTick := 510\<rparr>"] quiet
  have b: "fst (onAiUpdate (c9_world\<lparr>qw_currentTick := 510\<rparr>) (c9_squad, [])) = (c9_squad, [])"
    by simp
  from cmd a b quiet(1) show ?thesis by blast
qed

lemma handleStuckUnit_pushes_move:
  assumes "sq_lastOrderGiven sq (ud_id u) = Some l" and "ba_orderType l = Attack"
    and "ud_name u \<noteq> ''E1''"
  shows "map ba_unitId (snd (handleStuckUnit w (sq, b) u t)) = map ba_unitId b @ [ud_id u]
         \<and> map ba_orderType (snd (handleStuckUnit w (sq, b) u t))
             = map ba_orderType b @ [Move]"
  using assms
  by (simp add: handleStuckUnit_def Let_def startPathfinding_def submitActionIfNew_def
      manageMoveMicro_def isSameAs_def push_def)

text \<open>
  The claim as stated fails for the full squad: tick 183 is not a command tick (the last one
  was 170), yet the stuck check, due since tick 182, finds the destroyer on the same tile for
  the third time and pushes a move order for it.
\<close>

theorem stuck_recovery_order_counterexample:
  "\<not> isCommandTick c6_world (sq_lastCommand c6_squad)
   \<and> map ba_unitId (snd (fst (onAiUpdate c6_world (c6_squad, [])))) = [1]
   \<and> map ba_orderType (snd (fst (onAiUpdate c6_world (c6_squad, [])))) = [Move]"
proof -
  let ?sampled = "c6_squad\<lparr>sq_lastStuckCheck := 183,
      sq_unitPositionHistory :=
        [1 \<mapsto> [\<lparr>up_x = 5, up_y = 5, up_timestamp = 61\<rparr>,
                 \<lparr>up_x = 5, up_y = 5, up_timestamp = 122\<rparr>,
                 \<lparr>up_x = 5, up_y = 5, up_timestamp = 183\<rparr>]]\<rparr>"
  have nocmd: "\<not> isCommandTick c6_world (sq_lastCommand c6_squad)"
    by (simp add: isCommandTick_def c6_world_def c6_squad_def newNavalSquad_def squad_consts)
  have units: "navalUnits c6_world = [exampleShip 1 5 5]"
    by (simp add: navalUnits_def c6_world_def)
  have ship: "ud_id (exampleShip 1 5 5) = 1" "ud_rx (exampleShip 1 5 5) = 5"
    "ud_ry (exampleShip 1 5 5) = 5" "ud_name (exampleShip 1 5 5) \<noteq> ''E1''"
    by (simp_all add: exampleShip_def)
  have sample: "updateUnitPosition (c6_squad\<lparr>sq_lastStuckCheck := 183\<rparr>) (exampleShip 1 5 5) 183
                  = ?sampled"
    by (simp add: updateUnitPosition_def exampleShip_def c6_squad_def newNavalSquad_def
        squad_consts Let_def fun_eq_iff)
  have stuck: "isUnitStuck ?sampled (exampleShip 1 5 5)"
    by (simp add: isUnitStuck_def exampleShip_def c6_squad_def newNavalSquad_def squad_consts
        getDistanceBetweenPoints_def)
  have check: "stuckCheck c6_world (c6_squad, [])
                 = handleStuckUnit c6_world (?sampled, []) (exampleShip 1 5 5) 183"
    using sample stuck
    by (simp add: stuckCheck_def units Let_def squad_consts)
       (simp add: c6_world_def c6_squad_def newNavalSquad_def)
  have last: "sq_lastOrderGiven ?sampled (ud_id (exampleShip 1 5 5))
                = Some \<lparr>ba_unitId = 1, ba_orderType = Attack, ba_point = None,
                        ba_targetId = Some 9\<rparr>"
    by (simp add: exampleShip_def c6_squad_def newNavalSquad_def)
  have lc: "sq_lastCommand (fst (stuckCheck c6_world (c6_squad, []))) = sq_lastCommand c6_squad"
    using stuckCheck_frame(2) [of c6_world "(c6_squad, [])"] by simp
  have "fst (onAiUpdate c6_world (c6_squad, []))
          = handleStuckUnit c6_world (?sampled, []) (exampleShip 1 5 5) 183"
    using nocmd lc by (simp add: onAiUpdate_def Let_def check)
  with handleStuckUnit_pushes_move [OF last _ ship(4), of c6_world "[]" 183] nocmd ship(1)
  show ?thesis by simp
qed

end
